theory Spec2Isabelle
  imports Main
begin

section \<open>Data model (state.ts)\<close>

text \<open>
  Timestamps are produced by \<^verbatim>\<open>new Date().toISOString()\<close>; the model keeps the clock
  reading (milliseconds) instead of its ISO rendering.
\<close>

type_synonym timestamp = nat

text \<open>A Terraform output value, as far as the program stores it: a string or a list of strings.\<close>

datatype tfvalue = TfStr string | TfList "string list"

record BootstrapOutputs =
  state_bucket :: tfvalue
  state_lock_table :: tfvalue

record FoundationOutputs =
  vpc_id :: tfvalue
  private_subnet_ids :: tfvalue
  public_subnet_ids :: tfvalue
  aurora_cluster_endpoint :: tfvalue
  aurora_cluster_reader_endpoint :: tfvalue
  aurora_security_group_id :: tfvalue
  aurora_secret_arn :: tfvalue
  iam_policy_s3_arn :: tfvalue
  data_bucket :: tfvalue
  data_bucket_arn :: tfvalue
  logs_bucket :: tfvalue
  logs_bucket_arn :: tfvalue

record EksOutputs =
  cluster_name :: tfvalue
  cluster_endpoint :: tfvalue
  oidc_provider_arn :: tfvalue

text \<open>
  \<^verbatim>\<open>ComponentState\<close>: the optional fields are options. The field \<^verbatim>\<open>version\<close> of the source
  is \<open>chart_version\<close> here, because \<open>LabState\<close> has a field \<open>version\<close> too.
\<close>

record ComponentState =
  deployed :: bool
  chart_version :: "string option"
  namespace :: "string option"
  release_name :: "string option"
  deployed_at :: "timestamp option"

text \<open>The keys of \<^verbatim>\<open>LabState["components"]\<close>.\<close>

datatype component = Keycloak | Polaris | Trino | Spark | Opa

record Components =
  keycloak :: "ComponentState option"
  polaris :: "ComponentState option"
  trino :: "ComponentState option"
  spark :: "ComponentState option"
  opa :: "ComponentState option"

record LabState =
  version :: string
  lab_name :: string
  created_at :: timestamp
  updated_at :: timestamp
  bootstrapped :: bool
  bootstrap_outputs :: "BootstrapOutputs option"
  foundation_deployed :: bool
  foundation_outputs :: "FoundationOutputs option"
  eks_deployed :: bool
  eks_outputs :: "EksOutputs option"
  cluster_ready :: "bool option"
  cluster_context :: "string option"
  essentials_deployed :: "bool option"
  components :: Components

text \<open>\<^verbatim>\<open>state.components[c]\<close>, \<^verbatim>\<open>state.components[c] = v\<close> and \<^verbatim>\<open>delete state.components[c]\<close>.\<close>

fun get_component :: "Components \<Rightarrow> component \<Rightarrow> ComponentState option" where
  "get_component cs Keycloak = keycloak cs"
| "get_component cs Polaris = polaris cs"
| "get_component cs Trino = trino cs"
| "get_component cs Spark = spark cs"
| "get_component cs Opa = opa cs"

fun set_component :: "Components \<Rightarrow> component \<Rightarrow> ComponentState option \<Rightarrow> Components" where
  "set_component cs Keycloak v = cs\<lparr>keycloak := v\<rparr>"
| "set_component cs Polaris v = cs\<lparr>polaris := v\<rparr>"
| "set_component cs Trino v = cs\<lparr>trino := v\<rparr>"
| "set_component cs Spark v = cs\<lparr>spark := v\<rparr>"
| "set_component cs Opa v = cs\<lparr>opa := v\<rparr>"

text \<open>JavaScript truthiness of an optional boolean: \<^verbatim>\<open>undefined\<close> is falsy.\<close>

definition truthy :: "bool option \<Rightarrow> bool" where
  "truthy b = (b = Some True)"

text \<open>\<^verbatim>\<open>state.components?.c?.deployed\<close> as a condition.\<close>

definition is_deployed :: "LabState \<Rightarrow> component \<Rightarrow> bool" where
  "is_deployed s c = (case get_component (components s) c of None \<Rightarrow> False | Some r \<Rightarrow> deployed r)"

section \<open>The process and its environment\<close>

text \<open>
  The program talks to the outside through child processes (\<^verbatim>\<open>execa\<close>), the Terraform
  wrapper \<^verbatim>\<open>terraform.ts\<close>, the terminal and the file system. Each interaction is a
  \<open>call\<close>; a call records the command and its main target, not every argument.
\<close>

datatype tfdir = BootstrapDir | FoundationDir | EphemeralDir

datatype tfop = WriteBackendConfig | Init | Plan | Apply | Output | Destroy

text \<open>
  \<open>Execa prog args\<close> is \<^verbatim>\<open>execa(prog, args)\<close>; of the arguments the model keeps the
  subcommand and its targets, and leaves out the flags that only shape the output.
  \<open>Terraform op dir\<close> is a function of \<^verbatim>\<open>terraform.ts\<close> on a module directory.
  \<open>ReadFile\<close> and \<open>WriteFile\<close> are the reads of templates and writes of generated
  files, \<open>Question\<close> is \<^verbatim>\<open>rl.question\<close>, \<open>Sleep ms\<close> is a \<^verbatim>\<open>setTimeout\<close> that is awaited.
\<close>

datatype call =
    Execa string "string list"
  | Terraform tfop tfdir
  | ReadFile string
  | WriteFile string
  | Question
  | Sleep nat

text \<open>
  What a child process gives back: its standard output, or (when \<^verbatim>\<open>execa\<close> rejects) the
  exit code and standard error, with the defaults of the source (\<^verbatim>\<open>exitCode ?? 1\<close>,
  \<^verbatim>\<open>stderr ?? ""\<close>) already applied. For \<open>Question\<close> the output is the line typed.
\<close>

datatype result = Ok string | Err nat string

datatype error =
    Error string
  | KubectlError string nat string
  | HelmError string nat string
  | AwsCliError string nat string
  | DatabaseError string nat string
  | TerraformError tfdir
  | ExecaError nat string
  | TypeError
  | SyntaxError
  | UnhandledRejection

text \<open>
  The state file \<^verbatim>\<open>.lab/state.json\<close>: absent, holding a full record, or holding a
  proper prefix of a serialised record (which \<^verbatim>\<open>JSON.parse\<close> rejects).
\<close>

datatype statefile = Missing | Truncated | Complete LabState

text \<open>Console lines are kept by their fixed text, without colours and interpolated values.\<close>

datatype event = Exec call | Log string | WriteState LabState

text \<open>
  The running process: the wall clock (\<^verbatim>\<open>Date.now()\<close>), everything done so far, the state
  file, and the one \<open>LabState\<close> object the command holds. Every function of the source that
  takes \<^verbatim>\<open>state\<close> gets that same object, and mutates it in place; \<open>mem\<close> is that object.

  A promise that rejects while nothing awaits it and nothing catches it makes Node end the
  process with exit code 1 once the rejection is delivered, which happens when the process
  next waits, or when the command has returned. \<open>due\<close> says that such a rejection is on its
  way (the program has one such promise, the port forward of \<^verbatim>\<open>testOpaPolicy\<close>), \<open>ended\<close>
  that it has been delivered and the process is gone.
\<close>

record world =
  clock :: nat
  trace :: "event list"
  state_file :: statefile
  mem :: LabState
  due :: bool
  ended :: bool

text \<open>
  The environment answers each call, knowing everything that happened before it, says how
  long the call took, and gives the output map of \<^verbatim>\<open>terraform output\<close>. Where several
  calls are awaited at once, \<open>pick\<close> says which of them comes back first.
\<close>

record env =
  respond :: "event list \<Rightarrow> call \<Rightarrow> result"
  elapse :: "event list \<Rightarrow> call \<Rightarrow> nat"
  tf_outputs :: "event list \<Rightarrow> tfdir \<Rightarrow> string \<Rightarrow> tfvalue option"
  pick :: "event list \<Rightarrow> nat"

type_synonym 'a io = "world \<Rightarrow> (error + 'a) \<times> world"

definition returnIO :: "'a \<Rightarrow> 'a io" where
  "returnIO x w = (Inr x, w)"

definition throwIO :: "error \<Rightarrow> 'a io" where
  "throwIO e w = (Inl e, w)"

definition bindIO :: "'a io \<Rightarrow> ('a \<Rightarrow> 'b io) \<Rightarrow> 'b io" where
  "bindIO m f w = (case m w of (Inl e, w') \<Rightarrow> (Inl e, w') | (Inr x, w') \<Rightarrow> f x w')"

definition thenIO :: "'a io \<Rightarrow> 'b io \<Rightarrow> 'b io" where
  "thenIO m n = bindIO m (\<lambda>_. n)"

text \<open>
  \<^verbatim>\<open>try { m } catch (error) { h(error) }\<close>. The end of the process is not an error that
  is thrown into the block: when the process ends inside \<open>m\<close>, no handler runs.
\<close>

definition catchIO :: "'a io \<Rightarrow> (error \<Rightarrow> 'a io) \<Rightarrow> 'a io" where
  "catchIO m h w =
     (case m w of
        (Inl e, w') \<Rightarrow> if ended w' \<and> \<not> ended w then (Inl e, w') else h e w'
      | (Inr x, w') \<Rightarrow> (Inr x, w'))"

definition whenIO :: "bool \<Rightarrow> unit io \<Rightarrow> unit io" where
  "whenIO b m = (if b then m else returnIO ())"

definition getState :: "LabState io" where
  "getState w = (Inr (mem w), w)"

definition modifyState :: "(LabState \<Rightarrow> LabState) \<Rightarrow> unit io" where
  "modifyState f w = (Inr (), w\<lparr>mem := f (mem w)\<rparr>)"

definition now :: "nat io" where
  "now w = (Inr (clock w), w)"

definition log :: "string \<Rightarrow> unit io" where
  "log m w = (Inr (), w\<lparr>trace := trace w @ [Log m]\<rparr>)"

text \<open>A call takes the time the environment says; sleeping takes at least the time asked.\<close>

definition duration :: "env \<Rightarrow> event list \<Rightarrow> call \<Rightarrow> nat" where
  "duration en h c = (case c of Sleep d \<Rightarrow> d | _ \<Rightarrow> 0) + elapse en h c"

definition execa :: "env \<Rightarrow> call \<Rightarrow> result io" where
  "execa en c w =
     (Inr (respond en (trace w) c),
      w\<lparr>clock := clock w + duration en (trace w) c, trace := trace w @ [Exec c]\<rparr>)"

definition sleep :: "env \<Rightarrow> nat \<Rightarrow> unit io" where
  "sleep en d = bindIO (execa en (Sleep d)) (\<lambda>_. returnIO ())"

text \<open>\<^verbatim>\<open>await execa(...)\<close> where the caller uses the output and does not wrap the rejection.\<close>

definition execa_throw :: "env \<Rightarrow> call \<Rightarrow> string io" where
  "execa_throw en c =
     bindIO (execa en c) (\<lambda>r.
       case r of Ok out \<Rightarrow> returnIO out | Err exitCode stderr \<Rightarrow> throwIO (ExecaError exitCode stderr))"

text \<open>\<^verbatim>\<open>readFileSync\<close> of a template and \<^verbatim>\<open>writeFileSync\<close> of a generated file.\<close>

definition readFile :: "env \<Rightarrow> string \<Rightarrow> unit io" where
  "readFile en path = bindIO (execa_throw en (ReadFile path)) (\<lambda>_. returnIO ())"

definition writeFile :: "env \<Rightarrow> string \<Rightarrow> unit io" where
  "writeFile en path = bindIO (execa_throw en (WriteFile path)) (\<lambda>_. returnIO ())"

text \<open>
  \<^verbatim>\<open>const p = execa(...)\<close> with no \<^verbatim>\<open>await\<close> and no \<^verbatim>\<open>catch\<close> on \<open>p\<close>: the child
  process is started and the program goes on. The reply of the environment says what the
  child does by itself: with \<open>Err\<close> it fails, the promise rejects, and the rejection is
  then due; with \<open>Ok\<close> it keeps running.
\<close>

definition start_unawaited :: "env \<Rightarrow> call \<Rightarrow> unit io" where
  "start_unawaited en c w =
     (Inr (), w\<lparr>trace := trace w @ [Exec c],
               due := (due w \<or> (case respond en (trace w) c of Ok _ \<Rightarrow> False
                                    | Err _ _ \<Rightarrow> True))\<rparr>)"

text \<open>
  \<^verbatim>\<open>p.kill()\<close> on a child started that way. A child that is still running is terminated by
  the signal, and \<^verbatim>\<open>execa\<close> rejects the promise of a child that a signal terminated; a
  child that has failed has rejected it already. Either way a rejection is due afterwards.
\<close>

definition kill_unawaited :: "unit io" where
  "kill_unawaited w = (Inr (), w\<lparr>due := True\<rparr>)"

text \<open>
  An \<^verbatim>\<open>await\<close> at which a rejection that is due may be delivered. The rejection and the
  awaited reply are both on their way, and \<open>pick\<close> says which comes first (the rejection
  is number 0): if it is the rejection, the process ends here and the awaited reply is never
  handled.
\<close>

definition beside_due :: "env \<Rightarrow> 'a io \<Rightarrow> 'a io" where
  "beside_due en m w =
     (if due w \<and> \<not> ended w \<and> pick en (trace w) mod 2 = 0
      then (Inl UnhandledRejection, w\<lparr>ended := True\<rparr>)
      else m w)"

section \<open>state.ts\<close>

text \<open>
  \<^verbatim>\<open>saveState\<close>: \<^verbatim>\<open>state.updated_at = new Date().toISOString()\<close>, then
  \<^verbatim>\<open>writeFileSync(stateFile, JSON.stringify(state, null, 2))\<close>.
\<close>

definition writeFileSync :: "LabState \<Rightarrow> unit io" where
  "writeFileSync s w = (Inr (), w\<lparr>state_file := Complete s, trace := trace w @ [WriteState s]\<rparr>)"

definition saveState :: "unit io" where
  "saveState = bindIO now (\<lambda>t.
     thenIO (modifyState (\<lambda>s. s\<lparr>updated_at := t\<rparr>))
            (bindIO getState writeFileSync))"

text \<open>
  \<^verbatim>\<open>writeFileSync\<close> writes in place: it opens the target with flag \<^verbatim>\<open>'w'\<close>, which creates or
  truncates the file, then writes the data. A process that stops inside the call leaves the
  file as it was (before the open), cut short (after the open, before the last byte), or
  complete.
\<close>

datatype progress = BeforeOpen | AfterOpen | AfterWrite

fun writeFileSync_interrupted :: "progress \<Rightarrow> LabState \<Rightarrow> statefile \<Rightarrow> statefile" where
  "writeFileSync_interrupted BeforeOpen s f = f"
| "writeFileSync_interrupted AfterOpen s f = Truncated"
| "writeFileSync_interrupted AfterWrite s f = Complete s"

text \<open>The state file when the process stops inside \<^verbatim>\<open>saveState\<close> at the given point.\<close>

definition saveState_interrupted :: "progress \<Rightarrow> world \<Rightarrow> statefile" where
  "saveState_interrupted p w =
     writeFileSync_interrupted p ((mem w)\<lparr>updated_at := clock w\<rparr>) (state_file w)"

text \<open>
  \<^verbatim>\<open>loadState\<close>: the parsed file if it exists, else a new record. \<^verbatim>\<open>JSON.parse\<close> throws
  a \<^verbatim>\<open>SyntaxError\<close> on a file that was cut short.
\<close>

definition initialState :: "string \<Rightarrow> timestamp \<Rightarrow> LabState" where
  "initialState labName t =
     \<lparr>version = ''1'', lab_name = labName, created_at = t, updated_at = t,
      bootstrapped = False, bootstrap_outputs = None,
      foundation_deployed = False, foundation_outputs = None,
      eks_deployed = False, eks_outputs = None,
      cluster_ready = None, cluster_context = None, essentials_deployed = None,
      components = \<lparr>keycloak = None, polaris = None, trino = None, spark = None, opa = None\<rparr>\<rparr>"

definition loadState :: "string \<Rightarrow> LabState io" where
  "loadState labName w =
     (case state_file w of
        Complete s \<Rightarrow> (Inr s, w)
      | Truncated \<Rightarrow> (Inl SyntaxError, w)
      | Missing \<Rightarrow> (Inr (initialState labName (clock w)), w))"

text \<open>
  \<^verbatim>\<open>outputs.k.value\<close>: a key that is missing makes the property access throw a
  \<^verbatim>\<open>TypeError\<close>. The update functions below set their flag before they read the outputs; when
  a read throws, nothing is saved and the command ends, so the model reads first.
\<close>

definition output_value :: "(string \<Rightarrow> tfvalue option) \<Rightarrow> string \<Rightarrow> tfvalue io" where
  "output_value outputs k = (case outputs k of None \<Rightarrow> throwIO TypeError | Some v \<Rightarrow> returnIO v)"

definition updateBootstrapState :: "(string \<Rightarrow> tfvalue option) \<Rightarrow> unit io" where
  "updateBootstrapState outputs =
     bindIO (output_value outputs ''state_bucket'') (\<lambda>b.
     bindIO (output_value outputs ''state_lock_table'') (\<lambda>t.
     thenIO (modifyState (\<lambda>s. s\<lparr>bootstrapped := True,
               bootstrap_outputs := Some \<lparr>state_bucket = b, state_lock_table = t\<rparr>\<rparr>))
            saveState))"

definition updateFoundationState :: "(string \<Rightarrow> tfvalue option) \<Rightarrow> unit io" where
  "updateFoundationState outputs =
     bindIO (output_value outputs ''vpc_id'') (\<lambda>v1.
     bindIO (output_value outputs ''private_subnet_ids'') (\<lambda>v2.
     bindIO (output_value outputs ''public_subnet_ids'') (\<lambda>v3.
     bindIO (output_value outputs ''aurora_cluster_endpoint'') (\<lambda>v4.
     bindIO (output_value outputs ''aurora_cluster_reader_endpoint'') (\<lambda>v5.
     bindIO (output_value outputs ''aurora_security_group_id'') (\<lambda>v6.
     bindIO (output_value outputs ''aurora_secret_arn'') (\<lambda>v7.
     bindIO (output_value outputs ''iam_policy_s3_arn'') (\<lambda>v8.
     bindIO (output_value outputs ''data_bucket'') (\<lambda>v9.
     bindIO (output_value outputs ''data_bucket_arn'') (\<lambda>v10.
     bindIO (output_value outputs ''logs_bucket'') (\<lambda>v11.
     bindIO (output_value outputs ''logs_bucket_arn'') (\<lambda>v12.
     thenIO (modifyState (\<lambda>s. s\<lparr>foundation_deployed := True,
               foundation_outputs := Some
                 \<lparr>vpc_id = v1, private_subnet_ids = v2, public_subnet_ids = v3,
                  aurora_cluster_endpoint = v4, aurora_cluster_reader_endpoint = v5,
                  aurora_security_group_id = v6, aurora_secret_arn = v7,
                  iam_policy_s3_arn = v8, data_bucket = v9, data_bucket_arn = v10,
                  logs_bucket = v11, logs_bucket_arn = v12\<rparr>\<rparr>))
            saveState))))))))))))"

definition updateEksState :: "(string \<Rightarrow> tfvalue option) \<Rightarrow> unit io" where
  "updateEksState outputs =
     bindIO (output_value outputs ''cluster_name'') (\<lambda>n.
     bindIO (output_value outputs ''cluster_endpoint'') (\<lambda>e.
     bindIO (output_value outputs ''oidc_provider_arn'') (\<lambda>a.
     thenIO (modifyState (\<lambda>s. s\<lparr>eks_deployed := True,
               eks_outputs := Some \<lparr>cluster_name = n, cluster_endpoint = e,
                                    oidc_provider_arn = a\<rparr>\<rparr>))
            saveState)))"

definition updateClusterReadyState :: "string option \<Rightarrow> bool \<Rightarrow> unit io" where
  "updateClusterReadyState contextName essentialsDeployed =
     thenIO (modifyState (\<lambda>s. s\<lparr>cluster_ready := Some True, cluster_context := contextName,
               essentials_deployed := Some essentialsDeployed\<rparr>))
            saveState"

definition clearEphemeralState :: "unit io" where
  "clearEphemeralState =
     thenIO (modifyState (\<lambda>s. s\<lparr>eks_deployed := False, eks_outputs := None,
               cluster_ready := Some False, cluster_context := None,
               essentials_deployed := Some False\<rparr>))
            saveState"

definition updateComponentState :: "component \<Rightarrow> ComponentState \<Rightarrow> unit io" where
  "updateComponentState c componentState =
     thenIO (modifyState (\<lambda>s. s\<lparr>components := set_component (components s) c (Some componentState)\<rparr>))
            saveState"

definition clearComponentState :: "component \<Rightarrow> unit io" where
  "clearComponentState c =
     thenIO (modifyState (\<lambda>s. s\<lparr>components := set_component (components s) c None\<rparr>))
            saveState"

section \<open>Strings\<close>

text \<open>\<^verbatim>\<open>s.includes(sub)\<close>, \<^verbatim>\<open>s.trim()\<close>, \<^verbatim>\<open>s.toLowerCase()\<close> (on ASCII), \<^verbatim>\<open>s.split(c)\<close>.\<close>

fun startsWith :: "string \<Rightarrow> string \<Rightarrow> bool" where
  "startsWith s [] = True"
| "startsWith [] (p # ps) = False"
| "startsWith (c # cs) (p # ps) = (c = p \<and> startsWith cs ps)"

fun includes_str :: "string \<Rightarrow> string \<Rightarrow> bool" where
  "includes_str [] sub = (sub = [])"
| "includes_str (c # cs) sub = (startsWith (c # cs) sub \<or> includes_str cs sub)"

definition is_space :: "char \<Rightarrow> bool" where
  "is_space c = (c \<in> set [CHR '' '', CHR 0x09, CHR 0x0A, CHR 0x0B, CHR 0x0C, CHR 0x0D])"

definition trim :: "string \<Rightarrow> string" where
  "trim s = rev (dropWhile is_space (rev (dropWhile is_space s)))"

definition lower_char :: "char \<Rightarrow> char" where
  "lower_char c =
     (let n = (of_char c :: nat) in if 65 \<le> n \<and> n \<le> 90 then char_of (n + 32) else c)"

definition toLowerCase :: "string \<Rightarrow> string" where
  "toLowerCase s = map lower_char s"

fun split_str :: "char \<Rightarrow> string \<Rightarrow> string list" where
  "split_str c [] = [[]]"
| "split_str c (x # xs) =
     (if x = c then [] # split_str c xs
      else (case split_str c xs of [] \<Rightarrow> [[x]] | y # ys \<Rightarrow> (x # y) # ys))"

text \<open>Decimal rendering of an integer, for the messages that interpolate one.\<close>

definition digit :: "nat \<Rightarrow> char" where
  "digit n = ''0123456789'' ! n"

fun show_nat :: "nat \<Rightarrow> string" where
  "show_nat n = (if n < 10 then [digit n] else show_nat (n div 10) @ [digit (n mod 10)])"

definition show_int :: "int \<Rightarrow> string" where
  "show_int i = (if i < 0 then CHR ''-'' # show_nat (nat (- i)) else show_nat (nat i))"

section \<open>JSON.parse\<close>

text \<open>
  Whether \<^verbatim>\<open>JSON.parse\<close> accepts a text: one value (an object, an array, a string, a
  number, \<^verbatim>\<open>true\<close>, \<^verbatim>\<open>false\<close> or \<^verbatim>\<open>null\<close>) with blanks around it. The callers
  use of the parsed value only that it is there and, where they read a property of it, that
  it is not \<^verbatim>\<open>null\<close>. \<open>json_chars\<close> reads a string after its opening quote and gives what
  follows the closing quote; the argument \<open>n\<close> of \<open>json_value\<close> bounds the number of
  nested calls, and twice the length of the text is enough.
\<close>

definition json_ws :: "char \<Rightarrow> bool" where
  "json_ws c = (c \<in> set [CHR '' '', CHR 0x09, CHR 0x0A, CHR 0x0D])"

definition is_digit :: "char \<Rightarrow> bool" where
  "is_digit c = (c \<in> set ''0123456789'')"

definition is_hex :: "char \<Rightarrow> bool" where
  "is_hex c = (c \<in> set ''0123456789abcdefABCDEF'')"

function json_chars :: "string \<Rightarrow> string option" where
  "json_chars [] = None"
| "json_chars [c] = (if c = CHR 0x22 then Some [] else None)"
| "json_chars (c # d # cs) =
     (if c = CHR 0x22 then Some (d # cs)
      else if c = CHR 0x5C then
        (if d \<in> set [CHR 0x22, CHR 0x5C, CHR ''/'', CHR ''b'', CHR ''f'', CHR ''n'', CHR ''r'',
                      CHR ''t'']
         then json_chars cs
         else if d = CHR ''u'' \<and> 4 \<le> length cs \<and> list_all is_hex (take 4 cs)
         then json_chars (drop 4 cs)
         else None)
      else if (of_char c :: nat) < 32 then None
      else json_chars (d # cs))"
  by pat_completeness auto
termination by (relation "measure length") auto

definition json_number :: "string \<Rightarrow> string option" where
  "json_number s =
     (let s1 = (if take 1 s = ''-'' then drop 1 s else s);
          ds = takeWhile is_digit s1;
          r1 = dropWhile is_digit s1
      in if ds = [] \<or> (1 < length ds \<and> hd ds = CHR ''0'') then None
         else
           (let r2 = (if take 1 r1 = ''.''
                      then (if takeWhile is_digit (drop 1 r1) = [] then None
                            else Some (dropWhile is_digit (drop 1 r1)))
                      else Some r1)
            in case r2 of
                 None \<Rightarrow> None
               | Some r \<Rightarrow>
                   if take 1 r = ''e'' \<or> take 1 r = ''E''
                   then (let r3 = drop 1 r;
                             r4 = (if take 1 r3 = ''+'' \<or> take 1 r3 = ''-'' then drop 1 r3 else r3)
                         in if takeWhile is_digit r4 = [] then None
                            else Some (dropWhile is_digit r4))
                   else Some r))"

fun json_value :: "nat \<Rightarrow> string \<Rightarrow> string option"
and json_elements :: "nat \<Rightarrow> string \<Rightarrow> string option"
and json_members :: "nat \<Rightarrow> string \<Rightarrow> string option" where
  "json_value 0 s = None"
| "json_value (Suc n) s =
     (case dropWhile json_ws s of
        [] \<Rightarrow> None
      | c # cs \<Rightarrow>
          if c = CHR ''{'' then
            (case dropWhile json_ws cs of
               [] \<Rightarrow> None
             | d # ds \<Rightarrow> if d = CHR ''}'' then Some ds else json_members n (d # ds))
          else if c = CHR ''['' then
            (case dropWhile json_ws cs of
               [] \<Rightarrow> None
             | d # ds \<Rightarrow> if d = CHR '']'' then Some ds else json_elements n (d # ds))
          else if c = CHR 0x22 then json_chars cs
          else if take 4 (c # cs) = ''true'' then Some (drop 4 (c # cs))
          else if take 5 (c # cs) = ''false'' then Some (drop 5 (c # cs))
          else if take 4 (c # cs) = ''null'' then Some (drop 4 (c # cs))
          else json_number (c # cs))"
| "json_elements 0 s = None"
| "json_elements (Suc n) s =
     (case json_value n s of
        None \<Rightarrow> None
      | Some r \<Rightarrow>
          (case dropWhile json_ws r of
             [] \<Rightarrow> None
           | c # cs \<Rightarrow> if c = CHR '','' then json_elements n cs
                      else if c = CHR '']'' then Some cs else None))"
| "json_members 0 s = None"
| "json_members (Suc n) s =
     (case dropWhile json_ws s of
        [] \<Rightarrow> None
      | q # qs \<Rightarrow>
          if q \<noteq> CHR 0x22 then None
          else (case json_chars qs of
                  None \<Rightarrow> None
                | Some r \<Rightarrow>
                    (case dropWhile json_ws r of
                       [] \<Rightarrow> None
                     | c # cs \<Rightarrow>
                         if c \<noteq> CHR '':'' then None
                         else (case json_value n cs of
                                 None \<Rightarrow> None
                               | Some r2 \<Rightarrow>
                                   (case dropWhile json_ws r2 of
                                      [] \<Rightarrow> None
                                    | e # es \<Rightarrow> if e = CHR '','' then json_members n es
                                               else if e = CHR ''}'' then Some es
                                               else None)))))"

definition json_ok :: "string \<Rightarrow> bool" where
  "json_ok s = (case json_value (2 * length s + 2) s of
                  None \<Rightarrow> False
                | Some r \<Rightarrow> dropWhile json_ws r = [])"

definition json_null :: "string \<Rightarrow> bool" where
  "json_null s = (filter (\<lambda>c. \<not> json_ws c) s = ''null'')"

section \<open>config.ts\<close>

text \<open>Of the configuration the orchestration reads the lab name and the region.\<close>

record Config =
  config_lab_name :: string
  config_aws_region :: string

section \<open>terraform.ts\<close>

text \<open>
  Modelled from the spec: \<^verbatim>\<open>terraform.ts\<close> is not among the sources. The spec's
  ProvisionerGateway has \<^verbatim>\<open>plan\<close>, \<^verbatim>\<open>apply\<close>, \<^verbatim>\<open>destroy\<close> and \<^verbatim>\<open>output\<close> on a module
  directory, and a failure of one of them aborts the command; the callers also use \<^verbatim>\<open>init\<close>
  and \<^verbatim>\<open>writeBackendConfig\<close>. Each is a call that the environment lets succeed or fail;
  \<^verbatim>\<open>output\<close> gives the environment's output map.
\<close>

definition terraform :: "env \<Rightarrow> tfop \<Rightarrow> tfdir \<Rightarrow> unit io" where
  "terraform en op dir =
     bindIO (execa en (Terraform op dir)) (\<lambda>r.
       case r of Ok _ \<Rightarrow> returnIO () | Err _ _ \<Rightarrow> throwIO (TerraformError dir))"

definition terraform_output :: "env \<Rightarrow> tfdir \<Rightarrow> (string \<Rightarrow> tfvalue option) io" where
  "terraform_output en dir w =
     (case terraform en Output dir w of
        (Inl e, w') \<Rightarrow> (Inl e, w')
      | (Inr _, w') \<Rightarrow> (Inr (tf_outputs en (trace w) dir), w'))"

section \<open>utils/prompts.ts\<close>

definition confirm :: "env \<Rightarrow> bool \<Rightarrow> bool io" where
  "confirm en defaultValue =
     bindIO (execa en Question) (\<lambda>r.
       let answer = (case r of Ok a \<Rightarrow> a | Err _ _ \<Rightarrow> []);
           normalized = toLowerCase (trim answer)
       in if normalized = [] then returnIO defaultValue
          else if normalized = ''y'' \<or> normalized = ''yes'' then returnIO True
          else returnIO False)"

definition confirmDestructive :: "env \<Rightarrow> string \<Rightarrow> bool io" where
  "confirmDestructive en confirmationValue =
     bindIO (execa en Question) (\<lambda>r.
       let answer = (case r of Ok a \<Rightarrow> a | Err _ _ \<Rightarrow> [])
       in returnIO (trim answer = confirmationValue))"

section \<open>utils/aws.ts\<close>

definition succeeded :: "result \<Rightarrow> bool" where
  "succeeded r = (case r of Ok _ \<Rightarrow> True | Err _ _ \<Rightarrow> False)"

definition checkAwsCliInstalled :: "env \<Rightarrow> bool io" where
  "checkAwsCliInstalled en =
     bindIO (execa en (Execa ''aws'' [''--version''])) (\<lambda>r. returnIO (succeeded r))"

text \<open>\<^verbatim>\<open>getEksClusterStatus\<close>: \<open>None\<close> is \<^verbatim>\<open>null\<close>, the cluster was not found.\<close>

definition getEksClusterStatus :: "env \<Rightarrow> string \<Rightarrow> string \<Rightarrow> string option io" where
  "getEksClusterStatus en clusterName region =
     bindIO (execa en (Execa ''aws'' [''eks'', ''describe-cluster'', clusterName, region])) (\<lambda>r.
       case r of
         Ok out \<Rightarrow> returnIO (Some (trim out))
       | Err exitCode stderr \<Rightarrow>
           if exitCode = 254 \<or> includes_str stderr ''ResourceNotFoundException''
           then returnIO None
           else throwIO (AwsCliError ''eks describe-cluster'' exitCode stderr))"

text \<open>
  \<^verbatim>\<open>getSecretValue\<close> gives the secret as parsed by \<^verbatim>\<open>JSON.parse\<close>, inside its
  \<^verbatim>\<open>try\<close>: a text that does not parse is rethrown as an \<^verbatim>\<open>AwsCliError\<close> with the
  defaults for exit code and standard error. The model gives the text that parsed.
\<close>

definition getSecretValue :: "env \<Rightarrow> string \<Rightarrow> string \<Rightarrow> string io" where
  "getSecretValue en secretArn region =
     bindIO (execa en (Execa ''aws'' [''secretsmanager'', ''get-secret-value'', secretArn, region])) (\<lambda>r.
       case r of
         Ok out \<Rightarrow>
           if json_ok out then returnIO out
           else throwIO (AwsCliError ''secretsmanager get-secret-value'' 1 [])
       | Err exitCode stderr \<Rightarrow>
           throwIO (AwsCliError ''secretsmanager get-secret-value'' exitCode stderr))"

definition checkS3BucketExists :: "env \<Rightarrow> string \<Rightarrow> string \<Rightarrow> bool io" where
  "checkS3BucketExists en bucketName region =
     bindIO (execa en (Execa ''aws'' [''s3api'', ''head-bucket'', bucketName, region])) (\<lambda>r.
       returnIO (succeeded r))"

definition checkAuroraClusterStatus :: "env \<Rightarrow> string \<Rightarrow> string \<Rightarrow> string option io" where
  "checkAuroraClusterStatus en clusterIdentifier region =
     bindIO (execa en (Execa ''aws'' [''rds'', ''describe-db-clusters'', clusterIdentifier, region])) (\<lambda>r.
       case r of Ok out \<Rightarrow> returnIO (Some (trim out)) | Err _ _ \<Rightarrow> returnIO None)"

section \<open>utils/kubernetes.ts\<close>

definition checkKubectlInstalled :: "env \<Rightarrow> bool io" where
  "checkKubectlInstalled en =
     bindIO (execa en (Execa ''kubectl'' [''version'', ''--client''])) (\<lambda>r. returnIO (succeeded r))"

definition configureKubeconfig :: "env \<Rightarrow> string \<Rightarrow> string \<Rightarrow> string \<Rightarrow> unit io" where
  "configureKubeconfig en clusterName region contextName =
     thenIO (log ''Configuring kubeconfig...'')
     (bindIO (execa en (Execa ''aws'' [''eks'', ''update-kubeconfig'', clusterName, region, contextName])) (\<lambda>r.
       case r of
         Ok _ \<Rightarrow> log ''Kubeconfig updated with context''
       | Err exitCode stderr \<Rightarrow> throwIO (KubectlError ''aws eks update-kubeconfig'' exitCode stderr)))"

text \<open>\<^verbatim>\<open>getNodeStatus\<close> gives the pair (ready, total).\<close>

definition getNodeStatus :: "env \<Rightarrow> (nat \<times> nat) io" where
  "getNodeStatus en =
     bindIO (execa en (Execa ''kubectl'' [''get'', ''nodes''])) (\<lambda>r.
       case r of
         Ok out \<Rightarrow>
           let lines = filter (\<lambda>line. line \<noteq> []) (split_str (CHR 0x0A) (trim out));
               ready = length (filter (\<lambda>line. trim line = ''True'') lines)
           in returnIO (ready, length lines)
       | Err exitCode stderr \<Rightarrow> throwIO (KubectlError ''get nodes'' exitCode stderr))"

definition createNamespace :: "env \<Rightarrow> string \<Rightarrow> unit io" where
  "createNamespace en name =
     bindIO (execa en (Execa ''kubectl'' [''create'', ''namespace'', name])) (\<lambda>r.
       case r of
         Ok _ \<Rightarrow> log ''Created namespace''
       | Err exitCode stderr \<Rightarrow>
           if includes_str stderr ''AlreadyExists'' then log ''Namespace already exists''
           else throwIO (KubectlError ''create namespace'' exitCode stderr))"

definition deleteNamespace :: "env \<Rightarrow> string \<Rightarrow> unit io" where
  "deleteNamespace en name =
     bindIO (execa en (Execa ''kubectl'' [''delete'', ''namespace'', name])) (\<lambda>r.
       case r of
         Ok _ \<Rightarrow> log ''Deleted namespace''
       | Err _ _ \<Rightarrow> log ''Warning: Could not delete namespace'')"

text \<open>
  \<^verbatim>\<open>createSecretFromAWS\<close>: every failure after the existence check, of whatever class,
  is rethrown as a \<^verbatim>\<open>KubectlError\<close> with the exit code and standard error of the failure.
  \<^verbatim>\<open>Object.entries(secretData)\<close> throws a \<^verbatim>\<open>TypeError\<close> on \<^verbatim>\<open>null\<close>.
\<close>

definition error_exitCode :: "error \<Rightarrow> nat" where
  "error_exitCode e =
     (case e of KubectlError _ c _ \<Rightarrow> c | HelmError _ c _ \<Rightarrow> c | AwsCliError _ c _ \<Rightarrow> c
      | DatabaseError _ c _ \<Rightarrow> c | ExecaError c _ \<Rightarrow> c | _ \<Rightarrow> 1)"

definition error_stderr :: "error \<Rightarrow> string" where
  "error_stderr e =
     (case e of KubectlError _ _ s \<Rightarrow> s | HelmError _ _ s \<Rightarrow> s | AwsCliError _ _ s \<Rightarrow> s
      | DatabaseError _ _ s \<Rightarrow> s | ExecaError _ s \<Rightarrow> s | _ \<Rightarrow> [])"

text \<open>\<^verbatim>\<open>(error as Error).message\<close>\<close>

definition error_message :: "error \<Rightarrow> string" where
  "error_message e =
     (case e of
        Error m \<Rightarrow> m
      | KubectlError c _ _ \<Rightarrow> ''kubectl command failed: '' @ c
      | HelmError c _ _ \<Rightarrow> ''Helm command failed: '' @ c
      | AwsCliError c _ _ \<Rightarrow> ''AWS CLI command failed: '' @ c
      | DatabaseError c _ _ \<Rightarrow> ''Database operation failed: '' @ c
      | TerraformError _ \<Rightarrow> ''Terraform command failed''
      | ExecaError _ _ \<Rightarrow> ''Command failed''
      | TypeError \<Rightarrow> ''Cannot read properties of undefined''
      | SyntaxError \<Rightarrow> ''Unexpected end of JSON input''
      | UnhandledRejection \<Rightarrow> ''Command failed'')"

definition createSecretFromAWS :: "env \<Rightarrow> string \<Rightarrow> string \<Rightarrow> string \<Rightarrow> string \<Rightarrow> unit io" where
  "createSecretFromAWS en secretName ns awsSecretArn region =
     thenIO (log ''Creating secret'')
     (bindIO (execa en (Execa ''kubectl'' [''get'', ''secret'', secretName, ns])) (\<lambda>r.
       case r of
         Ok _ \<Rightarrow> log ''Secret already exists, skipping''
       | Err _ _ \<Rightarrow>
           catchIO
             (bindIO (getSecretValue en awsSecretArn region) (\<lambda>secretData.
              if json_null secretData then throwIO TypeError
              else
              bindIO (execa en (Execa ''kubectl'' [''create'', ''secret'', ''generic'', secretName, ns])) (\<lambda>r2.
                case r2 of
                  Ok _ \<Rightarrow> log ''Created secret''
                | Err exitCode stderr \<Rightarrow> throwIO (ExecaError exitCode stderr))))
             (\<lambda>e. throwIO (KubectlError ''create secret'' (error_exitCode e) (error_stderr e)))))"

section \<open>utils/helm.ts\<close>

definition checkHelmInstalled :: "env \<Rightarrow> bool io" where
  "checkHelmInstalled en =
     bindIO (execa en (Execa ''helm'' [''version'', ''--short''])) (\<lambda>r. returnIO (succeeded r))"

definition addHelmRepo :: "env \<Rightarrow> string \<Rightarrow> string \<Rightarrow> unit io" where
  "addHelmRepo en name url =
     thenIO (log ''Adding Helm repository'')
     (bindIO (execa en (Execa ''helm'' [''repo'', ''add'', name, url])) (\<lambda>r.
       case r of
         Ok _ \<Rightarrow> log ''Helm repo added''
       | Err exitCode stderr \<Rightarrow>
           if includes_str stderr ''already exists'' then log ''Helm repo already exists''
           else throwIO (HelmError ''repo add'' exitCode stderr)))"

definition updateHelmRepos :: "env \<Rightarrow> unit io" where
  "updateHelmRepos en =
     thenIO (log ''Updating Helm repositories...'')
     (bindIO (execa en (Execa ''helm'' [''repo'', ''update''])) (\<lambda>r.
       case r of
         Ok _ \<Rightarrow> log ''Helm repos updated''
       | Err exitCode stderr \<Rightarrow> throwIO (HelmError ''repo update'' exitCode stderr)))"

definition installChart :: "env \<Rightarrow> string \<Rightarrow> string \<Rightarrow> string \<Rightarrow> unit io" where
  "installChart en releaseName chart ns =
     thenIO (log ''Installing Helm chart'')
     (bindIO (execa en (Execa ''helm'' [''upgrade'', ''--install'', releaseName, chart, ns])) (\<lambda>r.
       case r of
         Ok _ \<Rightarrow> log ''Helm chart installed''
       | Err exitCode stderr \<Rightarrow> throwIO (HelmError ''upgrade --install'' exitCode stderr)))"

text \<open>
  \<^verbatim>\<open>uninstallChart\<close>, in two parts: the call, and what is done with its reply (used as
  well where the call is awaited next to others).
\<close>

definition uninstall_call :: "string \<Rightarrow> string \<Rightarrow> call" where
  "uninstall_call releaseName ns = Execa ''helm'' [''uninstall'', releaseName, ns]"

definition uninstall_reply :: "result \<Rightarrow> unit io" where
  "uninstall_reply r =
     (case r of
        Ok _ \<Rightarrow> log ''Helm chart uninstalled''
      | Err exitCode stderr \<Rightarrow>
          if includes_str stderr ''not found'' then log ''Helm release not found''
          else throwIO (HelmError ''uninstall'' exitCode stderr))"

definition uninstallChart :: "env \<Rightarrow> string \<Rightarrow> string \<Rightarrow> unit io" where
  "uninstallChart en releaseName ns =
     thenIO (log ''Uninstalling Helm chart'')
     (bindIO (execa en (uninstall_call releaseName ns)) uninstall_reply)"

text \<open>
  \<^verbatim>\<open>getRelease\<close> is used for whether it gives \<^verbatim>\<open>null\<close> only; \<open>True\<close> is a release. It
  parses the output with \<^verbatim>\<open>JSON.parse\<close> and reads \<^verbatim>\<open>data.info\<close> inside its \<^verbatim>\<open>try\<close>:
  an output that does not parse, or that is \<^verbatim>\<open>null\<close>, reaches the \<^verbatim>\<open>catch\<close> as an
  error without standard error or exit code, and is rethrown as a \<^verbatim>\<open>HelmError\<close>.
\<close>

definition getRelease :: "env \<Rightarrow> string \<Rightarrow> string \<Rightarrow> bool io" where
  "getRelease en releaseName ns =
     bindIO (execa en (Execa ''helm'' [''status'', releaseName, ns])) (\<lambda>r.
       case r of
         Ok out \<Rightarrow>
           if json_ok out \<and> \<not> json_null out then returnIO True
           else throwIO (HelmError ''status'' 1 [])
       | Err exitCode stderr \<Rightarrow>
           if includes_str stderr ''not found'' then returnIO False
           else throwIO (HelmError ''status'' exitCode stderr))"

definition releaseExists :: "env \<Rightarrow> string \<Rightarrow> string \<Rightarrow> bool io" where
  "releaseExists en releaseName ns = getRelease en releaseName ns"

section \<open>utils/database.ts\<close>

text \<open>
  \<^verbatim>\<open>parseDatabaseCredentials\<close> reads four properties of the parsed secret, which throws
  a \<^verbatim>\<open>TypeError\<close> when the secret is \<^verbatim>\<open>null\<close>; the credentials themselves are not used
  by the model.
\<close>

definition parseDatabaseCredentials :: "string \<Rightarrow> unit io" where
  "parseDatabaseCredentials secretData =
     (if json_null secretData then throwIO TypeError else returnIO ())"

definition checkPsqlInstalled :: "env \<Rightarrow> bool io" where
  "checkPsqlInstalled en =
     bindIO (execa en (Execa ''psql'' [''--version''])) (\<lambda>r. returnIO (succeeded r))"

definition executePsql :: "env \<Rightarrow> string \<Rightarrow> string \<Rightarrow> string io" where
  "executePsql en database sql =
     bindIO (execa en (Execa ''psql'' [database, sql])) (\<lambda>r.
       case r of
         Ok out \<Rightarrow> returnIO (trim out)
       | Err exitCode stderr \<Rightarrow> throwIO (DatabaseError ''psql'' exitCode stderr))"

definition checkDatabaseExists :: "env \<Rightarrow> string \<Rightarrow> bool io" where
  "checkDatabaseExists en dbName =
     catchIO
       (bindIO (executePsql en ''postgres'' (''SELECT 1 FROM pg_database WHERE datname = '' @ dbName))
          (\<lambda>res. returnIO (res = ''1'')))
       (\<lambda>e. thenIO (log ''Warning: Could not check database'') (returnIO False))"

definition createDatabaseIfNotExists :: "env \<Rightarrow> string \<Rightarrow> unit io" where
  "createDatabaseIfNotExists en dbName =
     thenIO (log ''Checking database'')
     (bindIO (checkDatabaseExists en dbName) (\<lambda>exists.
       if exists then log ''Database already exists''
       else thenIO (log ''Creating database'')
            (catchIO
               (thenIO (executePsql en ''postgres'' (''CREATE DATABASE '' @ dbName))
                       (log ''Database created''))
               (\<lambda>e. throwIO (DatabaseError ''CREATE DATABASE'' 1 (error_message e))))))"

section \<open>The polling loops\<close>

text \<open>
  The source has seven loops of one shape,
  \<^verbatim>\<open>while (Date.now() - startTime < timeoutMs) { check; sleep(pollInterval) }\<close> followed by
  \<^verbatim>\<open>throw new Error("Timeout ...")\<close>: for the cluster to be active (aws.ts), for the nodes
  to be ready (kubernetes.ts) and for the pods of each component. They are one recursive
  function here, with the check, the interval and the message chosen by a \<open>waiter\<close>. A
  check gives \<open>True\<close> where the loop body returns and \<open>False\<close> where it goes on to sleep.
\<close>

datatype waiter = EksActive string string | NodesReady | PodsRunning component

definition component_namespace :: "component \<Rightarrow> string" where
  "component_namespace c =
     (case c of Keycloak \<Rightarrow> ''keycloak'' | Polaris \<Rightarrow> ''polaris'' | Trino \<Rightarrow> ''trino''
      | Spark \<Rightarrow> ''spark'' | Opa \<Rightarrow> ''opa'')"

definition component_release :: "component \<Rightarrow> string" where
  "component_release c =
     (case c of Keycloak \<Rightarrow> ''keycloak'' | Polaris \<Rightarrow> ''polaris'' | Trino \<Rightarrow> ''trino''
      | Spark \<Rightarrow> ''spark-operator'' | Opa \<Rightarrow> ''opa'')"

definition component_label :: "component \<Rightarrow> string" where
  "component_label c =
     (case c of Keycloak \<Rightarrow> ''app.kubernetes.io/name=keycloak''
      | Polaris \<Rightarrow> ''app.kubernetes.io/name=polaris''
      | Trino \<Rightarrow> ''app=trino,component=coordinator''
      | Spark \<Rightarrow> ''app.kubernetes.io/name=spark-operator''
      | Opa \<Rightarrow> ''app=opa'')"

definition component_title :: "component \<Rightarrow> string" where
  "component_title c =
     (case c of Keycloak \<Rightarrow> ''Keycloak'' | Polaris \<Rightarrow> ''Polaris'' | Trino \<Rightarrow> ''Trino''
      | Spark \<Rightarrow> ''Spark Operator'' | Opa \<Rightarrow> ''OPA'')"

definition get_pods :: "string \<Rightarrow> string \<Rightarrow> call" where
  "get_pods ns label = Execa ''kubectl'' [''get'', ''pods'', ns, label]"

definition check_eks :: "env \<Rightarrow> string \<Rightarrow> string \<Rightarrow> bool io" where
  "check_eks en clusterName region =
     bindIO (getEksClusterStatus en clusterName region) (\<lambda>status.
       if status = Some ''ACTIVE'' then thenIO (log ''EKS cluster is ACTIVE'') (returnIO True)
       else if status = Some ''FAILED'' \<or> status = Some ''DELETING''
       then throwIO (Error (''EKS cluster is in '' @ the status
                            @ '' state. Check AWS Console for details.''))
       else thenIO (log ''Cluster status: waiting...'') (returnIO False))"

definition check_nodes :: "env \<Rightarrow> bool io" where
  "check_nodes en =
     catchIO
       (bindIO (getNodeStatus en) (\<lambda>(ready, total).
          if total > 0 \<and> ready = total then thenIO (log ''All nodes ready'') (returnIO True)
          else thenIO (log ''Nodes: waiting...'') (returnIO False)))
       (\<lambda>e. thenIO (log ''Cluster not yet accessible, waiting...'') (returnIO False))"

definition check_trino :: "env \<Rightarrow> bool io" where
  "check_trino en =
     catchIO
       (bindIO (execa_throw en (get_pods ''trino'' ''app=trino,component=coordinator'')) (\<lambda>coordStatus.
        bindIO (execa_throw en (get_pods ''trino'' ''app=trino,component=worker'')) (\<lambda>workerStatus.
          let coordReady = includes_str coordStatus ''Running'';
              workerPhases = filter (\<lambda>p. p \<noteq> []) (split_str (CHR '' '') workerStatus);
              workersReady = list_all (\<lambda>p. p = ''Running'') workerPhases
          in if coordReady \<and> workersReady \<and> length workerPhases > 0
             then thenIO (log ''Trino is ready'') (returnIO True)
             else thenIO (log ''Coordinator, Workers: waiting...'') (returnIO False))))
       (\<lambda>e. thenIO (log ''Error checking Trino status, waiting...'') (returnIO False))"

definition check_pods :: "env \<Rightarrow> component \<Rightarrow> bool io" where
  "check_pods en c =
     (if c = Trino then check_trino en
      else catchIO
        (bindIO (execa_throw en (get_pods (component_namespace c) (component_label c))) (\<lambda>out.
           if includes_str out ''Running''
           then thenIO (log (component_title c @ '' is ready'')) (returnIO True)
           else thenIO (log ''pods not ready yet, waiting...'') (returnIO False)))
        (\<lambda>e. thenIO (log ''Error checking status, waiting...'') (returnIO False)))"

fun check :: "env \<Rightarrow> waiter \<Rightarrow> bool io" where
  "check en (EksActive clusterName region) = check_eks en clusterName region"
| "check en NodesReady = check_nodes en"
| "check en (PodsRunning c) = check_pods en c"

fun pollInterval :: "waiter \<Rightarrow> nat" where
  "pollInterval (EksActive clusterName region) = 15000"
| "pollInterval NodesReady = 10000"
| "pollInterval (PodsRunning c) = (if c = Spark \<or> c = Opa then 10000 else 15000)"

fun timeout_subject :: "waiter \<Rightarrow> string" where
  "timeout_subject (EksActive clusterName region) = ''EKS cluster to become ACTIVE''"
| "timeout_subject NodesReady = ''cluster nodes to be ready''"
| "timeout_subject (PodsRunning c) = component_title c @ '' to be ready''"

definition timeout_error :: "waiter \<Rightarrow> int \<Rightarrow> error" where
  "timeout_error wt timeoutMinutes =
     Error (''Timeout waiting for '' @ timeout_subject wt @ '' after ''
            @ show_int timeoutMinutes @ '' minutes'')"

function waitLoop :: "env \<Rightarrow> waiter \<Rightarrow> int \<Rightarrow> nat \<Rightarrow> unit io" where
  "waitLoop en wt timeoutMinutes startTime w =
     (if int (clock w) - int startTime < timeoutMinutes * 60 * 1000 then
        (case check en wt w of
           (Inl e, w1) \<Rightarrow> (Inl e, w1)
         | (Inr True, w1) \<Rightarrow> (Inr (), w1)
         | (Inr False, w1) \<Rightarrow>
             waitLoop en wt timeoutMinutes startTime (snd (sleep en (pollInterval wt) w1)))
      else throwIO (timeout_error wt timeoutMinutes) w)"
  by pat_completeness auto

section \<open>Relations that every step respects\<close>

text \<open>
  \<open>rel_io R m\<close>: running \<open>m\<close> takes every world to one that is \<open>R\<close>-related to it,
  whether \<open>m\<close> returns or throws.
\<close>

definition rel_io :: "(world \<Rightarrow> world \<Rightarrow> bool) \<Rightarrow> 'a io \<Rightarrow> bool" where
  "rel_io R m = (\<forall>w. R w (snd (m w)))"

definition preorder_on_worlds :: "(world \<Rightarrow> world \<Rightarrow> bool) \<Rightarrow> bool" where
  "preorder_on_worlds R = ((\<forall>w. R w w) \<and> (\<forall>a b c. R a b \<longrightarrow> R b c \<longrightarrow> R a c))"

text \<open>A relation is steady when console lines and calls respect it, whatever they are.\<close>

definition steady :: "(world \<Rightarrow> world \<Rightarrow> bool) \<Rightarrow> bool" where
  "steady R = (preorder_on_worlds R
     \<and> (\<forall>m w. R w (w\<lparr>trace := trace w @ [Log m]\<rparr>))
     \<and> (\<forall>c w. R w (w\<lparr>trace := trace w @ [Exec c]\<rparr>))
     \<and> (\<forall>d w. R w (w\<lparr>clock := clock w + d\<rparr>)))"

definition clock_le :: "world \<Rightarrow> world \<Rightarrow> bool" where
  "clock_le w w' = (clock w \<le> clock w')"

named_theorems rel_intros

lemma rel_ioD: "rel_io R m \<Longrightarrow> m w = (r, w') \<Longrightarrow> R w w'"
  by (auto simp: rel_io_def dest: spec[of _ w])

lemma rel_ioI: "(\<And>w. R w (snd (m w))) \<Longrightarrow> rel_io R m"
  by (simp add: rel_io_def)

lemma steady_preorder [rel_intros]: "steady R \<Longrightarrow> preorder_on_worlds R"
  by (simp add: steady_def)

lemma preorder_refl: "preorder_on_worlds R \<Longrightarrow> R w w"
  by (simp add: preorder_on_worlds_def)

lemma preorder_trans: "preorder_on_worlds R \<Longrightarrow> R a b \<Longrightarrow> R b c \<Longrightarrow> R a c"
  unfolding preorder_on_worlds_def by blast

lemma steady_refl: "steady R \<Longrightarrow> R w w"
  by (simp add: steady_def preorder_on_worlds_def)

lemma steady_trans: "steady R \<Longrightarrow> R a b \<Longrightarrow> R b c \<Longrightarrow> R a c"
  unfolding steady_def preorder_on_worlds_def by blast

lemma rel_returnIO [rel_intros]: "preorder_on_worlds R \<Longrightarrow> rel_io R (returnIO x)"
  by (simp add: rel_io_def returnIO_def preorder_refl)

lemma rel_throwIO [rel_intros]: "preorder_on_worlds R \<Longrightarrow> rel_io R (throwIO x)"
  by (simp add: rel_io_def throwIO_def preorder_refl)

lemma rel_getState [rel_intros]: "preorder_on_worlds R \<Longrightarrow> rel_io R getState"
  by (simp add: rel_io_def getState_def preorder_refl)

lemma rel_now [rel_intros]: "preorder_on_worlds R \<Longrightarrow> rel_io R now"
  by (simp add: rel_io_def now_def preorder_refl)

lemma rel_log [rel_intros]: "steady R \<Longrightarrow> rel_io R (log m)"
  by (simp add: rel_io_def log_def steady_def)

lemma steady_exec: "steady R \<Longrightarrow> R w (w\<lparr>trace := trace w @ [Exec c]\<rparr>)"
  by (simp add: steady_def)

lemma steady_log: "steady R \<Longrightarrow> R w (w\<lparr>trace := trace w @ [Log m]\<rparr>)"
  by (simp add: steady_def)

lemma steady_tick: "steady R \<Longrightarrow> R w (w\<lparr>clock := clock w + d\<rparr>)"
  by (simp add: steady_def)

lemma rel_execa [rel_intros]:
  assumes "steady R"
  shows "rel_io R (execa en c)"
proof -
  have "R w (w\<lparr>clock := clock w + d, trace := trace w @ [Exec c]\<rparr>)" for w d
    using steady_trans[OF assms steady_tick[OF assms, of w d]
        steady_exec[OF assms, of "w\<lparr>clock := clock w + d\<rparr>" c]]
    by simp
  then show ?thesis
    by (simp add: rel_io_def execa_def)
qed

lemma rel_bindIO [rel_intros]:
  assumes "preorder_on_worlds R" "rel_io R m" "\<And>x. rel_io R (f x)"
  shows "rel_io R (bindIO m f)"
proof (rule rel_ioI)
  fix w
  obtain r w1 where m: "m w = (r, w1)" by (cases "m w")
  have 1: "R w w1" using assms(2) m by (rule rel_ioD)
  show "R w (snd (bindIO m f w))"
  proof (cases r)
    case (Inl e)
    then show ?thesis using 1 m by (simp add: bindIO_def)
  next
    case (Inr x)
    have "R w1 (snd (f x w1))" using assms(3)[of x] by (simp add: rel_io_def)
    then have "R w (snd (f x w1))" using 1 assms(1) preorder_trans by blast
    then show ?thesis using m Inr by (simp add: bindIO_def)
  qed
qed

lemma rel_thenIO [rel_intros]:
  "preorder_on_worlds R \<Longrightarrow> rel_io R m \<Longrightarrow> rel_io R n \<Longrightarrow> rel_io R (thenIO m n)"
  by (simp add: thenIO_def rel_bindIO)

lemma rel_catchIO [rel_intros]:
  assumes "preorder_on_worlds R" "rel_io R m" "\<And>e. rel_io R (h e)"
  shows "rel_io R (catchIO m h)"
proof (rule rel_ioI)
  fix w
  obtain r w1 where m: "m w = (r, w1)" by (cases "m w")
  have 1: "R w w1" using assms(2) m by (rule rel_ioD)
  show "R w (snd (catchIO m h w))"
  proof (cases r)
    case (Inr x)
    then show ?thesis using 1 m by (simp add: catchIO_def)
  next
    case (Inl e)
    have "R w1 (snd (h e w1))" using assms(3)[of e] by (simp add: rel_io_def)
    then have "R w (snd (h e w1))" using 1 assms(1) preorder_trans by blast
    then show ?thesis using m Inl 1 by (simp add: catchIO_def)
  qed
qed

lemma rel_whenIO [rel_intros]: "preorder_on_worlds R \<Longrightarrow> rel_io R m \<Longrightarrow> rel_io R (whenIO b m)"
  by (simp add: whenIO_def rel_returnIO)

text \<open>
  A relation is dooming when it is also respected when a rejection becomes due and when the
  process ends by one.
\<close>

definition dooming :: "(world \<Rightarrow> world \<Rightarrow> bool) \<Rightarrow> bool" where
  "dooming R = ((\<forall>w. R w (w\<lparr>due := True\<rparr>)) \<and> (\<forall>w. R w (w\<lparr>ended := True\<rparr>)))"

lemma rel_start_unawaited [rel_intros]:
  assumes "steady R" "dooming R"
  shows "rel_io R (start_unawaited en c)"
proof (rule rel_ioI)
  fix w :: world
  define w1 where "w1 = w\<lparr>trace := trace w @ [Exec c]\<rparr>"
  have 1: "R w w1" using steady_exec[OF assms(1)] by (simp add: w1_def)
  have "R w1 (w1\<lparr>due := True\<rparr>)" using assms(2) by (simp add: dooming_def)
  then have 2: "R w (w1\<lparr>due := True\<rparr>)" using 1 steady_trans[OF assms(1)] by blast
  show "R w (snd (start_unawaited en c w))"
  proof (cases "respond en (trace w) c")
    case (Ok out)
    then have "snd (start_unawaited en c w) = w1"
      by (simp add: start_unawaited_def w1_def)
    then show ?thesis using 1 by simp
  next
    case (Err code stderr)
    then have "snd (start_unawaited en c w) = w1\<lparr>due := True\<rparr>"
      by (simp add: start_unawaited_def w1_def)
    then show ?thesis using 2 by simp
  qed
qed

lemma rel_kill_unawaited [rel_intros]:
  assumes "dooming R"
  shows "rel_io R kill_unawaited"
  using assms by (simp add: rel_io_def dooming_def kill_unawaited_def)

lemma rel_beside_due [rel_intros]:
  assumes "dooming R" "rel_io R m"
  shows "rel_io R (beside_due en m)"
proof (rule rel_ioI)
  fix w :: world
  show "R w (snd (beside_due en m w))"
    using assms by (simp add: beside_due_def dooming_def rel_io_def)
qed

lemma rel_if [rel_intros]: "rel_io R m \<Longrightarrow> rel_io R n \<Longrightarrow> rel_io R (if b then m else n)"
  by simp

lemma rel_case_result [rel_intros]:
  "(\<And>out. rel_io R (f out)) \<Longrightarrow> (\<And>c s. rel_io R (g c s))
   \<Longrightarrow> rel_io R (case r of Ok out \<Rightarrow> f out | Err c s \<Rightarrow> g c s)"
  by (cases r) simp_all

lemma rel_case_prod [rel_intros]:
  "(\<And>a b. rel_io R (f a b)) \<Longrightarrow> rel_io R (case p of (a, b) \<Rightarrow> f a b)"
  by (cases p) simp

lemma rel_case_option [rel_intros]:
  "rel_io R f \<Longrightarrow> (\<And>x. rel_io R (g x)) \<Longrightarrow> rel_io R (case v of None \<Rightarrow> f | Some x \<Rightarrow> g x)"
  by (cases v) simp_all

lemma rel_let [rel_intros]: "(\<And>x. rel_io R (f x)) \<Longrightarrow> rel_io R (let x = v in f x)"
  by simp

lemma steady_clock_le: "steady clock_le"
  by (auto simp: steady_def preorder_on_worlds_def clock_le_def)

lemma rel_execa_throw [rel_intros]: "steady R \<Longrightarrow> rel_io R (execa_throw en c)"
  unfolding execa_throw_def by (intro rel_intros)

lemma rel_sleep [rel_intros]: "steady R \<Longrightarrow> rel_io R (sleep en d)"
  unfolding sleep_def by (intro rel_intros)

lemma rel_getEksClusterStatus [rel_intros]:
  "steady R \<Longrightarrow> rel_io R (getEksClusterStatus en a b)"
  unfolding getEksClusterStatus_def by (intro rel_intros)

lemma rel_getNodeStatus [rel_intros]: "steady R \<Longrightarrow> rel_io R (getNodeStatus en)"
  unfolding getNodeStatus_def by (intro rel_intros)

lemma rel_check_eks [rel_intros]: "steady R \<Longrightarrow> rel_io R (check_eks en a b)"
  unfolding check_eks_def by (intro rel_intros)

lemma rel_check_nodes [rel_intros]: "steady R \<Longrightarrow> rel_io R (check_nodes en)"
  unfolding check_nodes_def by (intro rel_intros)

lemma rel_check_trino [rel_intros]: "steady R \<Longrightarrow> rel_io R (check_trino en)"
  unfolding check_trino_def by (intro rel_intros)

lemma rel_check_pods [rel_intros]: "steady R \<Longrightarrow> rel_io R (check_pods en c)"
  unfolding check_pods_def by (intro rel_intros)

lemma rel_check [rel_intros]: "steady R \<Longrightarrow> rel_io R (check en wt)"
  by (cases wt) (simp_all add: rel_intros)

text \<open>Each round of a loop moves the clock on by at least the interval, so the loop ends.\<close>

termination waitLoop
proof (relation "measure (\<lambda>(en, wt, tm, st, w). nat (int st + tm * 60 * 1000 - int (clock w)))",
    goal_cases)
  case 1
  show ?case by simp
next
  case (2 en wt tm st w x1 w1 x2b)
  have "clock w \<le> clock w1"
    using rel_ioD[OF rel_check[OF steady_clock_le, of en wt], of w x1 w1] 2(2)
    by (simp add: clock_le_def)
  moreover have "clock w1 + pollInterval wt \<le> clock (snd (sleep en (pollInterval wt) w1))"
    by (simp add: sleep_def bindIO_def execa_def returnIO_def duration_def)
  moreover have "0 < pollInterval wt"
    by (cases wt) auto
  ultimately show ?case
    using 2(1) by simp
qed

section \<open>components/*.ts\<close>

definition tf_string :: "tfvalue \<Rightarrow> string" where
  "tf_string v = (case v of TfStr x \<Rightarrow> x | TfList xs \<Rightarrow> concat (map (\<lambda>x. x @ '','') xs))"

text \<open>The wrappers of the polling loops: \<^verbatim>\<open>startTime = Date.now()\<close>, a console line, the loop.\<close>

definition waitForEksClusterActive :: "env \<Rightarrow> string \<Rightarrow> string \<Rightarrow> int \<Rightarrow> unit io" where
  "waitForEksClusterActive en clusterName region timeoutMinutes =
     bindIO now (\<lambda>startTime.
     thenIO (log ''Waiting for EKS cluster to become ACTIVE...'')
            (waitLoop en (EksActive clusterName region) timeoutMinutes startTime))"

text \<open>\<^verbatim>\<open>waitForClusterReady\<close> of kubernetes.ts (up.ts has a function of the same name).\<close>

definition k8s_waitForClusterReady :: "env \<Rightarrow> string \<Rightarrow> int \<Rightarrow> unit io" where
  "k8s_waitForClusterReady en clusterName timeoutMinutes =
     bindIO now (\<lambda>startTime.
     thenIO (log ''Waiting for cluster nodes to be ready...'')
            (waitLoop en NodesReady timeoutMinutes startTime))"

text \<open>\<^verbatim>\<open>waitForKeycloakReady\<close>, \<^verbatim>\<open>waitForPolarisReady\<close>, \<^verbatim>\<open>waitForTrinoReady\<close>,
  \<^verbatim>\<open>waitForSparkReady\<close>, \<^verbatim>\<open>waitForOpaReady\<close>.\<close>

definition waitForComponentReady :: "env \<Rightarrow> component \<Rightarrow> int \<Rightarrow> unit io" where
  "waitForComponentReady en c timeoutMinutes =
     bindIO now (\<lambda>startTime.
     thenIO (log (''Waiting for '' @ component_title c @ '' to be ready...''))
            (waitLoop en (PodsRunning c) timeoutMinutes startTime))"

text \<open>\<^verbatim>\<open>getKeycloakUrl\<close>, \<^verbatim>\<open>getPolarisUrl\<close>, \<^verbatim>\<open>getTrinoUrl\<close>: \<open>None\<close> is \<^verbatim>\<open>null\<close>.\<close>

definition getComponentUrl :: "env \<Rightarrow> component \<Rightarrow> string option io" where
  "getComponentUrl en c =
     bindIO (execa en (Execa ''kubectl'' [''get'', ''svc'', component_release c, component_namespace c])) (\<lambda>r.
       case r of
         Ok out \<Rightarrow> if out \<noteq> [] then returnIO (Some (''http://'' @ out)) else returnIO None
       | Err _ _ \<Rightarrow> returnIO None)"

definition getAccountId :: "env \<Rightarrow> string io" where
  "getAccountId en =
     bindIO (execa en (Execa ''aws'' [''sts'', ''get-caller-identity''])) (\<lambda>r.
       case r of
         Ok out \<Rightarrow> returnIO (trim out)
       | Err _ _ \<Rightarrow> throwIO (Error ''Failed to get AWS account ID''))"

text \<open>The records the deploy functions return.\<close>

definition already_deployed :: "component \<Rightarrow> ComponentState" where
  "already_deployed c =
     \<lparr>deployed = True, chart_version = None, namespace = Some (component_namespace c),
      release_name = Some (component_release c), deployed_at = None\<rparr>"

definition newly_deployed :: "component \<Rightarrow> timestamp \<Rightarrow> ComponentState" where
  "newly_deployed c t =
     \<lparr>deployed = True, chart_version = None, namespace = Some (component_namespace c),
      release_name = Some (component_release c), deployed_at = Some t\<rparr>"

definition not_deployed :: "component \<Rightarrow> ComponentState" where
  "not_deployed c =
     \<lparr>deployed = False, chart_version = None, namespace = Some (component_namespace c),
      release_name = Some (component_release c), deployed_at = None\<rparr>"

subsection \<open>keycloak.ts\<close>

definition createComponentDatabase :: "env \<Rightarrow> Config \<Rightarrow> string \<Rightarrow> unit io" where
  "createComponentDatabase en config dbName =
     bindIO getState (\<lambda>state.
       case foundation_outputs state of
         None \<Rightarrow> throwIO (Error ''Foundation outputs not available'')
       | Some fo \<Rightarrow>
           thenIO (log ''Creating database...'')
           (bindIO (getSecretValue en (tf_string (aurora_secret_arn fo)) (config_aws_region config))
              (\<lambda>auroraSecret.
                 thenIO (parseDatabaseCredentials auroraSecret)
                        (createDatabaseIfNotExists en dbName))))"

definition createKeycloakDatabase :: "env \<Rightarrow> Config \<Rightarrow> unit io" where
  "createKeycloakDatabase en config = createComponentDatabase en config ''keycloak''"

definition generateKeycloakValues :: "env \<Rightarrow> Config \<Rightarrow> unit io" where
  "generateKeycloakValues en config =
     bindIO getState (\<lambda>state.
       case foundation_outputs state of
         None \<Rightarrow> throwIO (Error ''Foundation outputs not available'')
       | Some fo \<Rightarrow>
           bindIO (getSecretValue en (tf_string (aurora_secret_arn fo)) (config_aws_region config))
             (\<lambda>auroraSecret.
              thenIO (parseDatabaseCredentials auroraSecret)
             (thenIO (readFile en ''src/helm/keycloak-values.yaml.template'')
                     (writeFile en ''.lab/helm/keycloak-values.yaml''))))"

definition deployRealmConfigMap :: "env \<Rightarrow> unit io" where
  "deployRealmConfigMap en =
     thenIO (log ''Creating Keycloak realm ConfigMap...'')
     (catchIO
        (thenIO (createNamespace en ''keycloak'')
        (thenIO (bindIO (execa en (Execa ''kubectl'' [''delete'', ''configmap'', ''keycloak-realm'', ''keycloak'']))
                   (\<lambda>_. returnIO ()))
        (thenIO (execa_throw en (Execa ''kubectl'' [''create'', ''configmap'', ''keycloak-realm'', ''keycloak'']))
                (log ''Realm ConfigMap created''))))
        (\<lambda>e. throwIO (KubectlError ''create configmap'' 1 (error_message e))))"

definition deployKeycloak :: "env \<Rightarrow> Config \<Rightarrow> bool \<Rightarrow> ComponentState io" where
  "deployKeycloak en config force =
     thenIO (log ''Deploying Keycloak'')
     (bindIO (releaseExists en ''keycloak'' ''keycloak'') (\<lambda>exists.
       if exists \<and> \<not> force
       then thenIO (log ''Keycloak already deployed'') (returnIO (already_deployed Keycloak))
       else
         thenIO (createKeycloakDatabase en config)
        (thenIO (deployRealmConfigMap en)
        (thenIO (addHelmRepo en ''bitnami'' ''https://charts.bitnami.com/bitnami'')
        (thenIO (updateHelmRepos en)
        (thenIO (generateKeycloakValues en config)
        (thenIO (installChart en ''keycloak'' ''bitnami/keycloak'' ''keycloak'')
        (thenIO (waitForComponentReady en Keycloak 10)
        (bindIO (getComponentUrl en Keycloak) (\<lambda>url.
         thenIO (log ''Keycloak deployed successfully'')
        (bindIO now (\<lambda>t. returnIO (newly_deployed Keycloak t)))))))))))))"

definition undeployKeycloak :: "env \<Rightarrow> unit io" where
  "undeployKeycloak en =
     thenIO (log ''Undeploying Keycloak...'')
    (thenIO (uninstallChart en ''keycloak'' ''keycloak'')
            (log ''Keycloak undeployed''))"

subsection \<open>polaris.ts\<close>

definition createPolarisDatabase :: "env \<Rightarrow> Config \<Rightarrow> unit io" where
  "createPolarisDatabase en config = createComponentDatabase en config ''polaris''"

definition generatePolarisValues :: "env \<Rightarrow> Config \<Rightarrow> unit io" where
  "generatePolarisValues en config =
     bindIO getState (\<lambda>state.
       case (foundation_outputs state, eks_outputs state) of
         (Some fo, Some eo) \<Rightarrow>
           bindIO (getSecretValue en (tf_string (aurora_secret_arn fo)) (config_aws_region config))
             (\<lambda>auroraSecret.
            thenIO (parseDatabaseCredentials auroraSecret)
           (bindIO (getComponentUrl en Keycloak) (\<lambda>keycloakUrl.
              case keycloakUrl of
                None \<Rightarrow> throwIO (Error ''Keycloak URL not available. Deploy Keycloak first.'')
              | Some url \<Rightarrow>
                  bindIO (getAccountId en) (\<lambda>accountId.
                  thenIO (readFile en ''src/helm/polaris-values.yaml.template'')
                         (writeFile en ''.lab/helm/polaris-values.yaml'')))))
       | _ \<Rightarrow> throwIO (Error ''Foundation and EKS outputs not available''))"

text \<open>
  The \<^verbatim>\<open>try\<close> around the chart installation returns the record of a failed deployment from
  its \<^verbatim>\<open>catch\<close>; \<open>installed\<close> says which way the block was left.
\<close>

definition deployPolaris :: "env \<Rightarrow> Config \<Rightarrow> bool \<Rightarrow> ComponentState io" where
  "deployPolaris en config force =
     thenIO (log ''Deploying Polaris'')
     (bindIO getState (\<lambda>state.
       if \<not> is_deployed state Keycloak
       then throwIO (Error ''Keycloak must be deployed before Polaris'')
       else
         bindIO (releaseExists en ''polaris'' ''polaris'') (\<lambda>exists.
           if exists \<and> \<not> force
           then thenIO (log ''Polaris already deployed'') (returnIO (already_deployed Polaris))
           else
             thenIO (createPolarisDatabase en config)
            (thenIO (createNamespace en ''polaris'')
            (thenIO (generatePolarisValues en config)
            (thenIO (log ''Attempting to install from custom chart...'')
            (bindIO
               (catchIO
                  (thenIO (addHelmRepo en ''polaris'' ''https://apache.github.io/polaris'')
                  (thenIO (updateHelmRepos en)
                  (thenIO (installChart en ''polaris'' ''polaris/polaris'' ''polaris'')
                          (returnIO True))))
                  (\<lambda>e. thenIO (log ''Polaris Helm chart not found. Skipping Polaris deployment.'')
                               (returnIO False)))
               (\<lambda>installed.
                  if \<not> installed then returnIO (not_deployed Polaris)
                  else
                    thenIO (waitForComponentReady en Polaris 10)
                   (bindIO (getComponentUrl en Polaris) (\<lambda>url.
                    thenIO (log ''Polaris deployed successfully'')
                   (bindIO now (\<lambda>t. returnIO (newly_deployed Polaris t)))))))))))))"

definition undeployPolaris :: "env \<Rightarrow> unit io" where
  "undeployPolaris en =
     thenIO (log ''Undeploying Polaris...'')
    (thenIO (uninstallChart en ''polaris'' ''polaris'')
            (log ''Polaris undeployed''))"

subsection \<open>trino.ts\<close>

definition generateTrinoValues :: "env \<Rightarrow> Config \<Rightarrow> unit io" where
  "generateTrinoValues en config =
     bindIO getState (\<lambda>state.
       case (foundation_outputs state, eks_outputs state) of
         (Some fo, Some eo) \<Rightarrow>
           bindIO (getComponentUrl en Polaris) (\<lambda>polarisUrl.
             case polarisUrl of
               None \<Rightarrow> throwIO (Error ''Polaris URL not available. Deploy Polaris first.'')
             | Some url \<Rightarrow>
                 bindIO (getAccountId en) (\<lambda>accountId.
                 thenIO (readFile en ''src/helm/trino-values.yaml.template'')
                        (writeFile en ''.lab/helm/trino-values.yaml'')))
       | _ \<Rightarrow> throwIO (Error ''Foundation and EKS outputs not available''))"

definition deployTrino :: "env \<Rightarrow> Config \<Rightarrow> bool \<Rightarrow> ComponentState io" where
  "deployTrino en config force =
     thenIO (log ''Deploying Trino'')
     (bindIO getState (\<lambda>state.
       if \<not> is_deployed state Polaris
       then throwIO (Error ''Polaris must be deployed before Trino'')
       else
         bindIO (releaseExists en ''trino'' ''trino'') (\<lambda>exists.
           if exists \<and> \<not> force
           then thenIO (log ''Trino already deployed'') (returnIO (already_deployed Trino))
           else
             thenIO (createNamespace en ''trino'')
            (thenIO (addHelmRepo en ''trino'' ''https://trinodb.github.io/charts'')
            (thenIO (updateHelmRepos en)
            (thenIO (generateTrinoValues en config)
            (thenIO (log ''Installing Trino chart...'')
            (thenIO (installChart en ''trino'' ''trino/trino'' ''trino'')
            (thenIO (waitForComponentReady en Trino 15)
            (bindIO (getComponentUrl en Trino) (\<lambda>url.
             thenIO (log ''Trino deployed successfully'')
            (bindIO now (\<lambda>t. returnIO (newly_deployed Trino t))))))))))))))"

subsection \<open>spark.ts\<close>

definition generateSparkValues :: "env \<Rightarrow> Config \<Rightarrow> unit io" where
  "generateSparkValues en config =
     bindIO (getAccountId en) (\<lambda>accountId.
     thenIO (readFile en ''src/helm/spark-operator-values.yaml.template'')
            (writeFile en ''.lab/helm/spark-operator-values.yaml''))"

definition createExampleManifest :: "env \<Rightarrow> Config \<Rightarrow> unit io" where
  "createExampleManifest en config =
     bindIO getState (\<lambda>state.
       case foundation_outputs state of
         None \<Rightarrow> throwIO (Error ''Foundation outputs not available'')
       | Some fo \<Rightarrow>
           thenIO (readFile en ''src/config/spark-iceberg-example.yaml'')
          (bindIO (execa en (Execa ''kubectl'' [''get'', ''svc'', ''polaris'', ''polaris''])) (\<lambda>r.
                   writeFile en ''.lab/examples/spark-iceberg-example.yaml'')))"

definition deploySpark :: "env \<Rightarrow> Config \<Rightarrow> bool \<Rightarrow> ComponentState io" where
  "deploySpark en config force =
     thenIO (log ''Deploying Spark'')
     (bindIO getState (\<lambda>state.
      thenIO (whenIO (\<not> is_deployed state Polaris) (log ''Warning: Polaris is not deployed.''))
     (bindIO (releaseExists en ''spark-operator'' ''spark'') (\<lambda>exists.
       if exists \<and> \<not> force
       then thenIO (log ''Spark Operator already deployed'') (returnIO (already_deployed Spark))
       else
         thenIO (createNamespace en ''spark'')
        (thenIO (addHelmRepo en ''spark-operator'' ''https://kubeflow.github.io/spark-operator'')
        (thenIO (updateHelmRepos en)
        (thenIO (generateSparkValues en config)
        (thenIO (log ''Installing Spark Operator chart...'')
        (thenIO (installChart en ''spark-operator'' ''spark-operator/spark-operator'' ''spark'')
        (thenIO (waitForComponentReady en Spark 10)
        (thenIO (createExampleManifest en config)
        (thenIO (log ''Spark Operator deployed successfully'')
        (bindIO now (\<lambda>t. returnIO (newly_deployed Spark t)))))))))))))))"

subsection \<open>opa.ts\<close>

definition generateOpaValues :: "env \<Rightarrow> unit io" where
  "generateOpaValues en =
     thenIO (readFile en ''src/helm/opa-values.yaml.template'')
            (writeFile en ''.lab/helm/opa-values.yaml'')"

definition createPolicyConfigMaps :: "env \<Rightarrow> unit io" where
  "createPolicyConfigMaps en =
     thenIO (log ''Creating policy ConfigMaps...'')
    (thenIO (readFile en ''src/config/policies/data-access.rego'')
    (thenIO (readFile en ''src/config/policies/column-masking.rego'')
    (thenIO (readFile en ''src/config/policies/table-access.rego'')
    (thenIO (writeFile en ''.lab/policies/data-access.rego'')
    (thenIO (writeFile en ''.lab/policies/column-masking.rego'')
    (thenIO (writeFile en ''.lab/policies/table-access.rego'')
    (thenIO (bindIO (execa en (Execa ''kubectl'' [''delete'', ''configmap'', ''opa-policies'', ''opa'']))
               (\<lambda>_. returnIO ()))
            (catchIO
               (thenIO (execa_throw en (Execa ''kubectl'' [''create'', ''configmap'', ''opa-policies'', ''opa'']))
                       (log ''ConfigMap created: opa-policies''))
               (\<lambda>e. throwIO (Error (''Failed to create policy ConfigMap: '' @ error_message e)))))))))))"

text \<open>
  \<^verbatim>\<open>testOpaPolicy\<close> starts \<^verbatim>\<open>kubectl port-forward\<close> and keeps the promise in a variable
  that it never awaits and on which it sets no handler; it waits two seconds, posts one query
  with \<^verbatim>\<open>curl\<close> (every failure of the query, also of parsing its reply, is caught and
  printed as a skipped test) and kills the port forward. Its own \<^verbatim>\<open>try\<close> sees no
  rejection of the port forward. When the port forward fails, and when \<^verbatim>\<open>execa\<close> rejects
  because it was killed, the rejection is unhandled: that of a failure can be delivered while
  the function waits, and either can be delivered later (see \<open>beside_due\<close>, and \<open>up_rest\<close>
  and \<open>cli\<close> below). The line of a
  passed test depends on the content of the reply, which the model does not read: one line
  stands for a reply that was parsed.
\<close>

definition port_forward :: call where
  "port_forward = Execa ''kubectl'' [''port-forward'', ''opa'', ''svc/opa'']"

definition testOpaPolicy :: "env \<Rightarrow> unit io" where
  "testOpaPolicy en =
     thenIO (log ''Testing policy evaluation...'')
    (catchIO
       (thenIO (start_unawaited en port_forward)
       (thenIO (beside_due en (sleep en 2000))
       (thenIO (bindIO (beside_due en
                  (execa en (Execa ''curl'' [''http://localhost:8181/v1/data/trino/rules/allow''])))
          (\<lambda>r. case r of
                  Ok out \<Rightarrow>
                    if json_ok out \<and> \<not> json_null out then log ''Policy test done''
                    else log ''Policy test skipped (OPA not accessible)''
                | Err _ _ \<Rightarrow> log ''Policy test skipped (OPA not accessible)''))
          kill_unawaited)))
       (\<lambda>e. log ''Policy testing skipped (port forward failed)''))"

definition deployOpa :: "env \<Rightarrow> Config \<Rightarrow> bool \<Rightarrow> ComponentState io" where
  "deployOpa en config force =
     thenIO (log ''Deploying OPA'')
     (bindIO getState (\<lambda>state.
      thenIO (whenIO (\<not> is_deployed state Keycloak) (log ''Warning: Keycloak is not deployed.''))
     (bindIO (releaseExists en ''opa'' ''opa'') (\<lambda>exists.
       if exists \<and> \<not> force
       then thenIO (log ''OPA already deployed'') (returnIO (already_deployed Opa))
       else
         thenIO (createNamespace en ''opa'')
        (thenIO (createPolicyConfigMaps en)
        (thenIO (generateOpaValues en)
        (thenIO (log ''Installing OPA via Helm...'')
        (thenIO (addHelmRepo en ''opa'' ''https://open-policy-agent.github.io/kube-mgmt/charts'')
        (thenIO (updateHelmRepos en)
        (thenIO (installChart en ''opa'' ''opa/opa'' ''opa'')
        (thenIO (waitForComponentReady en Opa 10)
        (thenIO (testOpaPolicy en)
        (thenIO (log ''OPA deployed successfully'')
        (bindIO now (\<lambda>t. returnIO (newly_deployed Opa t))))))))))))))))"

section \<open>commands/bootstrap.ts\<close>

record BootstrapOptions =
  boot_dryRun :: bool
  boot_skipFoundation :: bool
  boot_force :: bool

definition bootstrapStateBackend :: "env \<Rightarrow> Config \<Rightarrow> bool \<Rightarrow> unit io" where
  "bootstrapStateBackend en config dryRun =
     thenIO (log ''Step 1: Creating Terraform State Backend'')
    (thenIO (terraform en Init BootstrapDir)
       (if dryRun
        then thenIO (terraform en Plan BootstrapDir) (log ''Dry run - skipping apply'')
        else thenIO (terraform en Apply BootstrapDir)
            (bindIO (terraform_output en BootstrapDir) updateBootstrapState)))"

definition deployFoundation :: "env \<Rightarrow> Config \<Rightarrow> bool \<Rightarrow> unit io" where
  "deployFoundation en config dryRun =
     bindIO getState (\<lambda>state.
       if bootstrap_outputs state = None
       then throwIO (Error ''Bootstrap not complete. Run bootstrap first.'')
       else
         thenIO (log ''Step 2: Deploying Foundation Infrastructure'')
        (thenIO (terraform en WriteBackendConfig FoundationDir)
        (thenIO (terraform en Init FoundationDir)
           (if dryRun
            then thenIO (terraform en Plan FoundationDir) (log ''Dry run - skipping apply'')
            else thenIO (terraform en Apply FoundationDir)
                (bindIO (terraform_output en FoundationDir) updateFoundationState)))))"

text \<open>What \<^verbatim>\<open>bootstrap\<close> does after the check of \<^verbatim>\<open>state.bootstrapped\<close>.\<close>

definition bootstrap_rest :: "env \<Rightarrow> Config \<Rightarrow> BootstrapOptions \<Rightarrow> unit io" where
  "bootstrap_rest en config options =
     thenIO (whenIO (\<not> boot_skipFoundation options)
               (bindIO getState (\<lambda>state.
                  if foundation_deployed state \<and> \<not> boot_force options
                  then log ''Foundation already deployed.''
                  else deployFoundation en config (boot_dryRun options))))
    (thenIO (whenIO (\<not> boot_dryRun options) saveState)
            (log ''Bootstrap complete!''))"

definition bootstrap :: "env \<Rightarrow> Config \<Rightarrow> LabState \<Rightarrow> BootstrapOptions \<Rightarrow> unit io" where
  "bootstrap en config state0 options =
     thenIO (modifyState (\<lambda>_. state0))
    (thenIO (log ''Bootstrapping lab'')
    (bindIO getState (\<lambda>state.
       if bootstrapped state \<and> \<not> boot_force options
       then
         thenIO (log ''State backend already exists.'')
           (if \<not> foundation_deployed state \<and> \<not> boot_skipFoundation options
            then thenIO (log ''Continuing with foundation deployment...'')
                        (bootstrap_rest en config options)
            else if foundation_deployed state
            then log ''Foundation already deployed. Use --force to re-run.''
            else bootstrap_rest en config options)
       else thenIO (bootstrapStateBackend en config (boot_dryRun options))
                   (bootstrap_rest en config options))))"

section \<open>commands/up.ts\<close>

record UpOptions =
  up_dryRun :: bool
  up_all :: bool
  up_force :: bool
  up_skipEssentials :: bool
  up_skipComponents :: bool

definition preFlightChecks :: "env \<Rightarrow> bool \<Rightarrow> unit io" where
  "preFlightChecks en skipComponents =
     thenIO (log ''Pre-flight Checks'')
    (bindIO getState (\<lambda>state.
       if \<not> foundation_deployed state \<or> bootstrap_outputs state = None
       then throwIO (Error ''Foundation not deployed. Run lab bootstrap first.'')
       else
         thenIO (log ''Foundation deployed'')
        (bindIO (checkKubectlInstalled en) (\<lambda>hasKubectl.
           if \<not> hasKubectl then throwIO (Error ''kubectl is not installed.'')
           else
             thenIO (log ''kubectl installed'')
            (bindIO (checkAwsCliInstalled en) (\<lambda>hasAwsCli.
               if \<not> hasAwsCli then throwIO (Error ''AWS CLI is not installed.'')
               else
                 thenIO (log ''AWS CLI installed'')
                   (whenIO (\<not> skipComponents)
                      (bindIO (checkHelmInstalled en) (\<lambda>hasHelm.
                         if \<not> hasHelm then throwIO (Error ''Helm is not installed.'')
                         else
                           thenIO (log ''Helm installed'')
                          (bindIO (checkPsqlInstalled en) (\<lambda>hasPsql.
                             if \<not> hasPsql
                             then log ''psql (PostgreSQL client) is not installed.''
                             else log ''psql installed'')))))))))))"

text \<open>\<^verbatim>\<open>state.bootstrap_outputs!\<close> throws a \<^verbatim>\<open>TypeError\<close> when the outputs are missing.\<close>

definition deployEks :: "env \<Rightarrow> Config \<Rightarrow> bool \<Rightarrow> unit io" where
  "deployEks en config dryRun =
     thenIO (log ''Step 1: Provisioning EKS Cluster'')
    (bindIO getState (\<lambda>state.
       case bootstrap_outputs state of
         None \<Rightarrow> throwIO TypeError
       | Some bo \<Rightarrow>
           thenIO (terraform en WriteBackendConfig EphemeralDir)
          (thenIO (terraform en Init EphemeralDir)
             (if dryRun
              then thenIO (terraform en Plan EphemeralDir) (log ''Dry run - skipping apply'')
              else thenIO (terraform en Apply EphemeralDir)
                  (bindIO (terraform_output en EphemeralDir) updateEksState)))))"

definition contextName :: "Config \<Rightarrow> string" where
  "contextName config = config_lab_name config @ ''-context''"

definition waitForClusterReady :: "env \<Rightarrow> Config \<Rightarrow> unit io" where
  "waitForClusterReady en config =
     bindIO getState (\<lambda>state.
       case eks_outputs state of
         None \<Rightarrow> throwIO (Error ''EKS outputs not available'')
       | Some eo \<Rightarrow>
           thenIO (log ''Step 2: Waiting for Cluster Readiness'')
          (thenIO (waitForEksClusterActive en (tf_string (cluster_name eo)) (config_aws_region config) 10)
          (thenIO (configureKubeconfig en (tf_string (cluster_name eo)) (config_aws_region config)
                     (contextName config))
          (thenIO (k8s_waitForClusterReady en (tf_string (cluster_name eo)) 10)
                  (log ''Cluster ready'')))))"

definition deployEssentials :: "env \<Rightarrow> Config \<Rightarrow> unit io" where
  "deployEssentials en config =
     bindIO getState (\<lambda>state.
       case foundation_outputs state of
         None \<Rightarrow> throwIO (Error ''Foundation outputs not available'')
       | Some fo \<Rightarrow>
           thenIO (log ''Step 3: Deploying Essentials'')
          (thenIO (createNamespace en ''spark'')
          (thenIO (createNamespace en ''trino'')
          (thenIO (createNamespace en ''polaris'')
          (thenIO (createNamespace en ''keycloak'')
          (thenIO (createSecretFromAWS en ''aurora-credentials'' ''default''
                     (tf_string (aurora_secret_arn fo)) (config_aws_region config))
                  (log ''Essentials deployed'')))))))"

definition availableComponents :: "string list" where
  "availableComponents = [''keycloak'', ''polaris'', ''trino'', ''spark'', ''opa'']"

definition componentsToDeploy :: "string list \<Rightarrow> bool \<Rightarrow> string list" where
  "componentsToDeploy componentArgs all =
     (if all then availableComponents
      else if length componentArgs > 0
      then filter (\<lambda>c. toLowerCase c \<in> set availableComponents) componentArgs
      else [''keycloak'', ''polaris''])"

definition component_key :: "component \<Rightarrow> string" where
  "component_key c =
     (case c of Keycloak \<Rightarrow> ''keycloak'' | Polaris \<Rightarrow> ''polaris'' | Trino \<Rightarrow> ''trino''
      | Spark \<Rightarrow> ''spark'' | Opa \<Rightarrow> ''opa'')"

definition component_name :: "component \<Rightarrow> string" where
  "component_name c =
     (case c of Keycloak \<Rightarrow> ''Keycloak'' | Polaris \<Rightarrow> ''Polaris'' | Trino \<Rightarrow> ''Trino''
      | Spark \<Rightarrow> ''Spark'' | Opa \<Rightarrow> ''OPA'')"

definition deploy_of :: "env \<Rightarrow> Config \<Rightarrow> bool \<Rightarrow> component \<Rightarrow> ComponentState io" where
  "deploy_of en config force c =
     (case c of
        Keycloak \<Rightarrow> deployKeycloak en config force
      | Polaris \<Rightarrow> deployPolaris en config force
      | Trino \<Rightarrow> deployTrino en config force
      | Spark \<Rightarrow> deploySpark en config force
      | Opa \<Rightarrow> deployOpa en config force)"

text \<open>
  One of the five blocks of \<^verbatim>\<open>deployComponents\<close>: the block of Keycloak rethrows the
  error, the other four print that they continue.
\<close>

definition deploy_block :: "env \<Rightarrow> Config \<Rightarrow> bool \<Rightarrow> string list \<Rightarrow> component \<Rightarrow> unit io" where
  "deploy_block en config force toDeploy c =
     whenIO (component_key c \<in> set toDeploy)
       (thenIO (log (''Deploying '' @ component_name c @ ''...''))
          (catchIO
             (bindIO (deploy_of en config force c) (updateComponentState c))
             (\<lambda>e. thenIO (log (''Failed to deploy '' @ component_name c))
                     (if c = Keycloak then throwIO e
                      else log (''Continuing without '' @ component_name c @ ''...'')))))"

definition deployComponents :: "env \<Rightarrow> Config \<Rightarrow> string list \<Rightarrow> bool \<Rightarrow> bool \<Rightarrow> unit io" where
  "deployComponents en config componentArgs all force =
     (let toDeploy = componentsToDeploy componentArgs all in
      thenIO (whenIO (\<not> all \<and> length componentArgs > 0
                      \<and> filter (\<lambda>c. toLowerCase c \<notin> set availableComponents) componentArgs \<noteq> [])
                (log ''Warning: Unknown components will be skipped''))
        (if length toDeploy = 0 then log ''No components to deploy.''
         else
           thenIO (log ''Step 5: Deploying Components'')
          (thenIO (deploy_block en config force toDeploy Keycloak)
          (thenIO (deploy_block en config force toDeploy Polaris)
          (thenIO (deploy_block en config force toDeploy Trino)
          (thenIO (deploy_block en config force toDeploy Spark)
          (thenIO (deploy_block en config force toDeploy Opa)
                  (log ''Component deployment complete''))))))))"

text \<open>How a command ends: it returns, or it calls \<^verbatim>\<open>process.exit\<close>.\<close>

datatype outcome = Returned | Exited nat

text \<open>
  Steps 3 to 5 of \<^verbatim>\<open>up\<close>, the final save and the summary. Between the end of
  \<^verbatim>\<open>testOpaPolicy\<close> and the \<^verbatim>\<open>await\<close> of \<^verbatim>\<open>getNodeStatus\<close> in the summary the program
  does not wait for anything, so that \<^verbatim>\<open>await\<close> is the first point at which a rejection
  left by \<^verbatim>\<open>testOpaPolicy\<close> can be delivered.
\<close>

definition up_rest ::
  "env \<Rightarrow> Config \<Rightarrow> string list \<Rightarrow> UpOptions \<Rightarrow> bool \<Rightarrow> unit io" where
  "up_rest en config comps options needsProvisioning =
     thenIO
       (bindIO getState (\<lambda>state.
          if needsProvisioning \<or> \<not> truthy (cluster_ready state)
          then thenIO (waitForClusterReady en config)
                      (updateClusterReadyState (Some (contextName config)) False)
          else log ''Cluster already configured and ready.''))
    (thenIO
       (bindIO getState (\<lambda>state.
          if \<not> up_skipEssentials options \<and> (\<not> truthy (essentials_deployed state) \<or> up_force options)
          then thenIO (deployEssentials en config)
                      (bindIO getState (\<lambda>st. updateClusterReadyState (cluster_context st) True))
          else if up_skipEssentials options then log ''Skipping essentials deployment.''
          else log ''Essentials already deployed.''))
    (thenIO
       (if \<not> up_skipComponents options \<and> \<not> up_dryRun options
        then deployComponents en config comps (up_all options) (up_force options)
        else whenIO (up_skipComponents options) (log ''Skipping component deployment.''))
    (thenIO saveState
    (thenIO (log ''Lab UP Complete'')
       (bindIO getState (\<lambda>state.
          whenIO (eks_outputs state \<noteq> None)
            (bindIO (beside_due en (getNodeStatus en)) (\<lambda>nodeStatus. log ''Next steps''))))))))"

definition up_body :: "env \<Rightarrow> Config \<Rightarrow> string list \<Rightarrow> UpOptions \<Rightarrow> unit io" where
  "up_body en config comps options =
     thenIO (preFlightChecks en (up_skipComponents options))
    (bindIO getState (\<lambda>state.
       let needsProvisioning = (\<not> eks_deployed state \<or> up_force options) in
       if needsProvisioning
       then thenIO (deployEks en config (up_dryRun options))
              (if up_dryRun options then returnIO ()
               else up_rest en config comps options needsProvisioning)
       else thenIO (log ''EKS Cluster already deployed.'')
                   (up_rest en config comps options needsProvisioning)))"

text \<open>
  The \<^verbatim>\<open>catch\<close> of a command: print the error, \<^verbatim>\<open>process.exit(1)\<close>. When the process
  ends inside the command by an unhandled rejection, Node leaves with code 1 and the
  \<^verbatim>\<open>catch\<close> does not run.
\<close>

definition exit_on_error :: "string \<Rightarrow> unit io \<Rightarrow> world \<Rightarrow> outcome \<times> world" where
  "exit_on_error name m w =
     (case m w of
        (Inr _, w') \<Rightarrow> (Returned, w')
      | (Inl e, w') \<Rightarrow>
          if ended w' \<and> \<not> ended w then (Exited 1, w')
          else (Exited 1, w'\<lparr>trace := trace w' @ [Log (''Error during '' @ name)]\<rparr>))"

definition up ::
  "env \<Rightarrow> Config \<Rightarrow> LabState \<Rightarrow> string list \<Rightarrow> UpOptions \<Rightarrow> world \<Rightarrow> outcome \<times> world" where
  "up en config state0 comps options =
     exit_on_error ''lab up''
       (thenIO (modifyState (\<lambda>_. state0))
       (thenIO (log ''Deploying lab session'')
               (up_body en config comps options)))"

section \<open>commands/down.ts\<close>

subsection \<open>Branches that run side by side\<close>

text \<open>
  \<^verbatim>\<open>undeployComponents\<close> starts up to three \<^verbatim>\<open>async\<close> blocks and awaits them with
  \<^verbatim>\<open>Promise.all\<close>. A block runs alone until it awaits a child process; while it waits, the
  other blocks run. A block is a list of steps: what it does before it starts a child process,
  the process, and what it does with the reply: whether it goes on to its next step, and the
  effect. A block that catches an error prints its warning in that effect and stops.
\<close>

record step =
  before :: "world \<Rightarrow> world"
  awaited :: call
  after :: "result \<Rightarrow> bool \<times> (world \<Rightarrow> world)"

type_synonym pending = "call \<times> (result \<Rightarrow> bool \<times> (world \<Rightarrow> world)) \<times> step list"

definition run :: "unit io \<Rightarrow> world \<Rightarrow> world" where
  "run m w = snd (m w)"

definition issue :: "step \<Rightarrow> world \<Rightarrow> world" where
  "issue s w = (let w1 = before s w in w1\<lparr>trace := trace w1 @ [Exec (awaited s)]\<rparr>)"

definition start_task :: "step list \<Rightarrow> world \<Rightarrow> pending list \<times> world" where
  "start_task ss w =
     (case ss of [] \<Rightarrow> ([], w) | s # rest \<Rightarrow> ([(awaited s, after s, rest)], issue s w))"

fun start_tasks :: "step list list \<Rightarrow> world \<Rightarrow> pending list \<times> world" where
  "start_tasks [] w = ([], w)"
| "start_tasks (t # ts) w =
     (let (p, w1) = start_task t w; (ps, w2) = start_tasks ts w1 in (p @ ps, w2))"

text \<open>The reply to a child process, as the environment gives it when the process ends.\<close>

definition complete :: "env \<Rightarrow> pending \<Rightarrow> world \<Rightarrow> pending list \<times> world" where
  "complete en p w =
     (case p of (c, h, rest) \<Rightarrow>
        (case h (respond en (trace w) c) of (cont, eff) \<Rightarrow>
           let w2 = eff (w\<lparr>clock := clock w + duration en (trace w) c\<rparr>)
           in if cont then start_task rest w2 else ([], w2)))"

definition steps_left :: "pending list \<Rightarrow> nat" where
  "steps_left ps = sum_list (map (\<lambda>(c, h, rest). Suc (length rest)) ps)"

function run_pending :: "env \<Rightarrow> pending list \<Rightarrow> world \<Rightarrow> world" where
  "run_pending en ps w =
     (if ps = [] then w
      else let k = pick en (trace w) mod length ps in
           case complete en (ps ! k) w of (ps', w') \<Rightarrow>
             run_pending en (take k ps @ ps' @ drop (Suc k) ps) w')"
  by pat_completeness auto

lemma steps_left_append: "steps_left (xs @ ys) = steps_left xs + steps_left ys"
  by (simp add: steps_left_def)

lemma steps_left_start_task: "steps_left (fst (start_task ss w)) \<le> length ss"
  by (cases ss) (simp_all add: start_task_def steps_left_def)

lemma steps_left_complete: "steps_left (fst (complete en p w)) < steps_left [p]"
proof -
  obtain c h rest where p: "p = (c, h, rest)" by (cases p)
  obtain cont eff where h: "h (respond en (trace w) c) = (cont, eff)" by force
  show ?thesis
  proof (cases cont)
    case True
    then show ?thesis
      using steps_left_start_task[of rest] p h
      by (simp add: complete_def steps_left_def Let_def less_Suc_eq_le)
  next
    case False
    then show ?thesis using p h by (simp add: complete_def steps_left_def)
  qed
qed

termination run_pending
proof (relation "measure (\<lambda>(en, ps, w). steps_left ps)", goal_cases)
  case 1
  show ?case by simp
next
  case (2 en ps w k ps' w')
  have k: "k < length ps" using 2(1) 2(2) by simp
  have split: "ps = take k ps @ [ps ! k] @ drop (Suc k) ps"
    using k by (simp add: id_take_nth_drop[symmetric])
  have "steps_left ps' < steps_left [ps ! k]"
    using steps_left_complete[of en "ps ! k" w] 2(3)[symmetric] by simp
  then have "steps_left (take k ps @ ps' @ drop (Suc k) ps)
             < steps_left (take k ps @ [ps ! k] @ drop (Suc k) ps)"
    by (simp only: steps_left_append)
  then show ?case using split by simp
qed

definition promise_all :: "env \<Rightarrow> step list list \<Rightarrow> unit io" where
  "promise_all en tasks w =
     (case start_tasks tasks w of (ps, w1) \<Rightarrow> (Inr (), run_pending en ps w1))"

subsection \<open>The blocks of \<^verbatim>\<open>undeployComponents\<close>\<close>

text \<open>
  The last step of each block: \<^verbatim>\<open>helm.uninstallChart\<close>, the console line of the undeploy
  function, \<^verbatim>\<open>clearComponentState\<close>, and the \<^verbatim>\<open>catch\<close> of the block around them.
\<close>

definition uninstall_step :: "component \<Rightarrow> (world \<Rightarrow> world) \<Rightarrow> step" where
  "uninstall_step c pre =
     \<lparr>before = (\<lambda>w. run (log ''Uninstalling Helm chart'') (pre w)),
      awaited = uninstall_call (component_release c) (component_namespace c),
      after = (\<lambda>r. (True,
        run (catchIO
               (thenIO (uninstall_reply r)
               (thenIO (log (component_title c @ '' undeployed''))
                       (clearComponentState c)))
               (\<lambda>e. log (''Warning: Failed to undeploy '' @ component_name c)))))\<rparr>"

definition opa_task :: "step list" where
  "opa_task =
     [\<lparr>before = run (log ''Undeploying OPA...''),
       awaited = Execa ''kubectl'' [''delete'', ''configmap'', ''opa-policies'', ''opa''],
       after = (\<lambda>r. (True, (\<lambda>w. w)))\<rparr>,
      uninstall_step Opa (\<lambda>w. w)]"

definition spark_task :: "step list" where
  "spark_task =
     [\<lparr>before = run (thenIO (log ''Undeploying Spark Operator...'')
                            (log ''Deleting running Spark applications...'')),
       awaited = Execa ''kubectl'' [''delete'', ''sparkapplications'', ''--all'', ''spark''],
       after = (\<lambda>r. (True, (case r of Ok _ \<Rightarrow> (\<lambda>w. w)
                  | Err _ _ \<Rightarrow> run (log ''Warning: Could not delete Spark applications''))))\<rparr>,
      uninstall_step Spark (\<lambda>w. w)]"

definition trino_task :: "step list" where
  "trino_task = [uninstall_step Trino (run (log ''Undeploying Trino...''))]"

text \<open>
  One of the two blocks that follow the \<^verbatim>\<open>Promise.all\<close>:
  \<^verbatim>\<open>if (components.x?.deployed) { try { await undeployX(); clearComponentState(state, "x") }
  catch (error) { console.log("Warning: Failed to undeploy X") } }\<close>.
\<close>

definition undeploy_block :: "component \<Rightarrow> unit io \<Rightarrow> unit io" where
  "undeploy_block c undeploy =
     bindIO getState (\<lambda>st.
       whenIO (is_deployed st c)
         (catchIO (thenIO undeploy (clearComponentState c))
                  (\<lambda>e. log (''Warning: Failed to undeploy '' @ component_name c))))"

definition undeployComponents :: "env \<Rightarrow> unit io" where
  "undeployComponents en =
     thenIO (log ''Step 1: Undeploying Components'')
    (bindIO getState (\<lambda>state.
     thenIO (promise_all en
               ((if is_deployed state Opa then [opa_task] else [])
                @ (if is_deployed state Spark then [spark_task] else [])
                @ (if is_deployed state Trino then [trino_task] else [])))
    (thenIO (undeploy_block Polaris (undeployPolaris en))
    (thenIO (undeploy_block Keycloak (undeployKeycloak en))
            (log ''Components undeployed'')))))"

subsection \<open>The rest of down.ts\<close>

record DownOptions =
  down_force :: bool
  down_destroyFoundation :: bool

definition gracefulShutdown :: "env \<Rightarrow> unit io" where
  "gracefulShutdown en =
     thenIO (log ''Graceful shutdown...'')
    (thenIO (deleteNamespace en ''spark'')
    (thenIO (deleteNamespace en ''trino'')
    (thenIO (log ''Waiting 30s for graceful termination...'')
    (thenIO (sleep en 30000)
            (log ''Workloads shutdown complete'')))))"

definition destroyEks :: "env \<Rightarrow> Config \<Rightarrow> unit io" where
  "destroyEks en config =
     bindIO getState (\<lambda>state.
     thenIO (whenIO (bootstrap_outputs state \<noteq> None) (terraform en WriteBackendConfig EphemeralDir))
    (thenIO (terraform en Init EphemeralDir)
    (thenIO (terraform en Destroy EphemeralDir)
            (log ''EKS cluster destroyed''))))"

definition verifyFoundationIntact :: "env \<Rightarrow> Config \<Rightarrow> unit io" where
  "verifyFoundationIntact en config =
     thenIO (log ''Step 3: Verifying Foundation'')
    (bindIO getState (\<lambda>state.
       case foundation_outputs state of
         None \<Rightarrow> log ''No foundation deployed, skipping verification''
       | Some fo \<Rightarrow>
           bindIO (checkS3BucketExists en (tf_string (data_bucket fo)) (config_aws_region config))
             (\<lambda>s3Exists.
            thenIO (if s3Exists then log ''S3 bucket intact'' else log ''S3 bucket not found'')
           (bindIO (checkAuroraClusterStatus en
                      (hd (split_str (CHR ''.'') (tf_string (aurora_cluster_endpoint fo))))
                      (config_aws_region config))
              (\<lambda>auroraStatus.
                 if auroraStatus \<noteq> None \<and> auroraStatus \<noteq> Some []
                 then log ''Aurora cluster intact''
                 else log ''Aurora cluster not found'')))))"

text \<open>The last lines of \<^verbatim>\<open>destroyAll\<close>, under its comment \<^verbatim>\<open>Clear entire state\<close>.\<close>

definition resetState :: "unit io" where
  "resetState =
     thenIO (modifyState (\<lambda>s. s\<lparr>bootstrapped := False, bootstrap_outputs := None,
                                 foundation_deployed := False, foundation_outputs := None\<rparr>))
    (thenIO clearEphemeralState saveState)"

definition destroyAll :: "env \<Rightarrow> Config \<Rightarrow> unit io" where
  "destroyAll en config =
     thenIO (log ''DANGER: Destroying ALL infrastructure including foundation'')
    (bindIO getState (\<lambda>state.
     thenIO (whenIO (eks_deployed state) (destroyEks en config))
    (thenIO (whenIO (foundation_deployed state)
               (thenIO (log ''Destroying Foundation'')
               (thenIO (whenIO (bootstrap_outputs state \<noteq> None)
                          (terraform en WriteBackendConfig FoundationDir))
               (thenIO (terraform en Init FoundationDir)
               (thenIO (terraform en Destroy FoundationDir)
                       (log ''Foundation destroyed''))))))
    (thenIO (whenIO (bootstrapped state)
               (thenIO (log ''Destroying Bootstrap'')
               (thenIO (terraform en Init BootstrapDir)
               (thenIO (terraform en Destroy BootstrapDir)
                       (log ''Bootstrap destroyed'')))))
            resetState))))"

text \<open>Steps 4 to 8 of \<^verbatim>\<open>down\<close>: the normal teardown once it is confirmed.\<close>

definition teardown :: "env \<Rightarrow> Config \<Rightarrow> unit io" where
  "teardown en config =
     bindIO (checkKubectlInstalled en) (\<lambda>hasKubectl.
     bindIO getState (\<lambda>state.
     thenIO
       (if hasKubectl \<and> truthy (cluster_ready state)
        then catchIO (thenIO (undeployComponents en) (gracefulShutdown en))
               (\<lambda>e. thenIO (log ''Warning: Could not gracefully shutdown workloads'')
                            (log ''Continuing with cluster destruction...''))
        else log ''Cluster not accessible via kubectl, skipping graceful shutdown'')
    (thenIO (log ''Step 2: Destroying EKS Cluster'')
    (thenIO (destroyEks en config)
    (thenIO (verifyFoundationIntact en config)
    (thenIO clearEphemeralState
    (thenIO saveState
            (log ''Teardown Complete'')))))))) "

definition down_body :: "env \<Rightarrow> Config \<Rightarrow> DownOptions \<Rightarrow> unit io" where
  "down_body en config options =
     bindIO getState (\<lambda>state.
       if \<not> eks_deployed state
       then log ''No EKS cluster deployed. Nothing to tear down.''
       else if down_destroyFoundation options
       then
         thenIO (log ''WARNING: You are about to destroy ALL infrastructure'')
        (bindIO (confirmDestructive en (config_lab_name config)) (\<lambda>confirmed.
           if \<not> confirmed then log ''Aborted by user.''
           else thenIO (destroyAll en config) (log ''Complete Teardown Successful'')))
       else if \<not> down_force options
       then
         thenIO (log ''Teardown Plan'')
        (bindIO (confirm en False) (\<lambda>confirmed.
           if \<not> confirmed then log ''Aborted by user.''
           else teardown en config))
       else teardown en config)"

definition down :: "env \<Rightarrow> Config \<Rightarrow> LabState \<Rightarrow> DownOptions \<Rightarrow> world \<Rightarrow> outcome \<times> world" where
  "down en config state0 options =
     exit_on_error ''lab down''
       (thenIO (modifyState (\<lambda>_. state0))
       (thenIO (log ''Tearing down lab session'')
               (down_body en config options)))"

section \<open>cli.ts\<close>

text \<open>
  The actions of the commands: load the state, run the command, and leave with code 1 on
  an error that reaches the action. The configuration is taken as loaded. A process starts
  with no rejection due. When \<^verbatim>\<open>up\<close> has returned and a rejection is still due, it is
  delivered before the process can end, and Node leaves with code 1.
\<close>

datatype command =
    Bootstrap BootstrapOptions
  | Up "string list" UpOptions
  | Down DownOptions

definition exit_code :: "outcome \<Rightarrow> nat" where
  "exit_code out = (case out of Returned \<Rightarrow> 0 | Exited n \<Rightarrow> n)"

definition cli :: "env \<Rightarrow> Config \<Rightarrow> command \<Rightarrow> world \<Rightarrow> nat \<times> world" where
  "cli en config cmd w =
     (case loadState (config_lab_name config) (w\<lparr>due := False, ended := False\<rparr>) of
        (Inl e, w') \<Rightarrow> (1, snd (log (error_message e) w'))
      | (Inr state, w') \<Rightarrow>
          (case cmd of
             Bootstrap options \<Rightarrow>
               (case bootstrap en config state options w' of
                  (Inl e, w'') \<Rightarrow> (1, snd (log (error_message e) w''))
                | (Inr _, w'') \<Rightarrow> (0, w''))
           | Up comps options \<Rightarrow>
               (case up en config state comps options w' of
                  (out, w'') \<Rightarrow> (if due w'' then 1 else exit_code out, w''))
           | Down options \<Rightarrow>
               (case down en config state options w' of (out, w'') \<Rightarrow> (exit_code out, w''))))"

declare waitLoop.simps [simp del] run_pending.simps [simp del] show_nat.simps [simp del]

section \<open>Saving the state\<close>

lemma saveState_eq:
  "saveState w =
     (Inr (), w\<lparr>mem := (mem w)\<lparr>updated_at := clock w\<rparr>,
               state_file := Complete ((mem w)\<lparr>updated_at := clock w\<rparr>),
               trace := trace w @ [WriteState ((mem w)\<lparr>updated_at := clock w\<rparr>)]\<rparr>)"
  by (simp add: saveState_def bindIO_def thenIO_def now_def modifyState_def getState_def
      writeFileSync_def)

text \<open>
  C4 (as amended). A call of \<open>saveState\<close> that runs to its end refreshes \<open>updated_at\<close> with
  the clock and leaves the full record, with that time stamp, in the state file. The write
  goes to the state file itself: stopped before the file is opened it leaves the old file,
  stopped after the last byte it leaves the new record.
\<close>

theorem saveState_writes_full_record:
  "fst (saveState w) = Inr ()
   \<and> updated_at (mem (snd (saveState w))) = clock w
   \<and> state_file (snd (saveState w)) = Complete ((mem w)\<lparr>updated_at := clock w\<rparr>)
   \<and> mem (snd (saveState w)) = (mem w)\<lparr>updated_at := clock w\<rparr>
   \<and> saveState_interrupted BeforeOpen w = state_file w
   \<and> saveState_interrupted AfterWrite w = state_file (snd (saveState w))"
  by (simp add: saveState_eq saveState_interrupted_def)

text \<open>
  C4 as stated fails: a process that stops between the open and the last write of
  \<open>saveState\<close> leaves a file that holds neither the old record nor the new one.
\<close>

theorem saveState_not_atomic:
  "saveState_interrupted AfterOpen
     \<lparr>clock = 5, trace = [], state_file = Complete (initialState ''lab'' 0),
      mem = initialState ''lab'' 0, due = False, ended = False\<rparr> = Truncated
   \<and> Truncated \<noteq> Complete (initialState ''lab'' 0)
   \<and> Truncated \<noteq> Complete ((initialState ''lab'' 0)\<lparr>updated_at := 5\<rparr>)"
  by (simp add: saveState_interrupted_def)


section \<open>What every function that leaves the state alone respects\<close>

lemma rel_terraform [rel_intros]: "steady R \<Longrightarrow> rel_io R (terraform en op dir)"
  unfolding terraform_def by (intro rel_intros)

lemma rel_terraform_output [rel_intros]:
  assumes "steady R"
  shows "rel_io R (terraform_output en dir)"
proof -
  have "R w (snd (terraform_output en dir w))" for w
    using rel_ioD[OF rel_terraform[OF assms, of en Output dir], of w]
    by (cases "terraform en Output dir w") (auto simp: terraform_output_def split: sum.splits)
  then show ?thesis by (simp add: rel_io_def)
qed

lemma rel_confirm [rel_intros]: "steady R \<Longrightarrow> rel_io R (confirm en d)"
  unfolding confirm_def by (intro rel_intros)

lemma rel_confirmDestructive [rel_intros]: "steady R \<Longrightarrow> rel_io R (confirmDestructive en v)"
  unfolding confirmDestructive_def by (intro rel_intros)

lemma rel_checkAwsCliInstalled [rel_intros]: "steady R \<Longrightarrow> rel_io R (checkAwsCliInstalled en)"
  unfolding checkAwsCliInstalled_def by (intro rel_intros)

lemma rel_parseDatabaseCredentials [rel_intros]:
  "steady R \<Longrightarrow> rel_io R (parseDatabaseCredentials secretData)"
  unfolding parseDatabaseCredentials_def by (intro rel_intros)

lemma rel_getSecretValue [rel_intros]: "steady R \<Longrightarrow> rel_io R (getSecretValue en a b)"
  unfolding getSecretValue_def by (intro rel_intros)

lemma rel_checkS3BucketExists [rel_intros]: "steady R \<Longrightarrow> rel_io R (checkS3BucketExists en a b)"
  unfolding checkS3BucketExists_def by (intro rel_intros)

lemma rel_checkAuroraClusterStatus [rel_intros]: "steady R \<Longrightarrow> rel_io R (checkAuroraClusterStatus en a b)"
  unfolding checkAuroraClusterStatus_def by (intro rel_intros)

lemma rel_checkKubectlInstalled [rel_intros]: "steady R \<Longrightarrow> rel_io R (checkKubectlInstalled en)"
  unfolding checkKubectlInstalled_def by (intro rel_intros)

lemma rel_configureKubeconfig [rel_intros]: "steady R \<Longrightarrow> rel_io R (configureKubeconfig en a b c)"
  unfolding configureKubeconfig_def by (intro rel_intros)

lemma rel_createNamespace [rel_intros]: "steady R \<Longrightarrow> rel_io R (createNamespace en a)"
  unfolding createNamespace_def by (intro rel_intros)

lemma rel_deleteNamespace [rel_intros]: "steady R \<Longrightarrow> rel_io R (deleteNamespace en a)"
  unfolding deleteNamespace_def by (intro rel_intros)

lemma rel_createSecretFromAWS [rel_intros]: "steady R \<Longrightarrow> rel_io R (createSecretFromAWS en a b c d)"
  unfolding createSecretFromAWS_def by (intro rel_intros)

lemma rel_checkHelmInstalled [rel_intros]: "steady R \<Longrightarrow> rel_io R (checkHelmInstalled en)"
  unfolding checkHelmInstalled_def by (intro rel_intros)

lemma rel_addHelmRepo [rel_intros]: "steady R \<Longrightarrow> rel_io R (addHelmRepo en a b)"
  unfolding addHelmRepo_def by (intro rel_intros)

lemma rel_updateHelmRepos [rel_intros]: "steady R \<Longrightarrow> rel_io R (updateHelmRepos en)"
  unfolding updateHelmRepos_def by (intro rel_intros)

lemma rel_installChart [rel_intros]: "steady R \<Longrightarrow> rel_io R (installChart en a b c)"
  unfolding installChart_def by (intro rel_intros)

lemma rel_uninstall_reply [rel_intros]: "steady R \<Longrightarrow> rel_io R (uninstall_reply r)"
  unfolding uninstall_reply_def by (intro rel_intros)

lemma rel_uninstallChart [rel_intros]: "steady R \<Longrightarrow> rel_io R (uninstallChart en a b)"
  unfolding uninstallChart_def by (intro rel_intros)

lemma rel_getRelease [rel_intros]: "steady R \<Longrightarrow> rel_io R (getRelease en a b)"
  unfolding getRelease_def by (intro rel_intros)

lemma rel_releaseExists [rel_intros]: "steady R \<Longrightarrow> rel_io R (releaseExists en a b)"
  unfolding releaseExists_def by (intro rel_intros)

lemma rel_checkPsqlInstalled [rel_intros]: "steady R \<Longrightarrow> rel_io R (checkPsqlInstalled en)"
  unfolding checkPsqlInstalled_def by (intro rel_intros)

lemma rel_executePsql [rel_intros]: "steady R \<Longrightarrow> rel_io R (executePsql en a b)"
  unfolding executePsql_def by (intro rel_intros)

lemma rel_checkDatabaseExists [rel_intros]: "steady R \<Longrightarrow> rel_io R (checkDatabaseExists en a)"
  unfolding checkDatabaseExists_def by (intro rel_intros)

lemma rel_createDatabaseIfNotExists [rel_intros]: "steady R \<Longrightarrow> rel_io R (createDatabaseIfNotExists en a)"
  unfolding createDatabaseIfNotExists_def by (intro rel_intros)

lemma rel_readFile [rel_intros]: "steady R \<Longrightarrow> rel_io R (readFile en a)"
  unfolding readFile_def by (intro rel_intros)

lemma rel_writeFile [rel_intros]: "steady R \<Longrightarrow> rel_io R (writeFile en a)"
  unfolding writeFile_def by (intro rel_intros)

lemma rel_waitLoop [rel_intros]:
  assumes "steady R"
  shows "rel_io R (waitLoop en wt tm st)"
proof -
  have "R w (snd (waitLoop en wt tm st w))" for w
  proof (induction en wt tm st w rule: waitLoop.induct)
    case (1 en wt tm st w)
    show ?case
    proof (cases "int (clock w) - int st < tm * 60 * 1000")
      case False
      then show ?thesis
        by (simp add: waitLoop.simps[of en wt tm st w] throwIO_def steady_refl[OF assms])
    next
      case True
      obtain r w1 where c: "check en wt w = (r, w1)" by (cases "check en wt w")
      have 1: "R w w1" using rel_ioD[OF rel_check[OF assms] c] .
      show ?thesis
      proof (cases r)
        case (Inl e)
        then show ?thesis using True c 1 by (simp add: waitLoop.simps[of en wt tm st w])
      next
        case (Inr b)
        show ?thesis
        proof (cases b)
          case True
          then show ?thesis
            using \<open>int (clock w) - int st < tm * 60 * 1000\<close> c 1 Inr
            by (simp add: waitLoop.simps[of en wt tm st w])
        next
          case False
          have 2: "R w1 (snd (sleep en (pollInterval wt) w1))"
            using rel_sleep[OF assms] by (simp add: rel_io_def)
          have 3: "R (snd (sleep en (pollInterval wt) w1))
                     (snd (waitLoop en wt tm st (snd (sleep en (pollInterval wt) w1))))"
            using "1.IH"[OF \<open>int (clock w) - int st < tm * 60 * 1000\<close> c[symmetric] Inr] False by simp
          have "R w (snd (waitLoop en wt tm st (snd (sleep en (pollInterval wt) w1))))"
            using steady_trans[OF assms 1 steady_trans[OF assms 2 3]] .
          then show ?thesis
            using \<open>int (clock w) - int st < tm * 60 * 1000\<close> c Inr False
            by (simp add: waitLoop.simps[of en wt tm st w])
        qed
      qed
    qed
  qed
  then show ?thesis by (simp add: rel_io_def)
qed

lemma rel_waitForEksClusterActive [rel_intros]: "steady R \<Longrightarrow> rel_io R (waitForEksClusterActive en a b t)"
  unfolding waitForEksClusterActive_def by (intro rel_intros)

lemma rel_k8s_waitForClusterReady [rel_intros]: "steady R \<Longrightarrow> rel_io R (k8s_waitForClusterReady en a t)"
  unfolding k8s_waitForClusterReady_def by (intro rel_intros)

lemma rel_waitForComponentReady [rel_intros]: "steady R \<Longrightarrow> rel_io R (waitForComponentReady en c t)"
  unfolding waitForComponentReady_def by (intro rel_intros)

lemma rel_getComponentUrl [rel_intros]: "steady R \<Longrightarrow> rel_io R (getComponentUrl en c)"
  unfolding getComponentUrl_def by (intro rel_intros)

lemma rel_getAccountId [rel_intros]: "steady R \<Longrightarrow> rel_io R (getAccountId en)"
  unfolding getAccountId_def by (intro rel_intros)

lemma rel_createComponentDatabase [rel_intros]: "steady R \<Longrightarrow> rel_io R (createComponentDatabase en config a)"
  unfolding createComponentDatabase_def by (intro rel_intros)

lemma rel_createKeycloakDatabase [rel_intros]: "steady R \<Longrightarrow> rel_io R (createKeycloakDatabase en config)"
  unfolding createKeycloakDatabase_def by (intro rel_intros)

lemma rel_generateKeycloakValues [rel_intros]: "steady R \<Longrightarrow> rel_io R (generateKeycloakValues en config)"
  unfolding generateKeycloakValues_def by (intro rel_intros)

lemma rel_deployRealmConfigMap [rel_intros]: "steady R \<Longrightarrow> rel_io R (deployRealmConfigMap en)"
  unfolding deployRealmConfigMap_def by (intro rel_intros)

lemma rel_deployKeycloak [rel_intros]: "steady R \<Longrightarrow> rel_io R (deployKeycloak en config force)"
  unfolding deployKeycloak_def by (intro rel_intros)

lemma rel_undeployKeycloak [rel_intros]: "steady R \<Longrightarrow> rel_io R (undeployKeycloak en)"
  unfolding undeployKeycloak_def by (intro rel_intros)

lemma rel_createPolarisDatabase [rel_intros]: "steady R \<Longrightarrow> rel_io R (createPolarisDatabase en config)"
  unfolding createPolarisDatabase_def by (intro rel_intros)

lemma rel_generatePolarisValues [rel_intros]: "steady R \<Longrightarrow> rel_io R (generatePolarisValues en config)"
  unfolding generatePolarisValues_def by (intro rel_intros)

lemma rel_deployPolaris [rel_intros]: "steady R \<Longrightarrow> rel_io R (deployPolaris en config force)"
  unfolding deployPolaris_def by (intro rel_intros)

lemma rel_undeployPolaris [rel_intros]: "steady R \<Longrightarrow> rel_io R (undeployPolaris en)"
  unfolding undeployPolaris_def by (intro rel_intros)

lemma rel_generateTrinoValues [rel_intros]: "steady R \<Longrightarrow> rel_io R (generateTrinoValues en config)"
  unfolding generateTrinoValues_def by (intro rel_intros)

lemma rel_deployTrino [rel_intros]: "steady R \<Longrightarrow> rel_io R (deployTrino en config force)"
  unfolding deployTrino_def by (intro rel_intros)

lemma rel_generateSparkValues [rel_intros]: "steady R \<Longrightarrow> rel_io R (generateSparkValues en config)"
  unfolding generateSparkValues_def by (intro rel_intros)

lemma rel_createExampleManifest [rel_intros]: "steady R \<Longrightarrow> rel_io R (createExampleManifest en config)"
  unfolding createExampleManifest_def by (intro rel_intros)

lemma rel_deploySpark [rel_intros]: "steady R \<Longrightarrow> rel_io R (deploySpark en config force)"
  unfolding deploySpark_def by (intro rel_intros)

lemma rel_generateOpaValues [rel_intros]: "steady R \<Longrightarrow> rel_io R (generateOpaValues en)"
  unfolding generateOpaValues_def by (intro rel_intros)

lemma rel_createPolicyConfigMaps [rel_intros]: "steady R \<Longrightarrow> rel_io R (createPolicyConfigMaps en)"
  unfolding createPolicyConfigMaps_def by (intro rel_intros)

text \<open>
  The deployment of OPA is the one function in which a rejection can become due and the
  process can end by it.
\<close>

lemma rel_testOpaPolicy:
  assumes "steady R" "dooming R"
  shows "rel_io R (testOpaPolicy en)"
  unfolding testOpaPolicy_def by (intro rel_intros assms)

lemma rel_deployOpa:
  assumes "steady R" "dooming R"
  shows "rel_io R (deployOpa en config force)"
  unfolding deployOpa_def by (intro rel_intros assms rel_testOpaPolicy)

lemma rel_deploy_of:
  assumes "steady R" "c = Opa \<longrightarrow> dooming R"
  shows "rel_io R (deploy_of en config force c)"
  unfolding deploy_of_def using assms by (cases c) (simp_all add: rel_intros rel_deployOpa)

lemma rel_preFlightChecks [rel_intros]: "steady R \<Longrightarrow> rel_io R (preFlightChecks en b)"
  unfolding preFlightChecks_def by (intro rel_intros)

lemma rel_waitForClusterReady [rel_intros]: "steady R \<Longrightarrow> rel_io R (waitForClusterReady en config)"
  unfolding waitForClusterReady_def by (intro rel_intros)

lemma rel_deployEssentials [rel_intros]: "steady R \<Longrightarrow> rel_io R (deployEssentials en config)"
  unfolding deployEssentials_def by (intro rel_intros)

lemma rel_gracefulShutdown [rel_intros]: "steady R \<Longrightarrow> rel_io R (gracefulShutdown en)"
  unfolding gracefulShutdown_def by (intro rel_intros)

lemma rel_destroyEks [rel_intros]: "steady R \<Longrightarrow> rel_io R (destroyEks en config)"
  unfolding destroyEks_def by (intro rel_intros)

lemma rel_verifyFoundationIntact [rel_intros]: "steady R \<Longrightarrow> rel_io R (verifyFoundationIntact en config)"
  unfolding verifyFoundationIntact_def by (intro rel_intros)

section \<open>Weakest preconditions\<close>

text \<open>
  \<open>wp m Q E w\<close>: run from \<open>w\<close>, \<open>m\<close> returns a value and a world that satisfy \<open>Q\<close>, or
  throws an error in a world that satisfy \<open>E\<close>.
\<close>

definition wp :: "'a io \<Rightarrow> ('a \<Rightarrow> world \<Rightarrow> bool) \<Rightarrow> (error \<Rightarrow> world \<Rightarrow> bool) \<Rightarrow> world \<Rightarrow> bool" where
  "wp m Q E w = (case m w of (Inr x, w') \<Rightarrow> Q x w' | (Inl e, w') \<Rightarrow> E e w')"

named_theorems wp_simps

lemma wp_returnIO [wp_simps]: "wp (returnIO x) Q E w = Q x w"
  by (simp add: wp_def returnIO_def)

lemma wp_throwIO [wp_simps]: "wp (throwIO e) Q E w = E e w"
  by (simp add: wp_def throwIO_def)

lemma wp_bindIO [wp_simps]: "wp (bindIO m f) Q E w = wp m (\<lambda>x. wp (f x) Q E) E w"
  by (simp add: wp_def bindIO_def split: prod.splits sum.splits)

lemma wp_thenIO [wp_simps]: "wp (thenIO m n) Q E w = wp m (\<lambda>_. wp n Q E) E w"
  by (simp add: thenIO_def wp_bindIO)

lemma wp_catchIO [wp_simps]:
  "wp (catchIO m h) Q E w =
     wp m Q (\<lambda>e w'. if ended w' \<and> \<not> ended w then E e w' else wp (h e) Q E w') w"
proof -
  obtain r w1 where m: "m w = (r, w1)" by (cases "m w")
  show ?thesis
    using m by (cases r) (simp_all add: wp_def catchIO_def)
qed

lemma wp_start_unawaited [wp_simps]:
  "wp (start_unawaited en c) Q E w =
     Q () (w\<lparr>trace := trace w @ [Exec c],
              due := (due w \<or> (case respond en (trace w) c of Ok _ \<Rightarrow> False
                                   | Err _ _ \<Rightarrow> True))\<rparr>)"
  by (simp add: wp_def start_unawaited_def)

lemma wp_kill_unawaited [wp_simps]: "wp kill_unawaited Q E w = Q () (w\<lparr>due := True\<rparr>)"
  by (simp add: wp_def kill_unawaited_def)

lemma wp_beside_due [wp_simps]:
  "wp (beside_due en m) Q E w =
     (if due w \<and> \<not> ended w \<and> pick en (trace w) mod 2 = 0
      then E UnhandledRejection (w\<lparr>ended := True\<rparr>)
      else wp m Q E w)"
  by (simp add: wp_def beside_due_def)

lemma wp_whenIO [wp_simps]: "wp (whenIO b m) Q E w = (if b then wp m Q E w else Q () w)"
  by (simp add: whenIO_def wp_returnIO)

lemma wp_getState [wp_simps]: "wp getState Q E w = Q (mem w) w"
  by (simp add: wp_def getState_def)

lemma wp_modifyState [wp_simps]: "wp (modifyState f) Q E w = Q () (w\<lparr>mem := f (mem w)\<rparr>)"
  by (simp add: wp_def modifyState_def)

lemma wp_now [wp_simps]: "wp now Q E w = Q (clock w) w"
  by (simp add: wp_def now_def)

lemma wp_log [wp_simps]: "wp (log m) Q E w = Q () (w\<lparr>trace := trace w @ [Log m]\<rparr>)"
  by (simp add: wp_def log_def)

lemma wp_execa [wp_simps]:
  "wp (execa en c) Q E w =
     Q (respond en (trace w) c)
       (w\<lparr>clock := clock w + duration en (trace w) c, trace := trace w @ [Exec c]\<rparr>)"
  by (simp add: wp_def execa_def)

lemma wp_saveState [wp_simps]:
  "wp saveState Q E w =
     Q () (w\<lparr>mem := (mem w)\<lparr>updated_at := clock w\<rparr>,
             state_file := Complete ((mem w)\<lparr>updated_at := clock w\<rparr>),
             trace := trace w @ [WriteState ((mem w)\<lparr>updated_at := clock w\<rparr>)]\<rparr>)"
  by (simp add: wp_def saveState_eq)

lemma wp_if [wp_simps]:
  "wp (if b then m else n) Q E w = (if b then wp m Q E w else wp n Q E w)"
  by simp

lemma wp_case_result [wp_simps]:
  "wp (case r of Ok out \<Rightarrow> f out | Err c s \<Rightarrow> g c s) Q E w =
     (case r of Ok out \<Rightarrow> wp (f out) Q E w | Err c s \<Rightarrow> wp (g c s) Q E w)"
  by (cases r) simp_all

lemma wp_case_option [wp_simps]:
  "wp (case v of None \<Rightarrow> f | Some x \<Rightarrow> g x) Q E w =
     (case v of None \<Rightarrow> wp f Q E w | Some x \<Rightarrow> wp (g x) Q E w)"
  by (cases v) simp_all

lemma wp_rel:
  assumes "rel_io R m" "\<And>x w'. R w w' \<Longrightarrow> Q x w'" "\<And>e w'. R w w' \<Longrightarrow> E e w'"
  shows "wp m Q E w"
proof -
  obtain r w1 where m: "m w = (r, w1)" by (cases "m w")
  have "R w w1" using assms(1) m by (rule rel_ioD)
  then show ?thesis using m assms(2,3) by (cases r) (simp_all add: wp_def)
qed

lemma wp_mono:
  assumes "wp m Q E w" "\<And>x w'. Q x w' \<Longrightarrow> Q' x w'" "\<And>e w'. E e w' \<Longrightarrow> E' e w'"
  shows "wp m Q' E' w"
  using assms by (auto simp: wp_def split: prod.splits sum.splits)

lemma wpD: "wp m Q E w \<Longrightarrow> m w = (r, w') \<Longrightarrow> (case r of Inr x \<Rightarrow> Q x w' | Inl e \<Rightarrow> E e w')"
  by (simp add: wp_def split: sum.splits)

text \<open>An invariant as a relation: if it held before, it holds after.\<close>

definition keeps :: "(world \<Rightarrow> bool) \<Rightarrow> world \<Rightarrow> world \<Rightarrow> bool" where
  "keeps I w w' = (I w \<longrightarrow> I w')"

lemma preorder_keeps: "preorder_on_worlds (keeps I)"
  by (simp add: preorder_on_worlds_def keeps_def)

lemma steady_keeps:
  assumes "\<And>w m. I w \<Longrightarrow> I (w\<lparr>trace := trace w @ [Log m]\<rparr>)"
      and "\<And>w c. I w \<Longrightarrow> I (w\<lparr>trace := trace w @ [Exec c]\<rparr>)"
      and "\<And>w d. I w \<Longrightarrow> I (w\<lparr>clock := clock w + d\<rparr>)"
  shows "steady (keeps I)"
  using assms by (simp add: steady_def preorder_keeps) (simp add: keeps_def)

lemma dooming_keeps:
  assumes "\<And>w. I w \<Longrightarrow> I (w\<lparr>due := True\<rparr>)" "\<And>w. I w \<Longrightarrow> I (w\<lparr>ended := True\<rparr>)"
  shows "dooming (keeps I)"
  using assms by (simp add: dooming_def keeps_def)

lemma rel_keepsD: "rel_io (keeps I) m \<Longrightarrow> I w \<Longrightarrow> I (snd (m w))"
  by (simp add: rel_io_def keeps_def)

lemma wp_keeps:
  assumes "rel_io (keeps I) m" "I w" "\<And>x w'. I w' \<Longrightarrow> Q x w'" "\<And>e w'. I w' \<Longrightarrow> E e w'"
  shows "wp m Q E w"
  using wp_rel[OF assms(1), of w Q E] assms(2,3,4) by (simp add: keeps_def)



section \<open>Example inputs\<close>

definition example_config :: Config where
  "example_config = \<lparr>config_lab_name = ''lab'', config_aws_region = ''us-east-1''\<rparr>"

definition no_components :: Components where
  "no_components = \<lparr>keycloak = None, polaris = None, trino = None, spark = None, opa = None\<rparr>"

text \<open>A state as \<^verbatim>\<open>lab bootstrap\<close> and then \<^verbatim>\<open>lab up --skip-components\<close> leave it.\<close>

definition cluster_up_state :: LabState where
  "cluster_up_state =
     \<lparr>version = ''1'', lab_name = ''lab'', created_at = 0, updated_at = 0,
      bootstrapped = True,
      bootstrap_outputs = Some \<lparr>state_bucket = TfStr ''b'', state_lock_table = TfStr ''t''\<rparr>,
      foundation_deployed = True,
      foundation_outputs = Some
        \<lparr>vpc_id = TfStr ''v'', private_subnet_ids = TfList [], public_subnet_ids = TfList [],
         aurora_cluster_endpoint = TfStr ''db.example'', aurora_cluster_reader_endpoint = TfStr ''r'',
         aurora_security_group_id = TfStr ''g'', aurora_secret_arn = TfStr ''arn'',
         iam_policy_s3_arn = TfStr ''p'', data_bucket = TfStr ''d'', data_bucket_arn = TfStr ''da'',
         logs_bucket = TfStr ''l'', logs_bucket_arn = TfStr ''la''\<rparr>,
      eks_deployed = True,
      eks_outputs = Some \<lparr>cluster_name = TfStr ''lab-eks'', cluster_endpoint = TfStr ''e'',
                          oidc_provider_arn = TfStr ''o''\<rparr>,
      cluster_ready = Some True, cluster_context = Some ''lab-context'',
      essentials_deployed = Some True,
      components = no_components\<rparr>"

text \<open>The process at its start, with the given state in the file and loaded.\<close>

definition world_with :: "LabState \<Rightarrow> world" where
  "world_with s = \<lparr>clock = 1000, trace = [], state_file = Complete s, mem = s,
                    due = False, ended = False\<rparr>"

text \<open>
  An environment in which every call succeeds: \<^verbatim>\<open>helm\<close> and \<^verbatim>\<open>aws\<close> print an empty
  JSON object, everything else prints \<^verbatim>\<open>True\<close>.
\<close>

definition plain_reply :: "call \<Rightarrow> string" where
  "plain_reply c =
     (case c of Execa p args \<Rightarrow> if p = ''helm'' \<or> p = ''aws'' then ''{}'' else ''True''
      | _ \<Rightarrow> ''True'')"

text \<open>A lab with a ready cluster and all five components deployed.\<close>

definition full_lab_state :: LabState where
  "full_lab_state =
     cluster_up_state\<lparr>components :=
       \<lparr>keycloak = Some (already_deployed Keycloak), polaris = Some (already_deployed Polaris),
        trino = Some (already_deployed Trino), spark = Some (already_deployed Spark),
        opa = Some (already_deployed Opa)\<rparr>\<rparr>"

text \<open>An environment in which \<^verbatim>\<open>kubectl\<close> is not installed and every other call succeeds.\<close>

definition no_kubectl :: env where
  "no_kubectl =
     \<lparr>respond = (\<lambda>h c. case c of
                   Execa p args \<Rightarrow> if p = ''kubectl'' then Err 127 ''kubectl: command not found''
                                   else Ok (plain_reply c)
                 | _ \<Rightarrow> Ok (plain_reply c)),
      elapse = (\<lambda>h c. 1), tf_outputs = (\<lambda>h d k. Some (TfStr k)), pick = (\<lambda>h. 0)\<rparr>"

lemma plain_reply_simps [simp]:
  "plain_reply (Execa p args) = (if p = ''helm'' \<or> p = ''aws'' then ''{}'' else ''True'')"
  "plain_reply (Terraform op dir) = ''True''" "plain_reply (ReadFile f) = ''True''"
  "plain_reply (WriteFile f) = ''True''" "plain_reply Question = ''True''"
  "plain_reply (Sleep d) = ''True''"
  by (simp_all add: plain_reply_def)

lemma json_braces [simp]: "json_ok ''{}''" "\<not> json_null ''{}''"
  by (simp_all add: json_ok_def json_null_def json_ws_def eval_nat_numeral)

lemma json_True [simp]: "\<not> json_ok ''True''"
  by (simp add: json_ok_def json_ws_def json_number_def is_digit_def eval_nat_numeral)

definition all_ok :: env where
  "all_ok = \<lparr>respond = (\<lambda>h c. Ok (plain_reply c)), elapse = (\<lambda>h c. 1),
             tf_outputs = (\<lambda>h d k. Some (TfStr k)), pick = (\<lambda>h. 0)\<rparr>"

definition plain_up :: UpOptions where
  "plain_up = \<lparr>up_dryRun = False, up_all = False, up_force = False,
               up_skipEssentials = False, up_skipComponents = False\<rparr>"

section \<open>Polling with a timeout of zero\<close>

lemma show_int_0: "show_int 0 = ''0''"
  by (simp add: show_int_def show_nat.simps digit_def)

text \<open>
  C9. With \<^verbatim>\<open>timeoutMinutes = 0\<close> the condition of the loop is false at once: the wait
  for the cluster to be active and the wait for the nodes both throw their timeout error,
  which names the bound of 0 minutes, after printing one line and without a single check
  (no child process is started, no sleep), whatever the environment would have answered.
\<close>

theorem wait_with_zero_timeout:
  "waitForEksClusterActive en clusterName region 0 w =
     (Inl (Error ''Timeout waiting for EKS cluster to become ACTIVE after 0 minutes''),
      w\<lparr>trace := trace w @ [Log ''Waiting for EKS cluster to become ACTIVE...'']\<rparr>)
   \<and> k8s_waitForClusterReady en clusterName 0 w =
     (Inl (Error ''Timeout waiting for cluster nodes to be ready after 0 minutes''),
      w\<lparr>trace := trace w @ [Log ''Waiting for cluster nodes to be ready...'']\<rparr>)"
  by (simp add: waitForEksClusterActive_def k8s_waitForClusterReady_def bindIO_def thenIO_def
      now_def log_def waitLoop.simps throwIO_def timeout_error_def show_int_0)

section \<open>Nothing to tear down\<close>

text \<open>
  C10. When the state has \<open>eks_deployed = False\<close>, \<open>down\<close> (with any options, so with
  \<^verbatim>\<open>--destroy-foundation\<close> too) prints its heading and that there is nothing to tear down,
  and returns: it asks no question, starts no child process and no Terraform run, writes no
  state and leaves the state file and the state as they were. So no \<^verbatim>\<open>terraform destroy\<close>
  of the foundation or of the state backend can come from \<open>down\<close> in such a state.
\<close>

theorem down_without_cluster:
  assumes "\<not> eks_deployed s"
  shows "down en config s options w =
           (Returned, w\<lparr>mem := s, trace := trace w @ [Log ''Tearing down lab session'',
              Log ''No EKS cluster deployed. Nothing to tear down.'']\<rparr>)
         \<and> state_file (snd (down en config s options w)) = state_file w
         \<and> (\<forall>c. Exec c \<notin> set (trace (snd (down en config s options w))) - set (trace w))
         \<and> (\<forall>f. WriteState f \<notin> set (trace (snd (down en config s options w))) - set (trace w))"
  using assms
  by (simp add: down_def exit_on_error_def thenIO_def bindIO_def modifyState_def log_def
      down_body_def getState_def)

theorem down_without_cluster_witness:
  "\<not> eks_deployed (initialState ''lab'' 0)
   \<and> down all_ok example_config (initialState ''lab'' 0)
        \<lparr>down_force = True, down_destroyFoundation = True\<rparr>
        \<lparr>clock = 1, trace = [], state_file = Complete (initialState ''lab'' 0),
         mem = initialState ''lab'' 0, due = False, ended = False\<rparr>
     = (Returned,
        \<lparr>clock = 1,
         trace = [Log ''Tearing down lab session'',
                  Log ''No EKS cluster deployed. Nothing to tear down.''],
         state_file = Complete (initialState ''lab'' 0), mem = initialState ''lab'' 0,
         due = False, ended = False\<rparr>)"
proof -
  have h: "\<not> eks_deployed (initialState ''lab'' 0)"
    by (simp add: initialState_def)
  show ?thesis
    using h down_without_cluster [OF h, of all_ok example_config
        "\<lparr>down_force = True, down_destroyFoundation = True\<rparr>"
        "\<lparr>clock = 1, trace = [], state_file = Complete (initialState ''lab'' 0),
          mem = initialState ''lab'' 0, due = False, ended = False\<rparr>"]
    by simp
qed

lemma exit_on_error_wp:
  "wp m (\<lambda>_ w'. P Returned w')
        (\<lambda>e w'. if ended w' \<and> \<not> ended w then P (Exited 1) w'
                 else P (Exited 1) (w'\<lparr>trace := trace w' @ [Log (''Error during '' @ name)]\<rparr>)) w
   \<Longrightarrow> P (fst (exit_on_error name m w)) (snd (exit_on_error name m w))"
  by (auto simp: wp_def exit_on_error_def split: prod.splits sum.splits if_splits)

lemmas preflight_defs = preFlightChecks_def checkKubectlInstalled_def checkAwsCliInstalled_def
  checkHelmInstalled_def checkPsqlInstalled_def succeeded_def

section \<open>A component whose hard dependency is missing\<close>

lemma deployTrino_without_polaris:
  "\<not> is_deployed (mem w) Polaris \<Longrightarrow>
   deployTrino en config force w =
     (Inl (Error ''Polaris must be deployed before Trino''),
      w\<lparr>trace := trace w @ [Log ''Deploying Trino'']\<rparr>)"
  by (simp add: deployTrino_def thenIO_def bindIO_def log_def getState_def throwIO_def)

lemma componentsToDeploy_trino: "componentsToDeploy [''trino''] False = [''trino'']"
  by (simp add: componentsToDeploy_def availableComponents_def toLowerCase_def lower_char_def)

lemma deployComponents_trino_alone:
  "\<not> is_deployed (mem w) Polaris \<Longrightarrow>
   deployComponents en config [''trino''] False force w =
     (Inr (), w\<lparr>trace := trace w @
        [Log ''Step 5: Deploying Components'', Log ''Deploying Trino...'',
         Log ''Deploying Trino'', Log ''Failed to deploy Trino'',
         Log ''Continuing without Trino...'', Log ''Component deployment complete'']\<rparr>)"
  by (simp add: deployComponents_def componentsToDeploy_trino availableComponents_def
      toLowerCase_def lower_char_def deploy_block_def component_key_def component_name_def
      deploy_of_def deployTrino_without_polaris whenIO_def thenIO_def bindIO_def catchIO_def
      log_def returnIO_def)

lemma wp_deployComponents_trino_alone:
  "\<not> is_deployed (mem w) Polaris \<Longrightarrow>
   wp (deployComponents en config [''trino''] False force) Q E w =
     Q () (w\<lparr>trace := trace w @
        [Log ''Step 5: Deploying Components'', Log ''Deploying Trino...'',
         Log ''Deploying Trino'', Log ''Failed to deploy Trino'',
         Log ''Continuing without Trino...'', Log ''Component deployment complete'']\<rparr>)"
  using deployComponents_trino_alone[of w en config force] by (simp add: wp_def)

text \<open>
  C5 (as amended). When Polaris is not recorded as deployed, \<open>deployTrino\<close> throws the
  error \<^verbatim>\<open>Polaris must be deployed before Trino\<close> after printing its heading and before it
  starts any child process; and \<open>deployComponents\<close> for the request \<^verbatim>\<open>trino\<close> alone catches
  that error, prints that it continues without Trino and returns normally: it starts no
  child process at all, writes no state, and does not abort the command.
\<close>

theorem trino_alone_rejected:
  assumes "\<not> is_deployed (mem w) Polaris"
  shows "deployTrino en config force w =
           (Inl (Error ''Polaris must be deployed before Trino''),
            w\<lparr>trace := trace w @ [Log ''Deploying Trino'']\<rparr>)
       \<and> deployComponents en config [''trino''] False force w =
           (Inr (), w\<lparr>trace := trace w @
              [Log ''Step 5: Deploying Components'', Log ''Deploying Trino...'',
               Log ''Deploying Trino'', Log ''Failed to deploy Trino'',
               Log ''Continuing without Trino...'', Log ''Component deployment complete'']\<rparr>)"
  using assms by (simp add: deployTrino_without_polaris deployComponents_trino_alone)

theorem trino_alone_rejected_witness:
  "\<not> is_deployed (mem (world_with cluster_up_state)) Polaris
   \<and> fst (deployTrino all_ok example_config False (world_with cluster_up_state))
       = Inl (Error ''Polaris must be deployed before Trino'')
   \<and> fst (deployComponents all_ok example_config [''trino''] False False
            (world_with cluster_up_state)) = Inr ()"
proof -
  have h: "\<not> is_deployed (mem (world_with cluster_up_state)) Polaris"
    by (simp add: world_with_def cluster_up_state_def no_components_def is_deployed_def)
  show ?thesis
    using h trino_alone_rejected [OF h, of all_ok example_config False]
    by simp
qed

text \<open>
  C5 as stated fails: the rejection of Trino does not abort the command. With the cluster up
  and no component deployed, \<^verbatim>\<open>lab up trino\<close> prints that Trino failed, goes on, prints
  \<^verbatim>\<open>Lab UP Complete\<close> and returns (exit code 0).
\<close>

theorem trino_alone_does_not_abort:
  "fst (up all_ok example_config cluster_up_state [''trino''] plain_up
          (world_with cluster_up_state)) = Returned
   \<and> Log ''Failed to deploy Trino''
       \<in> set (trace (snd (up all_ok example_config cluster_up_state [''trino''] plain_up
                            (world_with cluster_up_state))))
   \<and> Log ''Lab UP Complete''
       \<in> set (trace (snd (up all_ok example_config cluster_up_state [''trino''] plain_up
                            (world_with cluster_up_state))))"
  unfolding up_def
  apply (rule exit_on_error_wp)
  apply (simp add: wp_simps up_body_def preflight_defs all_ok_def plain_up_def
      cluster_up_state_def world_with_def up_rest_def truthy_def is_deployed_def
      no_components_def getNodeStatus_def wp_deployComponents_trino_alone duration_def)
  done


section \<open>A component that fails to deploy\<close>

lemma get_set_same [simp]: "get_component (set_component cs c v) c = v"
  by (cases c) simp_all

lemma get_set_other [simp]: "c \<noteq> c' \<Longrightarrow> get_component (set_component cs c v) c' = get_component cs c'"
  by (cases c; cases c') simp_all

lemma updateComponentState_eq:
  "updateComponentState c cs w =
     (Inr (), w\<lparr>mem := (mem w)\<lparr>components := set_component (components (mem w)) c (Some cs),
                               updated_at := clock w\<rparr>,
               state_file := Complete ((mem w)\<lparr>components := set_component (components (mem w)) c (Some cs),
                               updated_at := clock w\<rparr>),
               trace := trace w @ [WriteState ((mem w)\<lparr>components := set_component (components (mem w)) c (Some cs),
                               updated_at := clock w\<rparr>)]\<rparr>)"
  by (simp add: updateComponentState_def thenIO_def bindIO_def modifyState_def saveState_eq)

lemma rel_deploy_block:
  assumes "steady R" "c = Opa \<longrightarrow> dooming R" "\<And>cs. rel_io R (updateComponentState c cs)"
  shows "rel_io R (deploy_block en config force td c)"
  unfolding deploy_block_def by (intro rel_intros assms rel_deploy_of)

definition record_is :: "component \<Rightarrow> ComponentState option \<Rightarrow> world \<Rightarrow> bool" where
  "record_is c v w = (get_component (components (mem w)) c = v)"

lemma steady_record_is: "steady (keeps (record_is c v))"
  by (rule steady_keeps) (simp_all add: record_is_def)

lemma dooming_record_is: "dooming (keeps (record_is c v))"
  by (rule dooming_keeps) (simp_all add: record_is_def)

lemma block_keeps_other:
  assumes "c \<noteq> c'"
  shows "rel_io (keeps (record_is c' v)) (deploy_block en config force td c)"
proof (rule rel_deploy_block[OF steady_record_is])
  show "c = Opa \<longrightarrow> dooming (keeps (record_is c' v))" by (simp add: dooming_record_is)
next
  fix cs
  show "rel_io (keeps (record_is c' v)) (updateComponentState c cs)"
    using assms by (simp add: rel_io_def keeps_def record_is_def updateComponentState_eq)
qed

text \<open>
  A block other than Keycloak's returns, whatever its deployment does, unless the process ends
  inside it; and the process can end only inside the block of OPA.
\<close>

lemma block_never_throws:
  assumes "c \<noteq> Keycloak"
  shows "fst (deploy_block en config force td c w) = Inr ()
         \<or> (ended (snd (deploy_block en config force td c w)) \<and> \<not> ended w)"
  using assms
  by (simp add: deploy_block_def whenIO_def thenIO_def bindIO_def catchIO_def log_def returnIO_def
      split: prod.splits sum.splits)

definition ended_is :: "bool \<Rightarrow> world \<Rightarrow> bool" where
  "ended_is b w = (ended w = b)"

lemma steady_ended_is: "steady (keeps (ended_is b))"
  by (rule steady_keeps) (simp_all add: ended_is_def)

lemma block_keeps_ended:
  assumes "c \<noteq> Opa"
  shows "rel_io (keeps (ended_is b)) (deploy_block en config force td c)"
proof (rule rel_deploy_block[OF steady_ended_is])
  show "c = Opa \<longrightarrow> dooming (keeps (ended_is b))" using assms by simp
next
  fix cs
  show "rel_io (keeps (ended_is b)) (updateComponentState c cs)"
    by (simp add: rel_io_def keeps_def ended_is_def updateComponentState_eq)
qed

lemma block_same_ended:
  assumes "c \<noteq> Opa"
  shows "ended (snd (deploy_block en config force td c w)) = ended w"
  using rel_keepsD[OF block_keeps_ended[OF assms, of "ended w" en config force td], of w]
  by (simp add: ended_is_def)

lemma block_returns:
  assumes "c \<noteq> Keycloak" "c \<noteq> Opa"
  shows "fst (deploy_block en config force td c w) = Inr ()"
  using block_never_throws[OF assms(1), of en config force td w]
    block_same_ended[OF assms(2), of en config force td w]
  by blast

text \<open>A deployment that fails leaves the state as it was.\<close>

definition mem_is :: "LabState \<Rightarrow> world \<Rightarrow> bool" where
  "mem_is s w = (mem w = s)"

lemma steady_mem_is: "steady (keeps (mem_is s))"
  by (rule steady_keeps) (simp_all add: mem_is_def)

lemma dooming_mem_is: "dooming (keeps (mem_is s))"
  by (rule dooming_keeps) (simp_all add: mem_is_def)

lemma failed_block_keeps_mem:
  assumes "fst (deploy_of en config force c (snd (log (''Deploying '' @ component_name c @ ''...'') w))) = Inl e"
      and "c \<noteq> Keycloak"
  shows "mem (snd (deploy_block en config force td c w)) = mem w"
proof (cases "component_key c \<in> set td")
  case False
  then show ?thesis by (simp add: deploy_block_def whenIO_def returnIO_def)
next
  case True
  define w1 where "w1 = snd (log (''Deploying '' @ component_name c @ ''...'') w)"
  obtain r w2 where d: "deploy_of en config force c w1 = (r, w2)"
    by (cases "deploy_of en config force c w1")
  have r: "r = Inl e" using assms(1) d by (simp add: w1_def)
  have "mem_is (mem w) w1" by (simp add: mem_is_def w1_def log_def)
  then have "mem_is (mem w) w2"
    using rel_ioD[OF rel_deploy_of[OF steady_mem_is] d] by (simp add: keeps_def dooming_mem_is)
  then show ?thesis
    using True d r assms(2)
    by (simp add: deploy_block_def whenIO_def thenIO_def bindIO_def catchIO_def log_def
        w1_def mem_is_def split: prod.splits)
qed

text \<open>Results of the deploy functions are records of a deployed component, Polaris apart.\<close>

lemma wp_trivial: "(\<And>x w'. Q x w') \<Longrightarrow> (\<And>e w'. E e w') \<Longrightarrow> wp m Q E w"
  by (simp add: wp_def split: prod.splits sum.splits)

lemma wp_bindI:
  "(\<And>x w'. wp (f x) Q E w') \<Longrightarrow> (\<And>e w'. E e w') \<Longrightarrow> wp (bindIO m f) Q E w"
  by (simp add: wp_bindIO wp_trivial)

lemma wp_thenI:
  "(\<And>w'. wp n Q E w') \<Longrightarrow> (\<And>e w'. E e w') \<Longrightarrow> wp (thenIO m n) Q E w"
  by (simp add: thenIO_def wp_bindI)

lemma deployKeycloak_result:
  "wp (deployKeycloak en config force) (\<lambda>cs w'. deployed cs) (\<lambda>e w'. True) w"
  unfolding deployKeycloak_def
  by (simp add: wp_simps already_deployed_def newly_deployed_def | rule wp_trivial impI)+

lemma keycloak_block_deployed:
  assumes "''keycloak'' \<in> set td"
  shows "wp (deploy_block en config force td Keycloak)
           (\<lambda>_ w'. is_deployed (mem w') Keycloak) (\<lambda>e w'. True) w"
  using assms
  apply (simp add: deploy_block_def component_key_def wp_simps deploy_of_def)
  apply (rule wp_mono[OF deployKeycloak_result])
   apply (simp add: wp_def updateComponentState_eq is_deployed_def)
  apply (simp add: wp_simps)
  done

definition emitted :: "call \<Rightarrow> world \<Rightarrow> bool" where
  "emitted c w = (Exec c \<in> set (trace w))"

lemma steady_emitted: "steady (keeps (emitted c))"
  by (rule steady_keeps) (simp_all add: emitted_def)

lemma dooming_emitted: "dooming (keeps (emitted c))"
  by (rule dooming_keeps) (simp_all add: emitted_def)

lemma rel_update_emitted: "rel_io (keeps (emitted c)) (updateComponentState c' cs)"
  by (simp add: rel_io_def keeps_def emitted_def updateComponentState_eq)

lemma block_keeps_emitted: "rel_io (keeps (emitted c)) (deploy_block en config force td c')"
  by (rule rel_deploy_block[OF steady_emitted _ rel_update_emitted])
     (simp add: dooming_emitted)

lemma wp_releaseExists_emits:
  assumes "\<And>x w'. emitted (Execa ''helm'' [''status'', rel, ns]) w' \<Longrightarrow> Q x w'"
      and "\<And>e w'. emitted (Execa ''helm'' [''status'', rel, ns]) w' \<Longrightarrow> E e w'"
  shows "wp (releaseExists en rel ns) Q E w"
  by (simp add: releaseExists_def getRelease_def wp_simps assms emitted_def
      split: result.splits)

lemma opa_block_attempts:
  assumes "''opa'' \<in> set td"
  shows "emitted (Execa ''helm'' [''status'', ''opa'', ''opa''])
           (snd (deploy_block en config force td Opa w))"
proof -
  let ?I = "emitted (Execa ''helm'' [''status'', ''opa'', ''opa''])"
  have rest: "wp m (\<lambda>_. ?I) (\<lambda>_. ?I) w'" if "rel_io (keeps ?I) m" "?I w'" for m :: "ComponentState io" and w'
    by (rule wp_keeps[OF that]) simp_all
  have d: "wp (deploy_of en config force Opa) (\<lambda>_. ?I) (\<lambda>_. ?I) w'" for w'
    apply (simp add: deploy_of_def deployOpa_def wp_bindIO wp_thenIO wp_log wp_getState wp_whenIO)
    apply (intro conjI impI wp_releaseExists_emits rest)
         apply (intro rel_intros steady_emitted dooming_emitted rel_testOpaPolicy | simp add: emitted_def)+
    done
  have "wp (deploy_block en config force td Opa) (\<lambda>_ w'. ?I w') (\<lambda>_ w'. ?I w') w"
    using assms
    apply (simp add: deploy_block_def component_key_def wp_simps)
    apply (rule wp_mono[OF d])
     apply (simp add: wp_def updateComponentState_eq emitted_def)
    apply (simp add: wp_simps emitted_def)
    done
  then show ?thesis
    by (simp add: wp_def split: prod.splits sum.splits)
qed


text \<open>The process when the Trino step of \<^verbatim>\<open>up --all\<close> begins.\<close>

definition before_trino :: "env \<Rightarrow> Config \<Rightarrow> bool \<Rightarrow> world \<Rightarrow> world" where
  "before_trino en config force w =
     snd (deploy_block en config force availableComponents Polaris
       (snd (deploy_block en config force availableComponents Keycloak
         (snd (log ''Step 5: Deploying Components'' w)))))"

lemma keys_available:
  "''keycloak'' \<in> set availableComponents" "''opa'' \<in> set availableComponents"
  by (simp_all add: availableComponents_def)

lemma deployComponents_all:
  "deployComponents en config args True force =
     thenIO (log ''Step 5: Deploying Components'')
    (thenIO (deploy_block en config force availableComponents Keycloak)
    (thenIO (deploy_block en config force availableComponents Polaris)
    (thenIO (deploy_block en config force availableComponents Trino)
    (thenIO (deploy_block en config force availableComponents Spark)
    (thenIO (deploy_block en config force availableComponents Opa)
            (log ''Component deployment complete''))))))"
  by (rule ext)
     (simp add: deployComponents_def componentsToDeploy_def availableComponents_def whenIO_def
      thenIO_def bindIO_def returnIO_def Let_def)

text \<open>The process when the OPA step of \<^verbatim>\<open>up --all\<close> begins.\<close>

definition before_opa :: "env \<Rightarrow> Config \<Rightarrow> bool \<Rightarrow> world \<Rightarrow> world" where
  "before_opa en config force w =
     snd (deploy_block en config force availableComponents Spark
       (snd (deploy_block en config force availableComponents Trino
         (before_trino en config force w))))"



text \<open>An environment in which \<^verbatim>\<open>helm status trino\<close> fails and every other call succeeds.\<close>

definition trino_down :: env where
  "trino_down =
     \<lparr>respond = (\<lambda>h c. if c = Execa ''helm'' [''status'', ''trino'', ''trino'']
                         then Err 1 ''connection refused'' else Ok (plain_reply c)),
      elapse = (\<lambda>h c. 1), tf_outputs = (\<lambda>h d k. Some (TfStr k)), pick = (\<lambda>h. 0)\<rparr>"

definition all_up :: UpOptions where
  "all_up = \<lparr>up_dryRun = False, up_all = True, up_force = False,
             up_skipEssentials = False, up_skipComponents = False\<rparr>"

lemmas monad_defs = bindIO_def thenIO_def catchIO_def whenIO_def returnIO_def throwIO_def
  log_def getState_def modifyState_def now_def execa_def

lemmas quick_deploy_defs = deploy_block_def deploy_of_def deployKeycloak_def deployPolaris_def
  deployTrino_def deploySpark_def deployOpa_def releaseExists_def getRelease_def
  component_key_def component_name_def availableComponents_def is_deployed_def
  already_deployed_def component_namespace_def component_release_def





section \<open>Dry runs\<close>

text \<open>A state as \<^verbatim>\<open>lab up --skip-essentials --skip-components\<close> leaves it.\<close>

definition no_essentials_state :: LabState where
  "no_essentials_state = cluster_up_state\<lparr>essentials_deployed := Some False\<rparr>"

definition dry_run_up :: UpOptions where
  "dry_run_up = \<lparr>up_dryRun = True, up_all = False, up_force = False,
                 up_skipEssentials = False, up_skipComponents = False\<rparr>"

text \<open>
  C8, at an input where the code departs from it. With the cluster deployed and the
  essentials not yet deployed, \<^verbatim>\<open>lab up --dry-run\<close> does not stop after the plan (there is
  no plan at all, since the cluster needs no provisioning): it creates the namespaces
  with \<^verbatim>\<open>kubectl create namespace\<close>, and saves a state in which \<open>essentials_deployed\<close>
  has become true.
\<close>

theorem dry_run_up_deploys_essentials:
  "fst (up all_ok example_config no_essentials_state [] dry_run_up
          (world_with no_essentials_state)) = Returned
   \<and> Exec (Execa ''kubectl'' [''create'', ''namespace'', ''spark''])
       \<in> set (trace (snd (up all_ok example_config no_essentials_state [] dry_run_up
                            (world_with no_essentials_state))))
   \<and> state_file (snd (up all_ok example_config no_essentials_state [] dry_run_up
                         (world_with no_essentials_state)))
       = Complete (no_essentials_state\<lparr>essentials_deployed := Some True, updated_at := 1009\<rparr>)
   \<and> state_file (world_with no_essentials_state) = Complete no_essentials_state"
  unfolding up_def
  apply (rule exit_on_error_wp)
  apply (simp add: wp_simps up_body_def preflight_defs all_ok_def dry_run_up_def
      no_essentials_state_def cluster_up_state_def world_with_def up_rest_def truthy_def
      no_components_def getNodeStatus_def duration_def deployEssentials_def createNamespace_def
      createSecretFromAWS_def updateClusterReadyState_def example_config_def tf_string_def)
  done



section \<open>What the blocks that run side by side respect\<close>

text \<open>
  A relation is calm when console lines and the passing of time respect it; it allows a call
  when starting that call respects it. A steady relation is calm and allows every call.
\<close>

definition calm :: "(world \<Rightarrow> world \<Rightarrow> bool) \<Rightarrow> bool" where
  "calm R = (preorder_on_worlds R
     \<and> (\<forall>m w. R w (w\<lparr>trace := trace w @ [Log m]\<rparr>))
     \<and> (\<forall>d w. R w (w\<lparr>clock := clock w + d\<rparr>)))"

definition allows :: "(world \<Rightarrow> world \<Rightarrow> bool) \<Rightarrow> call \<Rightarrow> bool" where
  "allows R c = (\<forall>w. R w (w\<lparr>trace := trace w @ [Exec c]\<rparr>))"

definition step_ok :: "(world \<Rightarrow> world \<Rightarrow> bool) \<Rightarrow> step \<Rightarrow> bool" where
  "step_ok R s = ((\<forall>w. R w (before s w)) \<and> allows R (awaited s)
     \<and> (\<forall>r w. R w (snd (after s r) w)))"

definition pending_ok :: "(world \<Rightarrow> world \<Rightarrow> bool) \<Rightarrow> pending \<Rightarrow> bool" where
  "pending_ok R p = (case p of (c, h, rest) \<Rightarrow>
     (\<forall>r w. R w (snd (h r) w)) \<and> list_all (step_ok R) rest)"

lemma steady_calm: "steady R \<Longrightarrow> calm R"
  by (simp add: steady_def calm_def)

lemma steady_allows: "steady R \<Longrightarrow> allows R c"
  by (simp add: steady_def allows_def)

lemma calm_preorder: "calm R \<Longrightarrow> preorder_on_worlds R"
  by (simp add: calm_def)

lemma calm_refl: "calm R \<Longrightarrow> R w w"
  by (simp add: calm_def preorder_on_worlds_def)

lemma calm_trans: "calm R \<Longrightarrow> R a b \<Longrightarrow> R b c \<Longrightarrow> R a c"
  unfolding calm_def preorder_on_worlds_def by blast

lemma calm_tick: "calm R \<Longrightarrow> R w (w\<lparr>clock := clock w + d\<rparr>)"
  by (simp add: calm_def)

lemma calm_log: "calm R \<Longrightarrow> rel_io R (log m)"
  by (simp add: rel_io_def log_def calm_def)

lemma issue_ok:
  assumes "calm R" "step_ok R s"
  shows "R w (issue s w)"
proof -
  have "R w (before s w)" using assms(2) by (simp add: step_ok_def)
  moreover have "R (before s w) (issue s w)"
    using assms(2) by (simp add: issue_def Let_def step_ok_def allows_def)
  ultimately show ?thesis using calm_trans[OF assms(1)] by blast
qed

lemma start_task_ok:
  assumes "calm R" "list_all (step_ok R) ss"
  shows "R w (snd (start_task ss w)) \<and> list_all (pending_ok R) (fst (start_task ss w))"
proof (cases ss)
  case Nil
  then show ?thesis by (simp add: start_task_def calm_refl[OF assms(1)])
next
  case (Cons s rest)
  then show ?thesis
    using assms issue_ok[OF assms(1), of s w]
    by (simp add: start_task_def pending_ok_def step_ok_def)
qed

lemma start_tasks_ok:
  assumes "calm R" "list_all (list_all (step_ok R)) ts"
  shows "R w (snd (start_tasks ts w)) \<and> list_all (pending_ok R) (fst (start_tasks ts w))"
  using assms(2)
proof (induction ts arbitrary: w)
  case Nil
  then show ?case by (simp add: calm_refl[OF assms(1)])
next
  case (Cons t ts)
  obtain p w1 where 1: "start_task t w = (p, w1)" by (cases "start_task t w")
  obtain ps w2 where 2: "start_tasks ts w1 = (ps, w2)" by (cases "start_tasks ts w1")
  have a: "R w w1 \<and> list_all (pending_ok R) p"
    using start_task_ok[OF assms(1), of t w] Cons.prems 1 by simp
  have b: "R w1 w2 \<and> list_all (pending_ok R) ps"
    using Cons.IH[of w1] Cons.prems 2 by simp
  show ?case
    using a b 1 2 calm_trans[OF assms(1)] by auto
qed

lemma complete_ok:
  assumes "calm R" "pending_ok R p"
  shows "R w (snd (complete en p w)) \<and> list_all (pending_ok R) (fst (complete en p w))"
proof -
  obtain c h rest where p: "p = (c, h, rest)" by (cases p)
  obtain cont eff where h: "h (respond en (trace w) c) = (cont, eff)"
    by (cases "h (respond en (trace w) c)")
  define w1 where "w1 = w\<lparr>clock := clock w + duration en (trace w) c\<rparr>"
  have 1: "R w w1" using calm_tick[OF assms(1)] by (simp add: w1_def)
  have "R w1 (snd (h (respond en (trace w) c)) w1)"
    using assms(2) p by (simp add: pending_ok_def)
  then have 2: "R w (eff w1)" using h 1 calm_trans[OF assms(1)] by auto
  have rest: "list_all (step_ok R) rest" using assms(2) p by (simp add: pending_ok_def)
  show ?thesis
  proof (cases cont)
    case False
    then show ?thesis using p h 2 by (simp add: complete_def w1_def)
  next
    case True
    have "R (eff w1) (snd (start_task rest (eff w1)))
          \<and> list_all (pending_ok R) (fst (start_task rest (eff w1)))"
      using start_task_ok[OF assms(1) rest] .
    then show ?thesis
      using True p h 2 calm_trans[OF assms(1)] by (auto simp: complete_def w1_def Let_def)
  qed
qed

lemma pending_ok_replace:
  assumes "list_all (pending_ok R) ps" "list_all (pending_ok R) ps'"
  shows "list_all (pending_ok R) (take k ps @ ps' @ drop (Suc k) ps)"
  using assms by (auto simp: list_all_iff dest: in_set_takeD in_set_dropD)

lemma run_pending_ok:
  assumes "calm R"
  shows "list_all (pending_ok R) ps \<Longrightarrow> R w (run_pending en ps w)"
proof (induction en ps w rule: run_pending.induct)
  case (1 en ps w)
  show ?case
  proof (cases "ps = []")
    case True
    then show ?thesis by (simp add: run_pending.simps[of en "[]" w] calm_refl[OF assms])
  next
    case False
    define k where "k = pick en (trace w) mod length ps"
    obtain ps' w' where c: "complete en (ps ! k) w = (ps', w')"
      by (cases "complete en (ps ! k) w")
    have k: "k < length ps" using False by (simp add: k_def)
    have pk: "pending_ok R (ps ! k)"
      using "1.prems" k by (simp add: list_all_length)
    have ok: "R w w' \<and> list_all (pending_ok R) ps'"
      using complete_ok[OF assms pk, of w en] c by simp
    have all: "list_all (pending_ok R) (take k ps @ ps' @ drop (Suc k) ps)"
      using pending_ok_replace[of R ps ps' k] "1.prems" ok by blast
    have "R w' (run_pending en (take k ps @ ps' @ drop (Suc k) ps) w')"
      using "1.IH"[OF False k_def c[symmetric] all] .
    then have "R w (run_pending en (take k ps @ ps' @ drop (Suc k) ps) w')"
      using ok calm_trans[OF assms] by blast
    then show ?thesis
      using False c by (simp add: run_pending.simps[of en ps w] k_def[symmetric])
  qed
qed

lemma rel_promise_all:
  assumes "calm R" "list_all (list_all (step_ok R)) tasks"
  shows "rel_io R (promise_all en tasks)"
proof (rule rel_ioI)
  fix w
  obtain ps w1 where s: "start_tasks tasks w = (ps, w1)" by (cases "start_tasks tasks w")
  have 1: "R w w1 \<and> list_all (pending_ok R) ps"
    using start_tasks_ok[OF assms, of w] s by simp
  have "R w1 (run_pending en ps w1)"
    using run_pending_ok[OF assms(1)] 1 by simp
  then show "R w (snd (promise_all en tasks w))"
    using 1 s calm_trans[OF assms(1)] by (auto simp: promise_all_def)
qed

lemma run_ok: "rel_io R m \<Longrightarrow> R w (run m w)"
  by (simp add: rel_io_def run_def)

lemma calm_uninstall_reply: "calm R \<Longrightarrow> rel_io R (uninstall_reply r)"
  unfolding uninstall_reply_def
  by (intro rel_case_result rel_if rel_throwIO calm_log calm_preorder)

lemma uninstall_step_ok:
  assumes "calm R" "allows R (uninstall_call (component_release c) (component_namespace c))"
    "rel_io R (clearComponentState c)" "\<And>w. R w (pre w)"
  shows "step_ok R (uninstall_step c pre)"
proof -
  note pre = calm_preorder[OF assms(1)]
  have a: "R w (run (log ''Uninstalling Helm chart'') (pre w))" for w
    using calm_trans[OF assms(1) assms(4)[of w] run_ok[OF calm_log[OF assms(1)]]] .
  have b: "rel_io R (catchIO
               (thenIO (uninstall_reply r)
               (thenIO (log (component_title c @ '' undeployed''))
                       (clearComponentState c)))
               (\<lambda>e. log (''Warning: Failed to undeploy '' @ component_name c)))" for r
    by (intro rel_catchIO[OF pre] rel_thenIO[OF pre] calm_uninstall_reply calm_log assms)
  show ?thesis
    using a run_ok[OF b] assms(2) by (simp add: step_ok_def uninstall_step_def)
qed

text \<open>The calls that the three blocks await.\<close>

definition batch_calls :: "call list" where
  "batch_calls =
     [Execa ''kubectl'' [''delete'', ''configmap'', ''opa-policies'', ''opa''],
      uninstall_call (component_release Opa) (component_namespace Opa),
      Execa ''kubectl'' [''delete'', ''sparkapplications'', ''--all'', ''spark''],
      uninstall_call (component_release Spark) (component_namespace Spark),
      uninstall_call (component_release Trino) (component_namespace Trino)]"

lemma tasks_ok:
  assumes "calm R" "list_all (allows R) batch_calls"
    "rel_io R (clearComponentState Opa)" "rel_io R (clearComponentState Spark)"
    "rel_io R (clearComponentState Trino)"
  shows "list_all (step_ok R) opa_task" "list_all (step_ok R) spark_task"
        "list_all (step_ok R) trino_task"
proof -
  have id: "R w w" for w using calm_refl[OF assms(1)] .
  have l: "R w (run (log m) w)" for m w using run_ok[OF calm_log[OF assms(1)]] .
  have l2: "R w (run (thenIO (log m) (log m')) w)" for m m' w
    by (rule run_ok) (intro rel_thenIO calm_log calm_preorder assms)
  show "list_all (step_ok R) opa_task"
    using uninstall_step_ok[OF assms(1) _ assms(3), of "\<lambda>w. w"] id l assms(2)
    by (simp add: opa_task_def step_ok_def batch_calls_def)
  show "list_all (step_ok R) spark_task"
    using uninstall_step_ok[OF assms(1) _ assms(4), of "\<lambda>w. w"] id l l2 assms(2)
    by (simp add: spark_task_def step_ok_def batch_calls_def split: result.splits)
  show "list_all (step_ok R) trino_task"
    using uninstall_step_ok[OF assms(1) _ assms(5), of "run (log ''Undeploying Trino...'')"] l
      assms(2)
    by (simp add: trino_task_def batch_calls_def)
qed

lemma batch_ok:
  assumes "calm R" "list_all (allows R) batch_calls"
    "rel_io R (clearComponentState Opa)" "rel_io R (clearComponentState Spark)"
    "rel_io R (clearComponentState Trino)"
  shows "rel_io R (promise_all en
               ((if a then [opa_task] else []) @ (if b then [spark_task] else [])
                @ (if c then [trino_task] else [])))"
  by (rule rel_promise_all[OF assms(1)]) (simp add: tasks_ok[OF assms])

lemma rel_undeploy_block:
  assumes "steady R" "rel_io R (clearComponentState c)" "rel_io R undeploy"
  shows "rel_io R (undeploy_block c undeploy)"
  unfolding undeploy_block_def
  by (intro rel_intros assms)

lemma rel_undeployComponents:
  assumes "steady R" "\<And>c. rel_io R (clearComponentState c)"
  shows "rel_io R (undeployComponents en)"
  unfolding undeployComponents_def
  by (intro rel_intros assms batch_ok steady_calm rel_undeploy_block)
     (simp add: batch_calls_def steady_allows[OF assms(1)])

lemma rel_teardown:
  assumes "steady R" "\<And>c. rel_io R (clearComponentState c)" "rel_io R clearEphemeralState"
    "rel_io R saveState"
  shows "rel_io R (teardown en config)"
  unfolding teardown_def
  by (intro rel_intros assms rel_undeployComponents)


section \<open>What a normal teardown leaves alone\<close>

definition foundation_kept :: "LabState \<Rightarrow> LabState \<Rightarrow> bool" where
  "foundation_kept s s' =
     (bootstrapped s' = bootstrapped s \<and> bootstrap_outputs s' = bootstrap_outputs s
      \<and> foundation_deployed s' = foundation_deployed s
      \<and> foundation_outputs s' = foundation_outputs s
      \<and> lab_name s' = lab_name s \<and> created_at s' = created_at s)"

definition records_only_cleared :: "LabState \<Rightarrow> LabState \<Rightarrow> bool" where
  "records_only_cleared s s' =
     (\<forall>c. get_component (components s') c = get_component (components s) c
          \<or> get_component (components s') c = None)"

definition ephemeral_cleared :: "LabState \<Rightarrow> bool" where
  "ephemeral_cleared s =
     (\<not> eks_deployed s \<and> eks_outputs s = None \<and> cluster_ready s = Some False
      \<and> cluster_context s = None \<and> essentials_deployed s = Some False)"

definition framed :: "LabState \<Rightarrow> world \<Rightarrow> bool" where
  "framed s w =
     (foundation_kept s (mem w) \<and> records_only_cleared s (mem w)
      \<and> (\<exists>f. state_file w = Complete f \<and> foundation_kept s f \<and> records_only_cleared s f))"

lemma steady_framed: "steady (keeps (framed s))"
  by (rule steady_keeps) (simp_all add: framed_def)

lemma clearComponentState_eq:
  "clearComponentState c w =
     (Inr (), w\<lparr>mem := (mem w)\<lparr>components := set_component (components (mem w)) c None,
                               updated_at := clock w\<rparr>,
               state_file := Complete ((mem w)\<lparr>components := set_component (components (mem w)) c None,
                               updated_at := clock w\<rparr>),
               trace := trace w @ [WriteState ((mem w)\<lparr>components := set_component (components (mem w)) c None,
                               updated_at := clock w\<rparr>)]\<rparr>)"
  by (simp add: clearComponentState_def thenIO_def bindIO_def modifyState_def saveState_eq)

lemma clearEphemeralState_eq:
  "clearEphemeralState w =
     (Inr (), w\<lparr>mem := (mem w)\<lparr>eks_deployed := False, eks_outputs := None,
                   cluster_ready := Some False, cluster_context := None,
                   essentials_deployed := Some False, updated_at := clock w\<rparr>,
               state_file := Complete ((mem w)\<lparr>eks_deployed := False, eks_outputs := None,
                   cluster_ready := Some False, cluster_context := None,
                   essentials_deployed := Some False, updated_at := clock w\<rparr>),
               trace := trace w @ [WriteState ((mem w)\<lparr>eks_deployed := False, eks_outputs := None,
                   cluster_ready := Some False, cluster_context := None,
                   essentials_deployed := Some False, updated_at := clock w\<rparr>)]\<rparr>)"
  by (simp add: clearEphemeralState_def thenIO_def bindIO_def modifyState_def saveState_eq)

lemma framed_clearComponentState: "rel_io (keeps (framed s)) (clearComponentState c)"
proof -
  have "records_only_cleared s (m\<lparr>components := set_component (components m) c None,
          updated_at := t\<rparr>)" if "records_only_cleared s m" for m t
    unfolding records_only_cleared_def
  proof
    fix c'
    show "get_component (components (m\<lparr>components := set_component (components m) c None,
             updated_at := t\<rparr>)) c' = get_component (components s) c'
          \<or> get_component (components (m\<lparr>components := set_component (components m) c None,
             updated_at := t\<rparr>)) c' = None"
      using that by (cases "c = c'") (auto simp: records_only_cleared_def)
  qed
  then show ?thesis
    by (simp add: rel_io_def keeps_def framed_def clearComponentState_eq foundation_kept_def)
qed

lemma framed_clearEphemeralState: "rel_io (keeps (framed s)) clearEphemeralState"
  by (simp add: rel_io_def keeps_def framed_def clearEphemeralState_eq foundation_kept_def
      records_only_cleared_def)

lemma framed_saveState: "rel_io (keeps (framed s)) saveState"
  by (simp add: rel_io_def keeps_def framed_def saveState_eq foundation_kept_def
      records_only_cleared_def)

lemma framed_teardown: "rel_io (keeps (framed s)) (teardown en config)"
  by (rule rel_teardown[OF steady_framed framed_clearComponentState framed_clearEphemeralState
        framed_saveState])

lemma framed_down_body:
  assumes "\<not> down_destroyFoundation options"
  shows "rel_io (keeps (framed s)) (down_body en config options)"
  unfolding down_body_def using assms
  by (simp only: if_False) (intro rel_intros steady_framed framed_teardown)

text \<open>A teardown that returns has cleared the fields of the cluster in the saved state.\<close>

definition saved_cleared :: "world \<Rightarrow> bool" where
  "saved_cleared w = (case state_file w of Complete f \<Rightarrow> ephemeral_cleared f | _ \<Rightarrow> False)"

lemma teardown_clears:
  "wp (teardown en config)
      (\<lambda>_ w'. saved_cleared w' \<and> last (trace w') = Log ''Teardown Complete'')
      (\<lambda>e w'. True) w"
  unfolding teardown_def
  by (simp add: wp_simps clearEphemeralState_def saved_cleared_def ephemeral_cleared_def
      | rule wp_trivial impI conjI)+


lemma down_body_clears:
  assumes "\<not> down_destroyFoundation options"
  shows "wp (down_body en config options)
           (\<lambda>_ w'. last (trace w') = Log ''Teardown Complete'' \<longrightarrow> saved_cleared w')
           (\<lambda>e w'. True) w"
  unfolding down_body_def using assms
  apply (simp add: wp_simps)
  apply (intro conjI impI)
   apply (rule wp_trivial)
    apply (simp add: wp_simps)
    apply (intro conjI impI)
    apply (rule wp_mono[OF teardown_clears])
     apply simp_all
  apply (rule wp_mono[OF teardown_clears])
   apply simp_all
  done

lemma ended_teardown: "rel_io (keeps (ended_is b)) (teardown en config)"
  by (rule rel_teardown[OF steady_ended_is])
     (simp_all add: rel_io_def keeps_def ended_is_def clearComponentState_eq
        clearEphemeralState_eq saveState_eq)

lemma down_body_same_ended:
  assumes "\<not> down_destroyFoundation options"
  shows "rel_io (keeps (ended_is b)) (down_body en config options)"
  unfolding down_body_def using assms
  by (simp only: if_False) (intro rel_intros steady_ended_is ended_teardown)

text \<open>
  The part of the state that a normal \<open>down\<close> (without \<^verbatim>\<open>--destroy-foundation\<close>) leaves
  alone. On a state with \<open>eks_deployed\<close>, started with that state in the state file:
  whatever the environment answers and however the command ends, the state file then holds
  a record with the same \<open>bootstrapped\<close>, \<open>bootstrap_outputs\<close>, \<open>foundation_deployed\<close>,
  \<open>foundation_outputs\<close>, \<open>lab_name\<close> and \<open>created_at\<close>, in which no component record has
  been written anew (each is the one from before or is absent); and when the command reaches
  \<^verbatim>\<open>Teardown Complete\<close>, that record has the fields \<open>eks_deployed\<close>, \<open>eks_outputs\<close>,
  \<open>cluster_ready\<close>, \<open>cluster_context\<close> and \<open>essentials_deployed\<close> cleared.
\<close>

lemma normal_down_frame:
  assumes "eks_deployed s" "\<not> down_destroyFoundation options" "state_file w = Complete s"
  shows "\<exists>f. state_file (snd (down en config s options w)) = Complete f
           \<and> foundation_kept s f \<and> records_only_cleared s f
           \<and> (last (trace (snd (down en config s options w))) = Log ''Teardown Complete''
                \<longrightarrow> ephemeral_cleared f)"
proof -
  define w1 where "w1 = w\<lparr>mem := s, trace := trace w @ [Log ''Tearing down lab session'']\<rparr>"
  obtain r w' where run: "down_body en config options w1 = (r, w')"
    by (cases "down_body en config options w1")
  have "framed s w1"
    using assms(3) by (simp add: framed_def w1_def foundation_kept_def records_only_cleared_def)
  then have fr: "framed s w'"
    using rel_ioD[OF framed_down_body[OF assms(2)] run] by (simp add: keeps_def)
  have cl: "last (trace w') = Log ''Teardown Complete'' \<longrightarrow> saved_cleared w'" if "r = Inr ()"
    using wpD[OF down_body_clears[OF assms(2)] run] that by simp
  have "ended w' = ended w1"
    using rel_ioD[OF down_body_same_ended[OF assms(2), of "ended w1"] run]
    by (simp add: keeps_def ended_is_def)
  then have en: "ended w' = ended w"
    by (simp add: w1_def)
  have d: "down en config s options w =
            (case r of Inr _ \<Rightarrow> (Returned, w')
             | Inl e \<Rightarrow> (Exited 1, w'\<lparr>trace := trace w' @ [Log (''Error during '' @ ''lab down'')]\<rparr>))"
    using run en
    by (simp add: down_def exit_on_error_def thenIO_def bindIO_def modifyState_def log_def
        w1_def split: sum.splits)
  show ?thesis
  proof (cases r)
    case (Inl e)
    then show ?thesis using d fr by (auto simp: framed_def)
  next
    case (Inr u)
    then show ?thesis
      using d fr cl by (auto simp: framed_def saved_cleared_def)
  qed
qed


definition forced_down :: DownOptions where
  "forced_down = \<lparr>down_force = True, down_destroyFoundation = False\<rparr>"

lemma run_pending_Nil: "run_pending en [] w = w"
  by (simp add: run_pending.simps[of en "[]" w])

lemma wp_promise_all_Nil: "wp (promise_all en []) Q E w = Q () w"
  by (simp add: wp_def promise_all_def run_pending_Nil)

text \<open>
  C7, at an input where the code departs from it. A lab with a ready cluster and all five
  components deployed is torn down with \<^verbatim>\<open>lab down --force\<close> on a machine without
  \<^verbatim>\<open>kubectl\<close>. The graceful shutdown is skipped, and \<open>undeployComponents\<close> with it; the
  cluster is destroyed, the command returns and prints \<^verbatim>\<open>Teardown Complete\<close>. The record it
  saved has the fields of the cluster cleared and the fields of the foundation as before,
  but all five component records are still there with \<open>deployed = True\<close>: the component
  state is not cleared.
\<close>

theorem down_keeps_component_records:
  "fst (down no_kubectl example_config full_lab_state forced_down (world_with full_lab_state))
     = Returned
   \<and> last (trace (snd (down no_kubectl example_config full_lab_state forced_down
                          (world_with full_lab_state)))) = Log ''Teardown Complete''
   \<and> Exec (Terraform Destroy EphemeralDir)
       \<in> set (trace (snd (down no_kubectl example_config full_lab_state forced_down
                            (world_with full_lab_state))))
   \<and> state_file (snd (down no_kubectl example_config full_lab_state forced_down
                         (world_with full_lab_state)))
       = Complete (full_lab_state\<lparr>eks_deployed := False, eks_outputs := None,
            cluster_ready := Some False, cluster_context := None,
            essentials_deployed := Some False, updated_at := 1006\<rparr>)
   \<and> (case state_file (snd (down no_kubectl example_config full_lab_state forced_down
                                (world_with full_lab_state))) of
        Complete f \<Rightarrow> ephemeral_cleared f \<and> foundation_kept full_lab_state f
                       \<and> is_deployed f Keycloak \<and> is_deployed f Polaris \<and> is_deployed f Trino
                       \<and> is_deployed f Spark \<and> is_deployed f Opa
      | _ \<Rightarrow> False)
   \<and> state_file (world_with full_lab_state) = Complete full_lab_state"
  unfolding down_def
  apply (rule exit_on_error_wp)
  apply (simp add: wp_simps down_body_def teardown_def forced_down_def no_kubectl_def
      full_lab_state_def cluster_up_state_def world_with_def truthy_def no_components_def
      duration_def checkKubectlInstalled_def succeeded_def destroyEks_def
      terraform_def verifyFoundationIntact_def checkS3BucketExists_def
      checkAuroraClusterStatus_def clearEphemeralState_def already_deployed_def
      example_config_def ephemeral_cleared_def foundation_kept_def is_deployed_def)
  done


section \<open>The phase flags of every saved record\<close>

text \<open>
  The chain of the phase flags: a later flag is set only when the flags before it are set.
\<close>

definition chain :: "LabState \<Rightarrow> bool" where
  "chain s = ((truthy (cluster_ready s) \<longrightarrow> eks_deployed s)
     \<and> (eks_deployed s \<longrightarrow> foundation_deployed s)
     \<and> (foundation_deployed s \<longrightarrow> bootstrapped s))"

text \<open>Every record written so far, and the record in the state file, keep the chain.\<close>

definition persisted_ok :: "world \<Rightarrow> bool" where
  "persisted_ok w = ((\<forall>s. WriteState s \<in> set (trace w) \<longrightarrow> chain s)
      \<and> (\<forall>s. state_file w = Complete s \<longrightarrow> chain s))"

text \<open>
  The invariant of a command: the saved records and the record in memory keep the chain, and
  the flags named by \<open>b\<close>, \<open>f\<close>, \<open>e\<close> (\<open>bootstrapped\<close>, \<open>foundation_deployed\<close>,
  \<open>eks_deployed\<close>) are known to be set in memory.
\<close>

definition phases :: "bool \<Rightarrow> bool \<Rightarrow> bool \<Rightarrow> world \<Rightarrow> bool" where
  "phases b f e w = (persisted_ok w \<and> chain (mem w)
     \<and> (b \<longrightarrow> bootstrapped (mem w)) \<and> (f \<longrightarrow> foundation_deployed (mem w))
     \<and> (e \<longrightarrow> eks_deployed (mem w)))"

lemma steady_phases: "steady (keeps (phases b f e))"
  by (rule steady_keeps) (simp_all add: phases_def persisted_ok_def)

lemma phases_saveState: "rel_io (keeps (phases b f e)) saveState"
  by (simp add: rel_io_def keeps_def phases_def persisted_ok_def chain_def saveState_eq)

lemma phases_updateComponentState: "rel_io (keeps (phases b f e)) (updateComponentState c cs)"
  by (simp add: rel_io_def keeps_def phases_def persisted_ok_def chain_def updateComponentState_eq)

lemma phases_clearComponentState: "rel_io (keeps (phases b f e)) (clearComponentState c)"
  by (simp add: rel_io_def keeps_def phases_def persisted_ok_def chain_def clearComponentState_eq)

lemma phases_updateClusterReadyState:
  "rel_io (keeps (phases b f True)) (updateClusterReadyState c x)"
  by (simp add: rel_io_def keeps_def phases_def persisted_ok_def chain_def
      updateClusterReadyState_def thenIO_def bindIO_def modifyState_def saveState_eq)

lemma phases_clearEphemeralState: "rel_io (keeps (phases b f False)) clearEphemeralState"
  by (simp add: rel_io_def keeps_def phases_def persisted_ok_def chain_def truthy_def
      clearEphemeralState_eq)

lemma phases_resetState: "rel_io (keeps (phases False False False)) resetState"
  by (simp add: rel_io_def keeps_def phases_def persisted_ok_def chain_def truthy_def
      resetState_def thenIO_def bindIO_def modifyState_def clearEphemeralState_eq saveState_eq)

lemma phases_weaken: "phases b f e w \<Longrightarrow> (b' \<longrightarrow> b) \<Longrightarrow> (f' \<longrightarrow> f) \<Longrightarrow> (e' \<longrightarrow> e) \<Longrightarrow> phases b' f' e' w"
  by (auto simp: phases_def)

lemma wp_output_value:
  "wp (output_value outputs k) Q E w =
     (case outputs k of None \<Rightarrow> E TypeError w | Some v \<Rightarrow> Q v w)"
  by (simp add: output_value_def wp_simps split: option.splits)

lemma wp_output_valueI:
  "(\<And>v. Q v w) \<Longrightarrow> E TypeError w \<Longrightarrow> wp (output_value outputs k) Q E w"
  by (simp add: wp_output_value split: option.splits)

lemma wp_updateBootstrapState:
  assumes "phases b f e w"
  shows "wp (updateBootstrapState outputs) (\<lambda>_. phases True f e) (\<lambda>_. phases b f e) w"
  unfolding updateBootstrapState_def
  apply (simp only: wp_bindIO | rule wp_output_valueI assms)+
  using assms by (simp_all add: wp_simps phases_def persisted_ok_def chain_def)

lemma wp_updateFoundationState:
  assumes "phases True f e w"
  shows "wp (updateFoundationState outputs) (\<lambda>_. phases True True e) (\<lambda>_. phases True f e) w"
  unfolding updateFoundationState_def
  apply (simp only: wp_bindIO | rule wp_output_valueI assms)+
  using assms by (simp_all add: wp_simps phases_def persisted_ok_def chain_def)

lemma wp_updateEksState:
  assumes "phases b True e w"
  shows "wp (updateEksState outputs) (\<lambda>_. phases b True True) (\<lambda>_. phases b True e) w"
  unfolding updateEksState_def
  apply (simp only: wp_bindIO | rule wp_output_valueI assms)+
  using assms by (simp_all add: wp_simps phases_def persisted_ok_def chain_def)

lemma wp_seq:
  assumes "wp m (\<lambda>_. I1) I0 w" "\<And>w'. I1 w' \<Longrightarrow> wp n Q E w'" "\<And>e w'. I0 e w' \<Longrightarrow> E e w'"
  shows "wp (thenIO m n) Q E w"
  unfolding wp_thenIO using assms(1) by (rule wp_mono) (simp_all add: assms)

lemma wp_terraform_outputI:
  assumes "\<And>x w'. keeps I w w' \<Longrightarrow> Q x w'" "\<And>e w'. keeps I w w' \<Longrightarrow> E e w'"
    "steady (keeps I)"
  shows "wp (terraform_output en dir) Q E w"
  by (rule wp_rel[OF rel_terraform_output[OF assms(3)]]) (simp_all add: assms)

lemma wp_bootstrapStateBackend:
  assumes "phases False f e w"
  shows "wp (bootstrapStateBackend en config dry) (\<lambda>_. phases (\<not> dry) f e)
           (\<lambda>_. phases False f e) w"
proof (cases dry)
  case True
  have "rel_io (keeps (phases False f e)) (bootstrapStateBackend en config True)"
    unfolding bootstrapStateBackend_def by (simp only: if_True) (intro rel_intros steady_phases)
  then show ?thesis using True assms by (auto intro: wp_keeps)
next
  case False
  have pre: "rel_io (keeps (phases False f e))
          (thenIO (log ''Step 1: Creating Terraform State Backend'')
          (thenIO (terraform en Init BootstrapDir)
          (thenIO (terraform en Apply BootstrapDir) (terraform_output en BootstrapDir))))"
    by (intro rel_intros steady_phases)
  have eq: "bootstrapStateBackend en config False =
      bindIO (thenIO (log ''Step 1: Creating Terraform State Backend'')
          (thenIO (terraform en Init BootstrapDir)
          (thenIO (terraform en Apply BootstrapDir) (terraform_output en BootstrapDir))))
        updateBootstrapState"
    by (rule ext) (simp add: bootstrapStateBackend_def thenIO_def bindIO_def
        split: prod.splits sum.splits)
  have "wp (bootstrapStateBackend en config False) (\<lambda>_. phases True f e)
           (\<lambda>_. phases False f e) w"
    unfolding eq wp_bindIO
    by (rule wp_keeps[OF pre assms]) (simp_all add: wp_updateBootstrapState)
  then show ?thesis using False by simp
qed

lemma rel_from_wp:
  assumes "\<And>w. I w \<Longrightarrow> wp m (\<lambda>_. I) (\<lambda>_. I) w"
  shows "rel_io (keeps I) m"
proof (rule rel_ioI)
  fix w
  obtain r w' where m: "m w = (r, w')" by (cases "m w")
  show "keeps I w (snd (m w))"
    unfolding keeps_def
  proof
    assume "I w"
    then have "wp m (\<lambda>_. I) (\<lambda>_. I) w" by (rule assms)
    then show "I (snd (m w))" using m by (cases r) (simp_all add: wp_def)
  qed
qed

lemma phases_updateFoundationState:
  "rel_io (keeps (phases True f e)) (updateFoundationState outputs)"
  by (rule rel_from_wp, rule wp_mono[OF wp_updateFoundationState])
     (auto intro: phases_weaken)

lemma phases_deployFoundation:
  "rel_io (keeps (phases (\<not> dry) f e)) (deployFoundation en config dry)"
proof (cases dry)
  case True
  then show ?thesis
    unfolding deployFoundation_def by (simp only: if_True) (intro rel_intros steady_phases)
next
  case False
  then show ?thesis
    unfolding deployFoundation_def
    by (simp only: if_False not_False_eq_True)
       (intro rel_intros steady_phases phases_updateFoundationState)
qed

lemma phases_bootstrap_rest:
  "rel_io (keeps (phases (\<not> boot_dryRun options) f e)) (bootstrap_rest en config options)"
  unfolding bootstrap_rest_def
  by (intro rel_intros steady_phases phases_deployFoundation phases_saveState)

lemma phases_persisted: "phases b f e w \<Longrightarrow> persisted_ok w"
  by (simp add: phases_def)

lemma wp_bootstrap_rest:
  assumes "phases (\<not> boot_dryRun options) False False w"
  shows "wp (bootstrap_rest en config options) (\<lambda>_. persisted_ok) (\<lambda>_. persisted_ok) w"
  by (rule wp_keeps[OF phases_bootstrap_rest assms]) (simp_all add: phases_persisted)

lemma wp_bootstrap_both:
  assumes "phases False False False w"
  shows "wp (bootstrapStateBackend en config (boot_dryRun options))
           (\<lambda>_. wp (bootstrap_rest en config options) (\<lambda>_. persisted_ok) (\<lambda>_. persisted_ok))
           (\<lambda>_. persisted_ok) w"
  by (rule wp_mono[OF wp_bootstrapStateBackend[OF assms]])
     (simp_all add: wp_bootstrap_rest phases_persisted)

lemma bootstrap_persisted:
  assumes "chain state0" "persisted_ok w"
  shows "wp (bootstrap en config state0 options) (\<lambda>_. persisted_ok) (\<lambda>_. persisted_ok) w"
  unfolding bootstrap_def
  apply (simp add: wp_simps)
  apply (intro conjI impI)
  using assms by (auto intro!: wp_bootstrap_rest wp_bootstrap_both simp: phases_def persisted_ok_def)

lemma wp_preFlightChecks:
  assumes "phases False False False w"
  shows "wp (preFlightChecks en b) (\<lambda>_. phases False True False) (\<lambda>_. phases False False False) w"
  using assms by (simp add: wp_simps preflight_defs phases_def persisted_ok_def)

lemma wp_deployEks:
  assumes "phases b True False w"
  shows "wp (deployEks en config dry) (\<lambda>_. phases b True (\<not> dry)) (\<lambda>_. phases b True False) w"
proof (cases dry)
  case True
  have "rel_io (keeps (phases b True False)) (deployEks en config True)"
    unfolding deployEks_def by (simp only: if_True) (intro rel_intros steady_phases)
  then show ?thesis using True assms by (auto intro: wp_keeps)
next
  case False
  have pre: "rel_io (keeps (phases b True False))
          (thenIO (log ''Step 1: Provisioning EKS Cluster'')
          (bindIO getState (\<lambda>state.
             case bootstrap_outputs state of
               None \<Rightarrow> throwIO TypeError
             | Some bo \<Rightarrow>
                 thenIO (terraform en WriteBackendConfig EphemeralDir)
                (thenIO (terraform en Init EphemeralDir)
                (thenIO (terraform en Apply EphemeralDir) (terraform_output en EphemeralDir))))))"
    by (intro rel_intros steady_phases)
  have eq: "deployEks en config False =
      bindIO (thenIO (log ''Step 1: Provisioning EKS Cluster'')
          (bindIO getState (\<lambda>state.
             case bootstrap_outputs state of
               None \<Rightarrow> throwIO TypeError
             | Some bo \<Rightarrow>
                 thenIO (terraform en WriteBackendConfig EphemeralDir)
                (thenIO (terraform en Init EphemeralDir)
                (thenIO (terraform en Apply EphemeralDir) (terraform_output en EphemeralDir))))))
        updateEksState"
    by (rule ext) (simp add: deployEks_def thenIO_def bindIO_def getState_def throwIO_def
        split: prod.splits sum.splits option.splits)
  have "wp (deployEks en config False) (\<lambda>_. phases b True True) (\<lambda>_. phases b True False) w"
    unfolding eq wp_bindIO
    by (rule wp_keeps[OF pre assms]) (simp_all add: wp_updateEksState)
  then show ?thesis using False by simp
qed

lemma rel_deployComponents:
  assumes "steady R" "dooming R" "\<And>c cs. rel_io R (updateComponentState c cs)"
  shows "rel_io R (deployComponents en config componentArgs all force)"
  unfolding deployComponents_def
  by (intro rel_intros assms rel_deploy_block impI)

lemma rel_up_rest:
  assumes "steady R" "dooming R" "\<And>c cs. rel_io R (updateComponentState c cs)"
    "\<And>c x. rel_io R (updateClusterReadyState c x)" "rel_io R saveState"
  shows "rel_io R (up_rest en config comps options np)"
  unfolding up_rest_def
  by (intro rel_intros assms rel_deployComponents)

lemma dooming_phases: "dooming (keeps (phases b f e))"
  by (rule dooming_keeps) (simp_all add: phases_def persisted_ok_def)

lemma wp_up_rest:
  assumes "phases False True True w"
  shows "wp (up_rest en config comps options np) (\<lambda>_. persisted_ok) (\<lambda>_. persisted_ok) w"
  by (rule wp_keeps[OF rel_up_rest[OF steady_phases dooming_phases phases_updateComponentState
          phases_updateClusterReadyState phases_saveState] assms])
     (simp_all add: phases_persisted)

lemma wp_deployEks_dry:
  assumes "phases False True False w"
  shows "wp (deployEks en config True)
           (\<lambda>_. wp (returnIO ()) (\<lambda>_. persisted_ok) (\<lambda>_. persisted_ok))
           (\<lambda>_. persisted_ok) w"
  by (rule wp_mono[OF wp_deployEks[OF assms]]) (simp_all add: phases_persisted wp_returnIO)

lemma wp_deployEks_then:
  assumes "phases False True False w"
  shows "wp (deployEks en config False)
           (\<lambda>_. wp (up_rest en config comps options np) (\<lambda>_. persisted_ok) (\<lambda>_. persisted_ok))
           (\<lambda>_. persisted_ok) w"
  by (rule wp_mono[OF wp_deployEks[OF assms]]) (simp_all add: phases_persisted wp_up_rest)

lemma wp_up_body:
  assumes "phases False False False w"
  shows "wp (up_body en config comps options) (\<lambda>_. persisted_ok) (\<lambda>_. persisted_ok) w"
  unfolding up_body_def
  apply (rule wp_seq[OF wp_preFlightChecks[OF assms]])
   apply (simp add: wp_simps Let_def)
   apply (intro conjI impI)
  apply (auto intro!: wp_deployEks_dry wp_deployEks_then wp_up_rest simp: phases_def persisted_ok_def)
  done

lemma persisted_ok_log: "persisted_ok (w\<lparr>trace := trace w @ [Log m]\<rparr>) = persisted_ok w"
  by (simp add: persisted_ok_def)

lemma exit_on_error_keeps:
  assumes "wp m (\<lambda>_. P) (\<lambda>_. P) w" "\<And>w l. P (w\<lparr>trace := trace w @ [Log l]\<rparr>) = P w"
  shows "P (snd (exit_on_error name m w))"
  using assms by (auto simp: wp_def exit_on_error_def split: prod.splits sum.splits)

lemma up_persisted:
  assumes "chain state0" "persisted_ok w"
  shows "persisted_ok (snd (up en config state0 comps options w))"
  unfolding up_def
  apply (rule exit_on_error_keeps[where P = persisted_ok, OF _ persisted_ok_log])
  apply (simp add: wp_thenIO wp_modifyState wp_log persisted_ok_log)
  apply (rule wp_up_body)
  using assms apply (simp add: phases_def persisted_ok_def)
  done

lemma rel_destroyAll:
  assumes "steady R" "rel_io R resetState"
  shows "rel_io R (destroyAll en config)"
  unfolding destroyAll_def
  by (intro rel_intros assms)

lemma rel_down_body:
  assumes "steady R" "\<And>c. rel_io R (clearComponentState c)" "rel_io R clearEphemeralState"
    "rel_io R saveState" "rel_io R resetState"
  shows "rel_io R (down_body en config options)"
  unfolding down_body_def
  by (intro rel_intros assms rel_teardown rel_destroyAll)

lemma phases_down_body: "rel_io (keeps (phases False False False)) (down_body en config options)"
  by (rule rel_down_body[OF steady_phases phases_clearComponentState phases_clearEphemeralState
        phases_saveState phases_resetState])

lemma down_persisted:
  assumes "chain state0" "persisted_ok w"
  shows "persisted_ok (snd (down en config state0 options w))"
  unfolding down_def
  apply (rule exit_on_error_keeps[where P = persisted_ok, OF _ persisted_ok_log])
  apply (simp add: wp_thenIO wp_modifyState wp_log persisted_ok_log)
  apply (rule wp_keeps[OF phases_down_body])
  using assms apply (simp_all add: phases_def persisted_ok_def)
  done

lemma wp_snd: "wp m (\<lambda>_. P) (\<lambda>_. P) w \<Longrightarrow> P (snd (m w))"
  by (cases "m w") (auto simp: wp_def split: sum.splits)

lemma chain_initialState: "chain (initialState n t)"
  by (simp add: chain_def initialState_def truthy_def)

lemma cli_persisted:
  assumes "persisted_ok w"
  shows "persisted_ok (snd (cli en config cmd w))"
proof -
  define v where "v = w\<lparr>due := False, ended := False\<rparr>"
  have v: "persisted_ok v"
    using assms by (simp add: v_def persisted_ok_def)
  have c: "cli en config cmd w =
      (case loadState (config_lab_name config) v of
         (Inl e, w') \<Rightarrow> (1, snd (log (error_message e) w'))
       | (Inr state, w') \<Rightarrow>
           (case cmd of
              Bootstrap options \<Rightarrow>
                (case bootstrap en config state options w' of
                   (Inl e, w'') \<Rightarrow> (1, snd (log (error_message e) w''))
                 | (Inr _, w'') \<Rightarrow> (0, w''))
            | Up comps options \<Rightarrow>
                (case up en config state comps options w' of
                   (out, w'') \<Rightarrow> (if due w'' then 1 else exit_code out, w''))
            | Down options \<Rightarrow>
                (case down en config state options w' of (out, w'') \<Rightarrow> (exit_code out, w''))))"
    by (simp add: cli_def v_def)
  show ?thesis
  proof (cases "loadState (config_lab_name config) v")
    case (Pair r w')
    have w': "w' = v" using Pair by (auto simp: loadState_def split: statefile.splits)
    show ?thesis
    proof (cases r)
      case (Inl e)
      then show ?thesis unfolding c using Pair w' v by (simp add: log_def persisted_ok_log)
    next
      case (Inr state)
      have st: "chain state"
        using Pair Inr v
        by (auto simp: loadState_def persisted_ok_def chain_initialState split: statefile.splits)
      show ?thesis
      proof (cases cmd)
        case (Bootstrap options)
        have "persisted_ok (snd (bootstrap en config state options v))"
          by (rule wp_snd[OF bootstrap_persisted[OF st v]])
        then show ?thesis
          unfolding c using Pair Inr w' Bootstrap
          by (cases "bootstrap en config state options v")
             (auto simp: log_def persisted_ok_log split: sum.splits)
      next
        case (Up comps options)
        then show ?thesis
          unfolding c using Pair Inr w' up_persisted[OF st v, of en config comps options]
          by (cases "up en config state comps options v") simp
      next
        case (Down options)
        then show ?thesis
          unfolding c using Pair Inr w' down_persisted[OF st v, of en config options]
          by (cases "down en config state options v") simp
      qed
    qed
  qed
qed

text \<open>
  The worlds a lab goes through: it starts without a state file and with nothing done, and
  every command (\<^verbatim>\<open>bootstrap\<close>, \<^verbatim>\<open>up\<close>, \<^verbatim>\<open>down\<close>, with any options, in any
  environment) takes it to the next one.
\<close>

inductive reachable :: "world \<Rightarrow> bool" where
  fresh: "state_file w = Missing \<Longrightarrow> trace w = [] \<Longrightarrow> reachable w"
| command: "reachable w \<Longrightarrow> reachable (snd (cli en config cmd w))"

text \<open>
  C2. Every record that a command has written to the state file, at any point of any
  sequence of commands on a lab that started without a state file, keeps the chain of the
  phase flags: \<open>cluster_ready = true\<close> implies \<open>eks_deployed\<close>, \<open>eks_deployed\<close> implies
  \<open>foundation_deployed\<close>, \<open>foundation_deployed\<close> implies \<open>bootstrapped\<close>; so no saved
  record has \<open>cluster_ready = true\<close> without \<open>foundation_deployed\<close>.
\<close>

theorem persisted_states_keep_phase_chain:
  assumes "reachable w" "WriteState s \<in> set (trace w) \<or> state_file w = Complete s"
  shows "(truthy (cluster_ready s) \<longrightarrow> eks_deployed s)
       \<and> (eks_deployed s \<longrightarrow> foundation_deployed s)
       \<and> (foundation_deployed s \<longrightarrow> bootstrapped s)
       \<and> \<not> (truthy (cluster_ready s) \<and> \<not> foundation_deployed s)"
proof -
  have "persisted_ok w"
    using assms(1)
  proof (induction rule: reachable.induct)
    case (fresh w)
    then show ?case by (simp add: persisted_ok_def)
  next
    case (command w en config cmd)
    then show ?case by (simp add: cli_persisted)
  qed
  then have "chain s" using assms(2) by (auto simp: persisted_ok_def)
  then show ?thesis by (auto simp: chain_def)
qed


section \<open>A lab from bootstrap to a ready cluster\<close>

text \<open>
  An environment in which every call succeeds: the cluster is \<^verbatim>\<open>ACTIVE\<close>, pods are
  \<^verbatim>\<open>Running\<close>, and \<^verbatim>\<open>helm status keycloak\<close> finds the release once the chart has been
  installed, and not before.
\<close>

definition keycloak_install :: call where
  "keycloak_install = Execa ''helm'' [''upgrade'', ''--install'', ''keycloak'', ''bitnami/keycloak'', ''keycloak'']"

definition lab_env :: env where
  "lab_env =
     \<lparr>respond = (\<lambda>h c.
        if c = Execa ''helm'' [''status'', ''keycloak'', ''keycloak''] \<and> Exec keycloak_install \<notin> set h
        then Err 1 ''Error: release: not found''
        else case c of
          Execa p args \<Rightarrow>
            if take 2 args = [''eks'', ''describe-cluster''] then Ok ''ACTIVE''
            else if take 2 args = [''get'', ''pods''] then Ok ''Running''
            else Ok (plain_reply c)
        | _ \<Rightarrow> Ok ''True''),
      elapse = (\<lambda>h c. 1), tf_outputs = (\<lambda>h d k. Some (TfStr k)), pick = (\<lambda>h. 0)\<rparr>"

definition fresh_world :: world where
  "fresh_world = \<lparr>clock = 0, trace = [], state_file = Missing, mem = initialState ''lab'' 0,
                   due = False, ended = False\<rparr>"

definition plain_bootstrap :: BootstrapOptions where
  "plain_bootstrap = \<lparr>boot_dryRun = False, boot_skipFoundation = False, boot_force = False\<rparr>"

definition cluster_only :: UpOptions where
  "cluster_only = \<lparr>up_dryRun = False, up_all = False, up_force = False,
                  up_skipEssentials = False, up_skipComponents = True\<rparr>"

definition after_bootstrap :: world where
  "after_bootstrap = snd (cli lab_env example_config (Bootstrap plain_bootstrap) fresh_world)"

definition after_up :: world where
  "after_up = snd (cli lab_env example_config (Up [] cluster_only) after_bootstrap)"

definition booted_state :: LabState where
  "booted_state =
     (initialState ''lab'' 0)
       \<lparr>updated_at := 7, bootstrapped := True,
        bootstrap_outputs := Some \<lparr>state_bucket = TfStr ''state_bucket'',
                                   state_lock_table = TfStr ''state_lock_table''\<rparr>,
        foundation_deployed := True,
        foundation_outputs := Some
          \<lparr>vpc_id = TfStr ''vpc_id'', private_subnet_ids = TfStr ''private_subnet_ids'',
           public_subnet_ids = TfStr ''public_subnet_ids'',
           aurora_cluster_endpoint = TfStr ''aurora_cluster_endpoint'',
           aurora_cluster_reader_endpoint = TfStr ''aurora_cluster_reader_endpoint'',
           aurora_security_group_id = TfStr ''aurora_security_group_id'',
           aurora_secret_arn = TfStr ''aurora_secret_arn'',
           iam_policy_s3_arn = TfStr ''iam_policy_s3_arn'',
           data_bucket = TfStr ''data_bucket'', data_bucket_arn = TfStr ''data_bucket_arn'',
           logs_bucket = TfStr ''logs_bucket'', logs_bucket_arn = TfStr ''logs_bucket_arn''\<rparr>\<rparr>"

definition ready_state :: LabState where
  "ready_state =
     booted_state
       \<lparr>updated_at := 21, eks_deployed := True,
        eks_outputs := Some \<lparr>cluster_name = TfStr ''cluster_name'',
                             cluster_endpoint = TfStr ''cluster_endpoint'',
                             oidc_provider_arn = TfStr ''oidc_provider_arn''\<rparr>,
        cluster_ready := Some True, cluster_context := Some ''lab-context'',
        essentials_deployed := Some True\<rparr>"

text \<open>What the two commands leave, by running them.\<close>

lemma cli_bootstrap_wp:
  assumes "state_file w = Missing"
    "wp (bootstrap en config (initialState (config_lab_name config) (clock w)) options)
        (\<lambda>_. P) (\<lambda>e w'. P (w'\<lparr>trace := trace w' @ [Log (error_message e)]\<rparr>))
        (w\<lparr>due := False, ended := False\<rparr>)"
  shows "P (snd (cli en config (Bootstrap options) w))"
  using assms
  by (auto simp: cli_def loadState_def wp_def log_def split: prod.splits sum.splits)

lemma cli_up_wp:
  assumes "state_file w = Complete s"
    "wp (thenIO (modifyState (\<lambda>_. s))
        (thenIO (log ''Deploying lab session'') (up_body en config comps options)))
        (\<lambda>_ w'. P (if due w' then 1 else 0) w')
        (\<lambda>e w'. if ended w' then P 1 w'
                 else P 1 (w'\<lparr>trace := trace w' @ [Log ''Error during lab up'']\<rparr>))
        (w\<lparr>due := False, ended := False\<rparr>)"
  shows "P (fst (cli en config (Up comps options) w)) (snd (cli en config (Up comps options) w))"
  using assms
  by (auto simp: cli_def loadState_def wp_def up_def exit_on_error_def exit_code_def
      split: prod.splits sum.splits if_splits)

lemma wp_terraform_output:
  "wp (terraform_output en dir) Q E w =
     wp (terraform en Output dir) (\<lambda>_. Q (tf_outputs en (trace w) dir)) E w"
  by (simp add: wp_def terraform_output_def split: prod.splits sum.splits)

lemma wp_waitLoop:
  assumes "int (clock w) - int st < tm * 60 * 1000"
  shows "wp (waitLoop en wt tm st) Q E w =
     wp (check en wt)
        (\<lambda>b w1. if b then Q () w1
                 else wp (waitLoop en wt tm st) Q E (snd (sleep en (pollInterval wt) w1))) E w"
proof -
  obtain r w1 where ch: "check en wt w = (r, w1)" by (cases "check en wt w")
  show ?thesis
  proof (cases r)
    case (Inl e)
    then show ?thesis using assms ch by (simp add: wp_def waitLoop.simps[of en wt tm st w])
  next
    case (Inr b)
    then show ?thesis
      using assms ch by (cases b) (simp_all add: wp_def waitLoop.simps[of en wt tm st w])
  qed
qed

lemma bootstrap_run:
  "state_file after_bootstrap = Complete booted_state \<and> clock after_bootstrap = 7"
  unfolding after_bootstrap_def
  apply (rule cli_bootstrap_wp[where P = "\<lambda>w. state_file w = Complete booted_state \<and> clock w = 7"])
   apply (simp add: fresh_world_def)
  apply (simp add: wp_simps wp_terraform_output wp_output_value bootstrap_def
      bootstrapStateBackend_def bootstrap_rest_def deployFoundation_def terraform_def
      updateBootstrapState_def updateFoundationState_def fresh_world_def plain_bootstrap_def
      example_config_def lab_env_def initialState_def booted_state_def duration_def)
  done

lemmas up_path_defs = up_body_def preflight_defs deployEks_def terraform_def updateEksState_def
  up_rest_def waitForClusterReady_def waitForEksClusterActive_def check_eks_def
  getEksClusterStatus_def configureKubeconfig_def k8s_waitForClusterReady_def check_nodes_def
  getNodeStatus_def updateClusterReadyState_def contextName_def deployEssentials_def
  createNamespace_def createSecretFromAWS_def tf_string_def truthy_def duration_def

lemma trim_ACTIVE: "trim ''ACTIVE'' = ''ACTIVE''"
  by (simp add: trim_def is_space_def)

lemma trim_True: "trim ''True'' = ''True''"
  by (simp add: trim_def is_space_def)

lemma up_run:
  "fst (cli lab_env example_config (Up [] cluster_only) after_bootstrap) = 0
   \<and> state_file after_up = Complete ready_state"
  unfolding after_up_def
  apply (rule cli_up_wp[where P = "\<lambda>c w. c = 0 \<and> state_file w = Complete ready_state"
        and s = booted_state])
   apply (simp add: bootstrap_run)
  apply (simp add: wp_simps wp_terraform_output wp_output_value wp_waitLoop up_path_defs
      bootstrap_run trim_ACTIVE trim_True
      cluster_only_def example_config_def lab_env_def initialState_def booted_state_def
      ready_state_def)
  done

text \<open>
  C2 on that lab: the record that \<^verbatim>\<open>lab up\<close> leaves in the state file after
  \<^verbatim>\<open>lab bootstrap\<close> has all four flags set.
\<close>

theorem persisted_states_keep_phase_chain_witness:
  "reachable after_up \<and> state_file after_up = Complete ready_state
   \<and> truthy (cluster_ready ready_state) \<and> eks_deployed ready_state
   \<and> foundation_deployed ready_state \<and> bootstrapped ready_state"
proof -
  have r: "reachable after_up"
    unfolding after_up_def after_bootstrap_def
    by (intro reachable.command reachable.fresh) (simp_all add: fresh_world_def)
  have f: "state_file after_up = Complete ready_state" using up_run by simp
  have t: "truthy (cluster_ready ready_state)" by (simp add: ready_state_def truthy_def)
  show ?thesis
    using persisted_states_keep_phase_chain [OF r, of ready_state] r f t by blast
qed


section \<open>The order of a teardown\<close>

text \<open>
  How many events of a kind have happened. A handler adds one when every run of it leaves
  one more; a step is promising when its call is of the kind or its handler adds one; a
  waiting block has one promised when its handler adds one or a later step is promising.
\<close>

definition marks :: "(event \<Rightarrow> bool) \<Rightarrow> world \<Rightarrow> nat" where
  "marks P w = length (filter P (trace w))"

definition no_less :: "(event \<Rightarrow> bool) \<Rightarrow> world \<Rightarrow> world \<Rightarrow> bool" where
  "no_less P w w' = (marks P w \<le> marks P w')"

definition adds :: "(event \<Rightarrow> bool) \<Rightarrow> (world \<Rightarrow> world) \<Rightarrow> bool" where
  "adds P f = (\<forall>w. marks P w < marks P (f w))"

definition promising :: "(event \<Rightarrow> bool) \<Rightarrow> step \<Rightarrow> bool" where
  "promising P s = (P (Exec (awaited s)) \<or> (\<forall>r. adds P (snd (after s r))))"

definition promised :: "(event \<Rightarrow> bool) \<Rightarrow> pending \<Rightarrow> bool" where
  "promised P p = (case p of (c, h, rest) \<Rightarrow>
     (\<forall>r. adds P (snd (h r))) \<or> list_ex (promising P) rest)"

definition goes_on :: "step \<Rightarrow> bool" where
  "goes_on s = (\<forall>r. fst (after s r))"

definition continues :: "pending \<Rightarrow> bool" where
  "continues p = (case p of (c, h, rest) \<Rightarrow> (\<forall>r. fst (h r)) \<and> list_all goes_on rest)"

lemma steady_no_less: "steady (no_less P)"
  by (simp add: steady_def preorder_on_worlds_def no_less_def marks_def)

lemma start_task_marks:
  assumes "list_all (step_ok (no_less P)) ss" "list_all goes_on ss"
  shows "marks P w \<le> marks P (snd (start_task ss w))"
    and "list_all continues (fst (start_task ss w))"
    and "list_ex (promising P) ss \<Longrightarrow>
           marks P w < marks P (snd (start_task ss w))
           \<or> list_ex (promised P) (fst (start_task ss w))"
proof -
  show "marks P w \<le> marks P (snd (start_task ss w))"
    using start_task_ok[OF steady_calm[OF steady_no_less] assms(1), of w]
    by (simp add: no_less_def)
  show "list_all continues (fst (start_task ss w))"
    using assms(2) by (cases ss) (simp_all add: start_task_def continues_def goes_on_def)
  assume ex: "list_ex (promising P) ss"
  then obtain s rest where ss: "ss = s # rest" by (cases ss) auto
  have b: "marks P w \<le> marks P (before s w)"
    using assms(1) ss by (simp add: step_ok_def no_less_def)
  show "marks P w < marks P (snd (start_task ss w))
        \<or> list_ex (promised P) (fst (start_task ss w))"
  proof (cases "P (Exec (awaited s))")
    case True
    then have "marks P w < marks P (issue s w)"
      using b by (simp add: issue_def Let_def marks_def)
    then show ?thesis using ss by (simp add: start_task_def)
  next
    case False
    then have "(\<forall>r. adds P (snd (after s r))) \<or> list_ex (promising P) rest"
      using ex ss by (auto simp: promising_def)
    then show ?thesis using ss by (simp add: start_task_def promised_def)
  qed
qed

lemma complete_marks:
  assumes "pending_ok (no_less P) p" "continues p"
  shows "marks P w \<le> marks P (snd (complete en p w))"
    and "list_all continues (fst (complete en p w))"
    and "promised P p \<Longrightarrow>
           marks P w < marks P (snd (complete en p w))
           \<or> list_ex (promised P) (fst (complete en p w))"
proof -
  obtain c h rest where p: "p = (c, h, rest)" by (cases p)
  obtain cont eff where h: "h (respond en (trace w) c) = (cont, eff)"
    by (cases "h (respond en (trace w) c)")
  have cont: "cont" using assms(2) p h by (auto simp: continues_def dest: spec[of _ "respond en (trace w) c"])
  define w1 where "w1 = w\<lparr>clock := clock w + duration en (trace w) c\<rparr>"
  have rest: "list_all (step_ok (no_less P)) rest" "list_all goes_on rest"
    using assms p by (simp_all add: pending_ok_def continues_def)
  have c: "complete en p w = start_task rest (eff w1)"
    using p h cont by (simp add: complete_def w1_def Let_def)
  have 1: "marks P w = marks P w1" by (simp add: w1_def marks_def)
  have "no_less P w1 (snd (h (respond en (trace w) c)) w1)"
    using assms(1) p by (simp add: pending_ok_def)
  then have 2: "marks P w \<le> marks P (eff w1)" using h 1 by (simp add: no_less_def)
  show "marks P w \<le> marks P (snd (complete en p w))"
    using start_task_marks(1)[OF rest, of "eff w1"] 2 c by simp
  show "list_all continues (fst (complete en p w))"
    using start_task_marks(2)[OF rest, of "eff w1"] c by simp
  assume "promised P p"
  then consider "adds P eff" | "list_ex (promising P) rest"
    using p h by (auto simp: promised_def dest: spec[of _ "respond en (trace w) c"])
  then show "marks P w < marks P (snd (complete en p w))
             \<or> list_ex (promised P) (fst (complete en p w))"
  proof cases
    case 1
    then have "marks P w < marks P (eff w1)"
      using \<open>marks P w = marks P w1\<close> by (simp add: adds_def)
    then show ?thesis using start_task_marks(1)[OF rest, of "eff w1"] c by simp
  next
    case 2
    then show ?thesis
      using start_task_marks(3)[OF rest, of "eff w1"] 2 c \<open>marks P w \<le> marks P (eff w1)\<close>
      by auto
  qed
qed

lemma run_pending_marks:
  "list_all (pending_ok (no_less P)) ps \<Longrightarrow> list_all continues ps \<Longrightarrow>
   b < marks P w \<or> (b \<le> marks P w \<and> list_ex (promised P) ps) \<Longrightarrow>
   b < marks P (run_pending en ps w)"
proof (induction en ps w rule: run_pending.induct)
  case (1 en ps w)
  show ?case
  proof (cases "ps = []")
    case True
    then show ?thesis using "1.prems"(3) by (simp add: run_pending.simps[of en "[]" w])
  next
    case False
    define k where "k = pick en (trace w) mod length ps"
    obtain ps' w' where c: "complete en (ps ! k) w = (ps', w')"
      by (cases "complete en (ps ! k) w")
    define L where "L = take k ps @ ps' @ drop (Suc k) ps"
    have k: "k < length ps" using False by (simp add: k_def)
    have pk: "pending_ok (no_less P) (ps ! k)" "continues (ps ! k)"
      using "1.prems" k by (simp_all add: list_all_length)
    have ok: "list_all (pending_ok (no_less P)) ps'"
      using complete_ok[OF steady_calm[OF steady_no_less] pk(1), of w en] c by simp
    have m: "marks P w \<le> marks P w'" and co: "list_all continues ps'"
      using complete_marks(1)[OF pk, where w = w and en = en]
        complete_marks(2)[OF pk, where w = w and en = en] c by simp_all
    have all: "list_all (pending_ok (no_less P)) L"
      unfolding L_def using pending_ok_replace[of "no_less P" ps ps' k] "1.prems"(1) ok by blast
    have allc: "list_all continues L"
      unfolding L_def using "1.prems"(2) co
      by (auto simp: list_all_iff dest: in_set_takeD in_set_dropD)
    have split: "ps = take k ps @ [ps ! k] @ drop (Suc k) ps"
      using k by (simp add: id_take_nth_drop[symmetric])
    have goal: "b < marks P w' \<or> (b \<le> marks P w' \<and> list_ex (promised P) L)"
    proof (cases "b < marks P w")
      case True
      then show ?thesis using m by simp
    next
      case False
      then have b: "b \<le> marks P w" and ex: "list_ex (promised P) ps"
        using "1.prems"(3) by simp_all
      then have "list_ex (promised P) (take k ps @ [ps ! k] @ drop (Suc k) ps)"
        using split by simp
      then consider "promised P (ps ! k)"
        | "list_ex (promised P) (take k ps) \<or> list_ex (promised P) (drop (Suc k) ps)"
        by auto
      then show ?thesis
      proof cases
        case 1
        then show ?thesis
          using complete_marks(3)[OF pk, where w = w and en = en] c b m by (auto simp: L_def)
      next
        case 2
        then show ?thesis using b m by (auto simp: L_def)
      qed
    qed
    have "b < marks P (run_pending en L w')"
      using "1.IH"[OF False k_def c[symmetric] all[unfolded L_def] allc[unfolded L_def]
          goal[unfolded L_def]] by (simp add: L_def)
    then show ?thesis
      using False c by (simp add: run_pending.simps[of en ps w] k_def[symmetric] L_def)
  qed
qed

text \<open>
  The call that uninstalls the chart of a component, the console lines that end a block
  (undeployed, or the warning of its \<^verbatim>\<open>catch\<close>), the blocks of the first batch, and what
  they do before any reply is handled: each starts its first child process.
\<close>

definition uninstall_of :: "component \<Rightarrow> call" where
  "uninstall_of c = uninstall_call (component_release c) (component_namespace c)"

definition finished :: "component \<Rightarrow> event \<Rightarrow> bool" where
  "finished c e = (e = Log (component_title c @ '' undeployed'')
                   \<or> e = Log (''Warning: Failed to undeploy '' @ component_name c))"

definition batch :: "bool \<Rightarrow> step list list" where
  "batch sp = [opa_task] @ (if sp then [spark_task] else []) @ [trino_task]"

definition batch_start :: "bool \<Rightarrow> event list" where
  "batch_start sp =
     [Log ''Undeploying OPA...'',
      Exec (Execa ''kubectl'' [''delete'', ''configmap'', ''opa-policies'', ''opa''])]
     @ (if sp then [Log ''Undeploying Spark Operator...'',
                    Log ''Deleting running Spark applications...'',
                    Exec (Execa ''kubectl'' [''delete'', ''sparkapplications'', ''--all'', ''spark''])]
        else [])
     @ [Log ''Undeploying Trino...'', Log ''Uninstalling Helm chart'', Exec (uninstall_of Trino)]"

text \<open>The trace grows, and none of the given calls is started.\<close>

definition spares :: "call list \<Rightarrow> world \<Rightarrow> world \<Rightarrow> bool" where
  "spares cs w w' = (\<exists>evs. trace w' = trace w @ evs \<and> (\<forall>c\<in>set cs. Exec c \<notin> set evs))"

lemma spares_refl: "spares cs w w"
  by (simp add: spares_def)

lemma spares_trans:
  assumes "spares cs a b" "spares cs b c"
  shows "spares cs a c"
proof -
  obtain e1 where 1: "trace b = trace a @ e1" "\<forall>c\<in>set cs. Exec c \<notin> set e1"
    using assms(1) by (auto simp: spares_def)
  obtain e2 where 2: "trace c = trace b @ e2" "\<forall>c\<in>set cs. Exec c \<notin> set e2"
    using assms(2) by (auto simp: spares_def)
  have "trace c = trace a @ (e1 @ e2)" "\<forall>c\<in>set cs. Exec c \<notin> set (e1 @ e2)"
    using 1 2 by simp_all
  then show ?thesis unfolding spares_def by blast
qed

lemma calm_spares: "calm (spares cs)"
  unfolding calm_def preorder_on_worlds_def
  using spares_refl spares_trans by (auto simp: spares_def)

lemma allows_spares: "c \<notin> set cs \<Longrightarrow> allows (spares cs) c"
  by (auto simp: allows_def spares_def)

lemma spares_clear: "rel_io (spares cs) (clearComponentState c)"
  by (simp add: rel_io_def spares_def clearComponentState_eq)

lemma no_less_clear: "rel_io (no_less P) (clearComponentState c)"
  by (simp add: rel_io_def no_less_def marks_def clearComponentState_eq)

lemmas release_names = uninstall_of_def uninstall_call_def component_release_def
  component_namespace_def

lemma batch_step_ok:
  assumes "calm R" "list_all (allows R) batch_calls" 
    "rel_io R (clearComponentState Opa)" "rel_io R (clearComponentState Spark)"
    "rel_io R (clearComponentState Trino)"
  shows "list_all (list_all (step_ok R)) (batch sp)"
  by (simp add: batch_def tasks_ok[OF assms])

lemma fst_start_tasks:
  "list_all (\<lambda>t. t \<noteq> []) ts \<Longrightarrow>
   fst (start_tasks ts w) = map (\<lambda>t. (awaited (hd t), after (hd t), tl t)) ts"
proof (induction ts arbitrary: w)
  case Nil
  then show ?case by simp
next
  case (Cons t ts)
  then obtain s rest where t: "t = s # rest" by (cases t) auto
  obtain ps w2 where r: "start_tasks ts (issue s w) = (ps, w2)"
    by (cases "start_tasks ts (issue s w)")
  show ?case
    using Cons.IH[of "issue s w"] Cons.prems t r
    by (simp add: start_task_def)
qed

definition batch_pending :: "bool \<Rightarrow> pending list" where
  "batch_pending sp = map (\<lambda>t. (awaited (hd t), after (hd t), tl t)) (batch sp)"

lemma start_batch:
  "start_tasks (batch sp) w = (batch_pending sp, w\<lparr>trace := trace w @ batch_start sp\<rparr>)"
proof -
  have "fst (start_tasks (batch sp) w) = batch_pending sp"
    unfolding batch_pending_def
    by (rule fst_start_tasks)
       (simp add: batch_def opa_task_def spark_task_def trino_task_def)
  moreover have "snd (start_tasks (batch sp) w) = w\<lparr>trace := trace w @ batch_start sp\<rparr>"
    by (simp add: batch_def batch_start_def start_task_def issue_def opa_task_def
        spark_task_def trino_task_def uninstall_step_def run_def log_def thenIO_def bindIO_def
        uninstall_of_def)
  ultimately show ?thesis by (simp add: prod_eq_iff)
qed

lemma batch_continues: "list_all continues (batch_pending sp)"
  by (simp add: batch_pending_def batch_def continues_def goes_on_def opa_task_def
      spark_task_def trino_task_def uninstall_step_def)

lemma batch_pending_ok:
  assumes "calm R" "list_all (allows R) batch_calls" 
    "rel_io R (clearComponentState Opa)" "rel_io R (clearComponentState Spark)"
    "rel_io R (clearComponentState Trino)"
  shows "list_all (pending_ok R) (batch_pending sp)"
  using start_tasks_ok[OF assms(1) batch_step_ok[OF assms], where w = w and sp1 = sp]
    start_batch[where w = w and sp = sp]
  by simp

lemma promise_all_batch:
  "promise_all en (batch sp) w =
     (Inr (), run_pending en (batch_pending sp) (w\<lparr>trace := trace w @ batch_start sp\<rparr>))"
  by (simp add: promise_all_def start_batch)

lemma batch_allows_no_less: "list_all (allows (no_less P)) batch_calls"
  by (simp add: batch_calls_def steady_allows[OF steady_no_less])

lemma batch_adds:
  assumes "list_ex (promised P) (batch_pending sp)"
  shows "marks P w < marks P (run_pending en (batch_pending sp) w)"
  by (rule run_pending_marks[OF batch_pending_ok[OF steady_calm[OF steady_no_less]
          batch_allows_no_less no_less_clear no_less_clear no_less_clear] batch_continues])
     (simp add: assms)

lemma uninstall_step_finishes: "adds (finished c) (snd (after (uninstall_step c pre) r))"
  by (cases r)
     (simp_all add: adds_def uninstall_step_def run_def catchIO_def thenIO_def bindIO_def
       uninstall_reply_def log_def throwIO_def clearComponentState_eq marks_def
       finished_def)

lemma promised_uninstall_Opa:
  "list_ex (promised (\<lambda>e. e = Exec (uninstall_of Opa))) (batch_pending sp)"
  by (simp add: batch_pending_def batch_def promised_def promising_def opa_task_def
      uninstall_step_def uninstall_of_def)

lemma promised_uninstall_Spark:
  "list_ex (promised (\<lambda>e. e = Exec (uninstall_of Spark))) (batch_pending True)"
  by (simp add: batch_pending_def batch_def promised_def promising_def spark_task_def
      uninstall_step_def uninstall_of_def)

lemma promised_finished_Opa: "list_ex (promised (finished Opa)) (batch_pending sp)"
  using uninstall_step_finishes[of Opa]
  by (simp add: batch_pending_def batch_def promised_def promising_def opa_task_def)

lemma promised_finished_Spark: "list_ex (promised (finished Spark)) (batch_pending True)"
  using uninstall_step_finishes[of Spark]
  by (simp add: batch_pending_def batch_def promised_def promising_def spark_task_def)

lemma promised_finished_Trino: "list_ex (promised (finished Trino)) (batch_pending sp)"
  using uninstall_step_finishes[of Trino]
  by (simp add: batch_pending_def batch_def promised_def promising_def trino_task_def)

lemma marks_suffix:
  assumes "trace w' = trace w @ evs" "marks P w < marks P w'"
  shows "list_ex P evs"
proof -
  have "filter P evs \<noteq> []" using assms by (auto simp: marks_def)
  then show ?thesis by (simp add: list_ex_iff filter_empty_conv)
qed

lemma batch_spares:
  "list_all (pending_ok (spares [uninstall_of Polaris, uninstall_of Keycloak])) (batch_pending sp)"
  by (rule batch_pending_ok[OF calm_spares _ spares_clear spares_clear spares_clear])
     (simp add: batch_calls_def allows_spares release_names)

lemma batch_keeps_record:
  assumes "c \<noteq> Opa" "c \<noteq> Spark" "c \<noteq> Trino"
  shows "list_all (pending_ok (keeps (record_is c v))) (batch_pending sp)"
proof -
  have cl: "rel_io (keeps (record_is c v)) (clearComponentState c')" if "c' \<noteq> c" for c'
    using that by (simp add: rel_io_def keeps_def record_is_def clearComponentState_eq)
  show ?thesis
    using assms
    by (intro batch_pending_ok[OF steady_calm[OF steady_record_is]] cl)
       (simp_all add: batch_calls_def steady_allows[OF steady_record_is])
qed

text \<open>What the first batch leaves, whatever the replies and the order in which they come.\<close>

lemma batch_result:
  fixes w :: world and sp :: bool and en :: env
  defines "w1 \<equiv> run_pending en (batch_pending sp) (w\<lparr>trace := trace w @ batch_start sp\<rparr>)"
  shows "\<exists>r1. trace w1 = trace w @ batch_start sp @ r1
           \<and> Exec (uninstall_of Opa) \<in> set r1
           \<and> (sp \<longrightarrow> Exec (uninstall_of Spark) \<in> set r1)
           \<and> list_ex (finished Opa) r1 \<and> list_ex (finished Trino) r1
           \<and> (sp \<longrightarrow> list_ex (finished Spark) r1)
           \<and> Exec (uninstall_of Polaris) \<notin> set r1
           \<and> Exec (uninstall_of Keycloak) \<notin> set r1"
    and "get_component (components (mem w1)) Polaris = get_component (components (mem w)) Polaris"
    and "get_component (components (mem w1)) Keycloak = get_component (components (mem w)) Keycloak"
proof -
  define ws where "ws = w\<lparr>trace := trace w @ batch_start sp\<rparr>"
  have w1: "w1 = run_pending en (batch_pending sp) ws" by (simp add: w1_def ws_def)
  have "spares [uninstall_of Polaris, uninstall_of Keycloak] ws w1"
    unfolding w1 by (rule run_pending_ok[OF calm_spares batch_spares])
  then obtain r1 where r1: "trace w1 = trace ws @ r1"
      "Exec (uninstall_of Polaris) \<notin> set r1" "Exec (uninstall_of Keycloak) \<notin> set r1"
    by (auto simp: spares_def)
  have m: "list_ex P r1" if "list_ex (promised P) (batch_pending sp)" for P
    using marks_suffix[OF r1(1)] batch_adds[OF that, of ws en] by (simp add: w1)
  have a: "Exec (uninstall_of Opa) \<in> set r1"
    using m[OF promised_uninstall_Opa] by (simp add: list_ex_iff)
  have b: "sp \<longrightarrow> Exec (uninstall_of Spark) \<in> set r1"
    using m[of "\<lambda>e. e = Exec (uninstall_of Spark)"] promised_uninstall_Spark
    by (auto simp: list_ex_iff)
  have c: "list_ex (finished Opa) r1" "list_ex (finished Trino) r1"
    using m[OF promised_finished_Opa] m[OF promised_finished_Trino] by simp_all
  have d: "sp \<longrightarrow> list_ex (finished Spark) r1"
    using m[of "finished Spark"] promised_finished_Spark by auto
  show "\<exists>r1. trace w1 = trace w @ batch_start sp @ r1
           \<and> Exec (uninstall_of Opa) \<in> set r1
           \<and> (sp \<longrightarrow> Exec (uninstall_of Spark) \<in> set r1)
           \<and> list_ex (finished Opa) r1 \<and> list_ex (finished Trino) r1
           \<and> (sp \<longrightarrow> list_ex (finished Spark) r1)
           \<and> Exec (uninstall_of Polaris) \<notin> set r1
           \<and> Exec (uninstall_of Keycloak) \<notin> set r1"
    using r1 a b c d by (intro exI[of _ r1]) (simp add: ws_def)
  have k: "get_component (components (mem w1)) c = get_component (components (mem w)) c"
    if "c \<noteq> Opa" "c \<noteq> Spark" "c \<noteq> Trino" for c
  proof -
    have "keeps (record_is c (get_component (components (mem w)) c)) ws w1"
      unfolding w1
      by (rule run_pending_ok[OF steady_calm[OF steady_record_is] batch_keeps_record[OF that]])
    then show ?thesis by (simp add: keeps_def record_is_def ws_def)
  qed
  show "get_component (components (mem w1)) Polaris = get_component (components (mem w)) Polaris"
    by (rule k) simp_all
  show "get_component (components (mem w1)) Keycloak = get_component (components (mem w)) Keycloak"
    by (rule k) simp_all
qed

text \<open>One of the two blocks that run after the batch, on a component that is deployed.\<close>

lemma undeploy_block_result:
  assumes "is_deployed (mem w) c"
  shows "\<exists>w' evs.
           undeploy_block c (thenIO (log a) (thenIO (uninstallChart en rel ns) (log b))) w
             = (Inr (), w')
           \<and> trace w' = trace w @ evs
           \<and> Exec (uninstall_call rel ns) \<in> set evs
           \<and> (\<forall>c'. Exec c' \<in> set evs \<longrightarrow> c' = uninstall_call rel ns)
           \<and> (\<forall>c'. c' \<noteq> c \<longrightarrow> get_component (components (mem w')) c'
                                  = get_component (components (mem w)) c')"
proof (cases "respond en (trace w @ [Log a, Log ''Uninstalling Helm chart''])
                (uninstall_call rel ns)")
  case (Ok out)
  then show ?thesis
    using assms
    by (simp add: undeploy_block_def monad_defs uninstallChart_def uninstall_reply_def
        clearComponentState_eq)
next
  case (Err code stderr)
  then show ?thesis
    using assms
    by (simp add: undeploy_block_def monad_defs uninstallChart_def uninstall_reply_def
        clearComponentState_eq)
qed

text \<open>
  C6. \<^verbatim>\<open>undeployComponents\<close> on a state in which keycloak, polaris, trino and opa are
  deployed, whatever the environment replies and in whatever order the replies come: first
  every block of the batch (opa, spark if it is deployed, trino) starts its first child
  process, before any reply is handled; then, in the part \<open>r1\<close> of the trace, the charts
  of opa and spark are uninstalled and every block of the batch ends, with its success line
  or with the warning of its \<^verbatim>\<open>catch\<close> (a failure of one block stops no other); the charts
  of polaris and keycloak are not touched in the batch. Only then, in \<open>b2\<close>, polaris is
  uninstalled, without keycloak being touched; and only after that, in \<open>b3\<close>, keycloak.
\<close>

theorem teardown_order:
  assumes "is_deployed (mem w) Keycloak" "is_deployed (mem w) Polaris"
    "is_deployed (mem w) Trino" "is_deployed (mem w) Opa"
  shows "\<exists>r1 b2 b3.
     trace (snd (undeployComponents en w)) =
       trace w @ [Log ''Step 1: Undeploying Components'']
         @ batch_start (is_deployed (mem w) Spark) @ r1 @ b2 @ b3
     \<and> Exec (uninstall_of Trino) \<in> set (batch_start (is_deployed (mem w) Spark))
     \<and> Exec (uninstall_of Opa) \<in> set r1
     \<and> (is_deployed (mem w) Spark \<longrightarrow> Exec (uninstall_of Spark) \<in> set r1)
     \<and> list_ex (finished Trino) r1 \<and> list_ex (finished Opa) r1
     \<and> (is_deployed (mem w) Spark \<longrightarrow> list_ex (finished Spark) r1)
     \<and> Exec (uninstall_of Polaris) \<notin> set (batch_start (is_deployed (mem w) Spark) @ r1)
     \<and> Exec (uninstall_of Keycloak) \<notin> set (batch_start (is_deployed (mem w) Spark) @ r1)
     \<and> Exec (uninstall_of Polaris) \<in> set b2
     \<and> Exec (uninstall_of Keycloak) \<notin> set b2
     \<and> Exec (uninstall_of Keycloak) \<in> set b3"
proof -
  define sp where "sp = is_deployed (mem w) Spark"
  define w0 where "w0 = w\<lparr>trace := trace w @ [Log ''Step 1: Undeploying Components'']\<rparr>"
  define w1 where
    "w1 = run_pending en (batch_pending sp) (w0\<lparr>trace := trace w0 @ batch_start sp\<rparr>)"
  obtain r1 where r1: "trace w1 = trace w0 @ batch_start sp @ r1"
      "Exec (uninstall_of Opa) \<in> set r1" "sp \<longrightarrow> Exec (uninstall_of Spark) \<in> set r1"
      "list_ex (finished Opa) r1" "list_ex (finished Trino) r1"
      "sp \<longrightarrow> list_ex (finished Spark) r1"
      "Exec (uninstall_of Polaris) \<notin> set r1" "Exec (uninstall_of Keycloak) \<notin> set r1"
    using batch_result(1)[of en sp w0] unfolding w1_def by blast
  have p1: "is_deployed (mem w1) Polaris" and k1: "is_deployed (mem w1) Keycloak"
    using batch_result(2,3)[of en sp w0] assms(1,2)
    by (simp_all add: w1_def is_deployed_def w0_def)
  obtain w2 b2 where w2:
      "undeploy_block Polaris (undeployPolaris en) w1 = (Inr (), w2)"
      "trace w2 = trace w1 @ b2" "Exec (uninstall_of Polaris) \<in> set b2"
      "\<forall>c'. Exec c' \<in> set b2 \<longrightarrow> c' = uninstall_of Polaris"
      "\<forall>c'. c' \<noteq> Polaris \<longrightarrow> get_component (components (mem w2)) c'
                                  = get_component (components (mem w1)) c'"
    using undeploy_block_result[OF p1, of "''Undeploying Polaris...''" en "''polaris''"
        "''polaris''" "''Polaris undeployed''"]
    unfolding undeployPolaris_def release_names by (auto simp: component.simps)
  have "get_component (components (mem w2)) Keycloak
        = get_component (components (mem w1)) Keycloak"
    using w2(5)[rule_format, of Keycloak] by simp
  then have k2: "is_deployed (mem w2) Keycloak"
    using k1 by (simp add: is_deployed_def)
  obtain w3 b3 where w3:
      "undeploy_block Keycloak (undeployKeycloak en) w2 = (Inr (), w3)"
      "trace w3 = trace w2 @ b3" "Exec (uninstall_of Keycloak) \<in> set b3"
    using undeploy_block_result[OF k2, of "''Undeploying Keycloak...''" en "''keycloak''"
        "''keycloak''" "''Keycloak undeployed''"]
    unfolding undeployKeycloak_def release_names by (auto simp: component.simps)
  have tasks: "(if is_deployed (mem w0) Opa then [opa_task] else [])
        @ (if is_deployed (mem w0) Spark then [spark_task] else [])
        @ (if is_deployed (mem w0) Trino then [trino_task] else []) = batch sp"
    using assms(3,4) by (simp add: batch_def sp_def w0_def)
  have run: "snd (undeployComponents en w) = w3\<lparr>trace := trace w3 @ [Log ''Components undeployed'']\<rparr>"
    using w2(1) w3(1) promise_all_batch[of en sp w0] tasks
    by (simp add: undeployComponents_def thenIO_def bindIO_def getState_def log_def
        w0_def[symmetric] w1_def[symmetric])
  have nk: "Exec (uninstall_of Keycloak) \<notin> set b2"
    using w2(4) by (auto simp: release_names)
  have start: "Exec (uninstall_of Trino) \<in> set (batch_start sp)"
      "Exec (uninstall_of Polaris) \<notin> set (batch_start sp)"
      "Exec (uninstall_of Keycloak) \<notin> set (batch_start sp)"
    by (simp_all add: batch_start_def release_names)
  have tr: "trace (snd (undeployComponents en w)) =
       trace w @ [Log ''Step 1: Undeploying Components''] @ batch_start sp @ r1 @ b2
         @ (b3 @ [Log ''Components undeployed''])"
    using run r1(1) w2(2) w3(2) by (simp add: w0_def)
  show ?thesis
    unfolding sp_def[symmetric]
    using tr r1 w2(3) w3(3) nk start
    by (intro exI[of _ r1] exI[of _ b2] exI[of _ "b3 @ [Log ''Components undeployed'']"]) simp
qed

text \<open>C6 on that lab, in the environment where every call succeeds.\<close>

theorem teardown_order_witness:
  "is_deployed (mem (world_with full_lab_state)) Keycloak
   \<and> is_deployed (mem (world_with full_lab_state)) Polaris
   \<and> is_deployed (mem (world_with full_lab_state)) Trino
   \<and> is_deployed (mem (world_with full_lab_state)) Opa
   \<and> is_deployed (mem (world_with full_lab_state)) Spark
   \<and> (\<exists>r1 b2 b3.
     trace (snd (undeployComponents all_ok (world_with full_lab_state))) =
       [Log ''Step 1: Undeploying Components''] @ batch_start True @ r1 @ b2 @ b3
     \<and> Exec (uninstall_of Trino) \<in> set (batch_start True)
     \<and> Exec (uninstall_of Opa) \<in> set r1
     \<and> Exec (uninstall_of Spark) \<in> set r1
     \<and> list_ex (finished Trino) r1 \<and> list_ex (finished Opa) r1
     \<and> list_ex (finished Spark) r1
     \<and> Exec (uninstall_of Polaris) \<notin> set (batch_start True @ r1)
     \<and> Exec (uninstall_of Keycloak) \<notin> set (batch_start True @ r1)
     \<and> Exec (uninstall_of Polaris) \<in> set b2
     \<and> Exec (uninstall_of Keycloak) \<notin> set b2
     \<and> Exec (uninstall_of Keycloak) \<in> set b3)"
proof -
  have d: "is_deployed (mem (world_with full_lab_state)) c" for c
    by (cases c)
       (simp_all add: world_with_def full_lab_state_def is_deployed_def already_deployed_def)
  have t: "trace (world_with full_lab_state) = []" by (simp add: world_with_def)
  show ?thesis
    using teardown_order [OF d d d d, of all_ok] d t by simp
qed

end
